theory Spec2Isabelle
  imports Complex_Main
begin

section \<open>IR types\<close>

text \<open>
  Modelled from the spec: the IR type system (types.h, ir.h) is not part of the
  sources; section 3 of the specification gives its shape. A scalar is a tensor of
  order 0 (the checker calls \<^verbatim>\<open>toTensor()\<close> on \<^verbatim>\<open>ir::Int\<close>,
  \<^verbatim>\<open>ir::Float\<close>, \<^verbatim>\<open>ir::Boolean\<close>). A tensor has a component type, a list of index
  domains (each a list of index sets, the first one the outer dimension) and the
  column-vector flag. An index set is a range, a named set (the set's name and type) or
  dynamic. A set type has an element type and the ordered list of its endpoint sets
  (name and type of each). An \<^verbatim>\<open>ir::Type\<close> that may be undefined is an
  \<open>irType option\<close>, \<open>None\<close> the undefined type.
\<close>

datatype ScalarKind = ScalarInt | ScalarFloat | ScalarBoolean

datatype irType =
    ir_TensorType ScalarKind "indexSet list list" bool
  | ir_ElementType string "(string \<times> irType) list"
  | ir_SetType irType "(string \<times> irType) list"
  | ir_TupleType irType int
and indexSet =
    IndexSet_Range int
  | IndexSet_Set string irType
  | IndexSet_Dynamic

type_synonym IndexDomain = "indexSet list"
type_synonym Type = "irType option"
type_synonym ExprType = "Type list"

text \<open>\<^verbatim>\<open>ir::Var\<close>: a name and a type that may be undefined.\<close>

type_synonym Var = "string \<times> Type"

definition ir_Int :: irType where
  "ir_Int = ir_TensorType ScalarInt [] False"

definition ir_Float :: irType where
  "ir_Float = ir_TensorType ScalarFloat [] False"

definition ir_Boolean :: irType where
  "ir_Boolean = ir_TensorType ScalarBoolean [] False"

fun isTensor :: "Type \<Rightarrow> bool" where
  "isTensor (Some (ir_TensorType c ds cv)) = True"
| "isTensor _ = False"

fun isSet :: "Type \<Rightarrow> bool" where
  "isSet (Some (ir_SetType e eps)) = True"
| "isSet _ = False"

fun isElement :: "Type \<Rightarrow> bool" where
  "isElement (Some (ir_ElementType n fs)) = True"
| "isElement _ = False"

fun isTuple :: "Type \<Rightarrow> bool" where
  "isTuple (Some (ir_TupleType e n)) = True"
| "isTuple _ = False"

fun defined :: "Type \<Rightarrow> bool" where
  "defined None = False"
| "defined (Some t) = True"

fun getComponentType :: "irType \<Rightarrow> ScalarKind" where
  "getComponentType (ir_TensorType c ds cv) = c"
| "getComponentType _ = ScalarInt"

fun getDimensions :: "irType \<Rightarrow> IndexDomain list" where
  "getDimensions (ir_TensorType c ds cv) = ds"
| "getDimensions _ = []"

fun isColumnVector :: "irType \<Rightarrow> bool" where
  "isColumnVector (ir_TensorType c ds cv) = cv"
| "isColumnVector _ = False"

definition order :: "irType \<Rightarrow> nat" where
  "order t = length (getDimensions t)"

text \<open>
  Modelled from the spec: \<^verbatim>\<open>isScalar\<close>, \<^verbatim>\<open>isInt\<close> and \<^verbatim>\<open>isBoolean\<close>
  (ir.h) hold of the tensors of order 0 (of the named component type).
\<close>

fun isScalar :: "Type \<Rightarrow> bool" where
  "isScalar (Some (ir_TensorType c ds cv)) = (ds = [])"
| "isScalar _ = False"

fun isInt :: "Type \<Rightarrow> bool" where
  "isInt (Some (ir_TensorType c ds cv)) = (ds = [] \<and> c = ScalarInt)"
| "isInt _ = False"

fun isBoolean :: "Type \<Rightarrow> bool" where
  "isBoolean (Some (ir_TensorType c ds cv)) = (ds = [] \<and> c = ScalarBoolean)"
| "isBoolean _ = False"

section \<open>Failures\<close>

text \<open>
  The exceptions of the checker: the two of the dense-literal helper and the
  \<^verbatim>\<open>std::out_of_range\<close> of \<^verbatim>\<open>vector::at\<close>. And the ways the checker
  stops the process: a failed \<^verbatim>\<open>iassert\<close>, \<^verbatim>\<open>unreachable\<close>,
  \<^verbatim>\<open>not_supported_yet\<close>, and behaviour the language leaves undefined (a null
  dereference, a read past the end of a vector).
  Modelled from the spec: the three macros (error.h) are not part of the sources;
  section 7 has internal invariants abort the compilation.
\<close>

datatype exn = TypeError | DimError | OutOfRange

datatype abort =
    IAssert string
  | Unreachable
  | NotSupportedYet
  | UndefinedBehaviour string

datatype failure = Thrown exn | Aborted abort

section \<open>Dense tensor literals\<close>

datatype DenseTensorLiteral =
    IntVectorLiteral "int list" bool
  | FloatVectorLiteral "real list" bool
  | NDTensorLiteral "DenseTensorLiteral list" bool

fun transposed :: "DenseTensorLiteral \<Rightarrow> bool" where
  "transposed (IntVectorLiteral vals tr) = tr"
| "transposed (FloatVectorLiteral vals tr) = tr"
| "transposed (NDTensorLiteral elems tr) = tr"

datatype DenseKind = Type_UNKNOWN | Type_INT | Type_FLOAT

text \<open>
  Modelled from the spec: the declaration of \<^verbatim>\<open>DenseTensorType\<close> (type_checker.h)
  is not part of the sources. It holds the scalar kind and the axis lengths, innermost
  axis first (the literal node reverses them); a fresh value has one axis of length 0 and
  no kind yet, and \<^verbatim>\<open>addDimension\<close> opens a new outermost axis holding the one
  row seen so far, so that M rows of shape S give the shape (M, S...).
\<close>

record DenseTensorType =
  dimSizes :: "nat list"
  kind :: DenseKind

definition newDenseTensorType :: DenseTensorType where
  "newDenseTensorType = \<lparr>dimSizes = [0], kind = Type_UNKNOWN\<rparr>"

definition addDimension :: "DenseTensorType \<Rightarrow> DenseTensorType" where
  "addDimension t = t\<lparr>dimSizes := dimSizes t @ [1]\<rparr>"

text \<open>\<^verbatim>\<open>dimSizes[dimSizes.size() - 1] += len\<close>; an empty vector has no such cell.\<close>

definition addToLast :: "nat \<Rightarrow> nat list \<Rightarrow> failure + nat list" where
  "addToLast len ds =
     (if ds = [] then Inl (Aborted (UndefinedBehaviour ''dimSizes[dimSizes.size() - 1]''))
      else Inr (butlast ds @ [last ds + len]))"

definition addIntValues :: "DenseTensorType \<Rightarrow> nat \<Rightarrow> failure + DenseTensorType" where
  "addIntValues t len =
     (if kind t = Type_FLOAT then Inl (Thrown TypeError)
      else case addToLast len (dimSizes t) of
             Inl f \<Rightarrow> Inl f
           | Inr ds \<Rightarrow> Inr \<lparr>dimSizes = ds, kind = Type_INT\<rparr>)"

definition addFloatValues :: "DenseTensorType \<Rightarrow> nat \<Rightarrow> failure + DenseTensorType" where
  "addFloatValues t len =
     (if kind t = Type_INT then Inl (Thrown TypeError)
      else case addToLast len (dimSizes t) of
             Inl f \<Rightarrow> Inl f
           | Inr ds \<Rightarrow> Inr \<lparr>dimSizes = ds, kind = Type_FLOAT\<rparr>)"

text \<open>
  \<^verbatim>\<open>merge\<close>: the kinds are compared first, then the number of axes, then every axis
  but the last; the last axis counts the rows.
\<close>

definition merge :: "DenseTensorType \<Rightarrow> DenseTensorType \<Rightarrow> failure + DenseTensorType" where
  "merge t other =
     (if kind t \<noteq> kind other then Inl (Thrown TypeError)
      else if dimSizes t = [] then
        Inl (Aborted (UndefinedBehaviour ''dimSizes.size() - 1''))
      else if length (dimSizes t) - 1 \<noteq> length (dimSizes other) then Inl (Thrown DimError)
      else if butlast (dimSizes t) \<noteq> dimSizes other then Inl (Thrown DimError)
      else Inr (t\<lparr>dimSizes := butlast (dimSizes t) @ [last (dimSizes t) + 1]\<rparr>))"

fun getDenseTensorType :: "DenseTensorLiteral \<Rightarrow> failure + DenseTensorType"
  and mergeElems :: "DenseTensorType \<Rightarrow> DenseTensorLiteral list \<Rightarrow> failure + DenseTensorType"
where
  "getDenseTensorType (IntVectorLiteral vals tr) =
     addIntValues newDenseTensorType (length vals)"
| "getDenseTensorType (FloatVectorLiteral vals tr) =
     addFloatValues newDenseTensorType (length vals)"
| "getDenseTensorType (NDTensorLiteral elems tr) =
     (if tr then Inl (Aborted (IAssert ''!ndTensorLit->transposed''))
      else case elems of
             [] \<Rightarrow> Inl (Aborted (UndefinedBehaviour ''ndTensorLit->elems[0]''))
           | e # es \<Rightarrow>
               (case getDenseTensorType e of
                  Inl f \<Rightarrow> Inl f
                | Inr t \<Rightarrow> mergeElems (addDimension t) es))"
| "mergeElems t [] = Inr t"
| "mergeElems t (e # es) =
     (case getDenseTensorType e of
        Inl f \<Rightarrow> Inl f
      | Inr right \<Rightarrow>
          (case merge t right of
             Inl f \<Rightarrow> Inl f
           | Inr t' \<Rightarrow> mergeElems t' es))"

section \<open>Program context\<close>

text \<open>
  Modelled from the spec: the symbol table and the program context (program_context.h)
  are not part of the sources. Section 4.3 gives a stack of maps, innermost scope first,
  looked up from the innermost scope outwards; section 4.4 the two registries of element
  types and functions. A symbol added by the one-argument \<^verbatim>\<open>addSymbol\<close> is
  readable and writable. Within one scope a later binding of a name replaces the earlier
  one.
\<close>

datatype Access = Read | Write | ReadWrite

record Symbol =
  getExpr :: Var
  access :: Access

definition isReadable :: "Symbol \<Rightarrow> bool" where
  "isReadable s = (access s = Read \<or> access s = ReadWrite)"

definition isWritable :: "Symbol \<Rightarrow> bool" where
  "isWritable s = (access s = Write \<or> access s = ReadWrite)"

datatype FuncKind = Internal | External | Intrinsic

record Func =
  getName :: string
  getArguments :: "Var list"
  getResults :: "Var list"
  getKind :: FuncKind

type_synonym Scope = "(string \<times> Symbol) list"

record ProgramContext =
  symtable :: "Scope list"
  elementTypes :: "(string \<times> irType) list"
  funcs :: "(string \<times> Func) list"

definition scope :: "ProgramContext \<Rightarrow> ProgramContext" where
  "scope ctx = ctx\<lparr>symtable := [] # symtable ctx\<rparr>"

definition unscope :: "ProgramContext \<Rightarrow> failure + ProgramContext" where
  "unscope ctx =
     (case symtable ctx of
        [] \<Rightarrow> Inl (Aborted (UndefinedBehaviour ''unscope() without a scope''))
      | s # ss \<Rightarrow> Inr (ctx\<lparr>symtable := ss\<rparr>))"

fun lookupSymbol :: "Scope list \<Rightarrow> string \<Rightarrow> Symbol option" where
  "lookupSymbol [] n = None"
| "lookupSymbol (s # ss) n =
     (case map_of s n of Some sy \<Rightarrow> Some sy | None \<Rightarrow> lookupSymbol ss n)"

definition hasSymbol :: "ProgramContext \<Rightarrow> string \<Rightarrow> bool" where
  "hasSymbol ctx n = (lookupSymbol (symtable ctx) n \<noteq> None)"

definition hasSymbolLocal :: "ProgramContext \<Rightarrow> string \<Rightarrow> bool" where
  "hasSymbolLocal ctx n =
     (case symtable ctx of [] \<Rightarrow> False | s # ss \<Rightarrow> map_of s n \<noteq> None)"

definition getSymbol :: "ProgramContext \<Rightarrow> string \<Rightarrow> failure + Symbol" where
  "getSymbol ctx n =
     (case lookupSymbol (symtable ctx) n of
        None \<Rightarrow> Inl (Aborted (IAssert ''getSymbol: hasSymbol(name)''))
      | Some sy \<Rightarrow> Inr sy)"

definition addSymbolAccess :: "ProgramContext \<Rightarrow> string \<Rightarrow> Var \<Rightarrow> Access \<Rightarrow> failure + ProgramContext" where
  "addSymbolAccess ctx n v a =
     (case symtable ctx of
        [] \<Rightarrow> Inl (Aborted (UndefinedBehaviour ''addSymbol() without a scope''))
      | s # ss \<Rightarrow> Inr (ctx\<lparr>symtable := ((n, \<lparr>getExpr = v, access = a\<rparr>) # s) # ss\<rparr>))"

definition addSymbol :: "ProgramContext \<Rightarrow> Var \<Rightarrow> failure + ProgramContext" where
  "addSymbol ctx v = addSymbolAccess ctx (fst v) v ReadWrite"

definition containsElementType :: "ProgramContext \<Rightarrow> string \<Rightarrow> bool" where
  "containsElementType ctx n = (map_of (elementTypes ctx) n \<noteq> None)"

definition addElementType :: "ProgramContext \<Rightarrow> string \<Rightarrow> irType \<Rightarrow> ProgramContext" where
  "addElementType ctx n t = ctx\<lparr>elementTypes := (n, t) # elementTypes ctx\<rparr>"

definition containsFunction :: "ProgramContext \<Rightarrow> string \<Rightarrow> bool" where
  "containsFunction ctx n = (map_of (funcs ctx) n \<noteq> None)"

definition addFunction :: "ProgramContext \<Rightarrow> Func \<Rightarrow> ProgramContext" where
  "addFunction ctx f = ctx\<lparr>funcs := (getName f, f) # funcs ctx\<rparr>"

section \<open>Results of a visit\<close>

text \<open>
  A visit returns the diagnostics it reported, in order, and the value of its out-slot;
  or it fails. The spans of the nodes are not modelled, a diagnostic is its message; the
  rendering of a type or a number inside a message is written \<^verbatim>\<open><T>\<close>,
  \<^verbatim>\<open><N>\<close>.
\<close>

type_synonym 'a Res = "failure + (string list \<times> 'a)"

definition bindF :: "failure + 'a \<Rightarrow> ('a \<Rightarrow> failure + 'b) \<Rightarrow> failure + 'b" where
  "bindF m f = (case m of Inl e \<Rightarrow> Inl e | Inr x \<Rightarrow> f x)"

definition quoted :: "string \<Rightarrow> string" where
  "quoted s = [CHR 0x27] @ s @ [CHR 0x27]"

definition reportUndeclared :: "string \<Rightarrow> string \<Rightarrow> string" where
  "reportUndeclared ty ident = ''undeclared '' @ ty @ '' '' @ quoted ident"

definition reportMultipleDefs :: "string \<Rightarrow> string \<Rightarrow> string" where
  "reportMultipleDefs ty ident = ''multiple definitions of '' @ ty @ '' '' @ quoted ident"

text \<open>
  \<^verbatim>\<open>compareTypes\<close>: both types must be defined; tensors are compared with their
  column-vector flags, everything else structurally.
\<close>

definition compareTypes :: "Type \<Rightarrow> Type \<Rightarrow> failure + bool" where
  "compareTypes l r =
     (if defined l \<and> defined r then Inr (l = r)
      else Inl (Aborted (IAssert ''l.defined() && r.defined()'')))"

text \<open>\<^verbatim>\<open>toTensor()\<close> of a type that is not a tensor.\<close>

definition toTensor :: "Type \<Rightarrow> failure + irType" where
  "toTensor t =
     (case t of
        Some (ir_TensorType c ds cv) \<Rightarrow> Inr (ir_TensorType c ds cv)
      | _ \<Rightarrow> Inl (Aborted (IAssert ''isTensor()'')))"

section \<open>HIR\<close>

text \<open>
  Modelled from the spec: the declarations of the HIR nodes (hir.h) are not part of the
  sources. The nodes are those of section 4.5 of the specification and those the checker
  visits, each with the fields its visit reads; the source spans are left out.
\<close>

datatype IndexSet = RangeIndexSet int | SetIndexSet string | DynamicIndexSet

datatype ScalarTypeKind = ScalarType_INT | ScalarType_FLOAT | ScalarType_BOOL

text \<open>
  \<^verbatim>\<open>NDTensorType\<close>: block type, index sets, column-vector flag. The block of a
  tensor type is itself a tensor type (scalar or blocked).
\<close>

datatype TensorType =
    ScalarType ScalarTypeKind
  | NDTensorType TensorType "IndexSet list" bool

text \<open>
  \<^verbatim>\<open>SetType\<close>: the name of the element type and the names of the endpoint sets;
  \<^verbatim>\<open>TupleType\<close>: the name of the element type and the length.
\<close>

datatype hirType =
    ElementType string
  | SetType string "string list"
  | TupleType string int
  | TensorTypeNode TensorType

record IdentDecl =
  ident :: string
  declType :: hirType

section \<open>Lowering type syntax\<close>

fun getIndexSet :: "ProgramContext \<Rightarrow> IndexSet \<Rightarrow> (indexSet option) Res" where
  "getIndexSet ctx (RangeIndexSet n) = Inr ([], Some (IndexSet_Range n))"
| "getIndexSet ctx (SetIndexSet setName) =
     (if \<not> hasSymbol ctx setName then Inr ([reportUndeclared ''set'' setName], None)
      else bindF (getSymbol ctx setName) (\<lambda>sy.
        case getExpr sy of
          (n, Some (ir_SetType e eps)) \<Rightarrow> Inr ([], Some (IndexSet_Set n (ir_SetType e eps)))
        | _ \<Rightarrow> Inr ([''index set must be a set, a range, or dynamic (*)''], None)))"
| "getIndexSet ctx DynamicIndexSet = Inr ([], Some IndexSet_Dynamic)"

definition visit_ElementType :: "ProgramContext \<Rightarrow> string \<Rightarrow> Type Res" where
  "visit_ElementType ctx n =
     (if \<not> containsElementType ctx n then Inr ([reportUndeclared ''element type'' n], None)
      else Inr ([], map_of (elementTypes ctx) n))"

definition visit_Endpoint :: "ProgramContext \<Rightarrow> string \<Rightarrow> (Var option) Res" where
  "visit_Endpoint ctx setName =
     (if \<not> hasSymbol ctx setName then Inr ([reportUndeclared ''set'' setName], None)
      else bindF (getSymbol ctx setName) (\<lambda>sy. Inr ([], Some (getExpr sy))))"

text \<open>
  The loop of \<^verbatim>\<open>visit(SetType)\<close> over the endpoints: whether every endpoint
  checked, and the endpoints kept.
\<close>

fun checkEndpoints :: "ProgramContext \<Rightarrow> string list \<Rightarrow> (bool \<times> (string \<times> irType) list) Res" where
  "checkEndpoints ctx [] = Inr ([], (True, []))"
| "checkEndpoints ctx (e # es) =
     bindF (visit_Endpoint ctx e) (\<lambda>(d1, endpoint).
     bindF (checkEndpoints ctx es) (\<lambda>(d2, (ok, eps)).
       case endpoint of
         None \<Rightarrow> Inr (d1 @ d2, (False, eps))
       | Some (n, Some (ir_SetType el ee)) \<Rightarrow> Inr (d1 @ d2, (ok, (n, ir_SetType el ee) # eps))
       | Some (n, _) \<Rightarrow>
           Inr (d1 @ [''expected endpoint to be of set type but got an endpoint of type <T>'']
                   @ d2, (False, eps))))"

definition visit_SetType :: "ProgramContext \<Rightarrow> string \<Rightarrow> string list \<Rightarrow> Type Res" where
  "visit_SetType ctx element ends =
     bindF (visit_ElementType ctx element) (\<lambda>(d1, elementType).
     bindF (checkEndpoints ctx ends) (\<lambda>(d2, (ok, endpoints)).
       case elementType of
         None \<Rightarrow> Inr (d1 @ d2, None)
       | Some et \<Rightarrow>
           if \<not> ok then Inr (d1 @ d2, None)
           else Inr (d1 @ d2, Some (ir_SetType et endpoints))))"

definition visit_TupleType :: "ProgramContext \<Rightarrow> string \<Rightarrow> int \<Rightarrow> Type Res" where
  "visit_TupleType ctx element len =
     bindF (visit_ElementType ctx element) (\<lambda>(d1, elementType).
       if len < 1 then
         Inr (d1 @ [''tuple must have length greater than or equal to one''], None)
       else case elementType of
              None \<Rightarrow> Inr (d1, None)
            | Some et \<Rightarrow> Inr (d1, Some (ir_TupleType et len)))"

fun visit_ScalarType :: "ScalarTypeKind \<Rightarrow> irType" where
  "visit_ScalarType ScalarType_INT = ir_Int"
| "visit_ScalarType ScalarType_FLOAT = ir_Float"
| "visit_ScalarType ScalarType_BOOL = ir_Boolean"

text \<open>The loop of \<^verbatim>\<open>visit(NDTensorType)\<close> over the index sets.\<close>

fun getIndexSets :: "ProgramContext \<Rightarrow> IndexSet list \<Rightarrow> (bool \<times> indexSet list) Res" where
  "getIndexSets ctx [] = Inr ([], (True, []))"
| "getIndexSets ctx (i # is) =
     bindF (getIndexSet ctx i) (\<lambda>(d1, indexSet).
     bindF (getIndexSets ctx is) (\<lambda>(d2, (ok, indexSets)).
       case indexSet of
         None \<Rightarrow> Inr (d1 @ d2, (False, indexSets))
       | Some x \<Rightarrow> Inr (d1 @ d2, (ok, x # indexSets))))"

text \<open>
  \<^verbatim>\<open>visit(NDTensorType)\<close> once the block type and the index sets have checked:
  the dimensions of the tensor, then the column-vector flag.
\<close>

definition blockedTensorType :: "Type \<Rightarrow> indexSet list \<Rightarrow> Type Res" where
  "blockedTensorType blockType indexSets =
     (if indexSets = [] then Inr ([], blockType)
      else bindF (toTensor blockType) (\<lambda>b.
        if order b = 0 then
          Inr ([], Some (ir_TensorType (getComponentType b) (map (\<lambda>i. [i]) indexSets) False))
        else if order b = length indexSets then
          Inr ([], Some (ir_TensorType (getComponentType b)
                           (map2 (\<lambda>i d. i # d) indexSets (getDimensions b)) False))
        else
          Inr ([''blocked tensor type must contain same number of dimensions as its blocks''],
               None)))"

definition buildNDTensorType :: "Type \<Rightarrow> indexSet list \<Rightarrow> bool \<Rightarrow> Type Res" where
  "buildNDTensorType blockType indexSets columnVector =
     bindF (blockedTensorType blockType indexSets) (\<lambda>(d, ndTensorType).
       if d \<noteq> [] then Inr (d, None)
       else if columnVector then
         bindF (toTensor ndTensorType) (\<lambda>t.
           if length (getDimensions t) \<noteq> 1 then
             Inr ([''tensor type declared with <N> dimensions but column vector type must strictly contain one''],
                  None)
           else Inr ([], Some (ir_TensorType (getComponentType t) (getDimensions t) True)))
       else Inr ([], ndTensorType))"

fun visit_TensorType :: "ProgramContext \<Rightarrow> TensorType \<Rightarrow> Type Res" where
  "visit_TensorType ctx (ScalarType k) = Inr ([], Some (visit_ScalarType k))"
| "visit_TensorType ctx (NDTensorType blockType indexSets columnVector) =
     (case visit_TensorType ctx blockType of
        Inl f \<Rightarrow> Inl f
      | Inr (d1, bt) \<Rightarrow>
          bindF (getIndexSets ctx indexSets) (\<lambda>(d2, (ok, iss)).
            if \<not> (defined bt \<and> ok) then Inr (d1 @ d2, None)
            else bindF (buildNDTensorType bt iss columnVector) (\<lambda>(d3, t).
                   Inr (d1 @ d2 @ d3, t))))"

fun getIRType :: "ProgramContext \<Rightarrow> hirType \<Rightarrow> Type Res" where
  "getIRType ctx (ElementType n) = visit_ElementType ctx n"
| "getIRType ctx (SetType element ends) = visit_SetType ctx element ends"
| "getIRType ctx (TupleType element len) = visit_TupleType ctx element len"
| "getIRType ctx (TensorTypeNode t) = visit_TensorType ctx t"

text \<open>\<^verbatim>\<open>visit(IdentDecl)\<close>: the variable of a declaration.\<close>

definition getVar :: "ProgramContext \<Rightarrow> IdentDecl \<Rightarrow> Var Res" where
  "getVar ctx decl =
     bindF (getIRType ctx (declType decl)) (\<lambda>(d, t). Inr (d, (ident decl, t)))"

section \<open>Expression inference: the rule of each node\<close>

text \<open>
  Each \<^verbatim>\<open>visit\<close> of an expression first infers its operands with
  \<^verbatim>\<open>inferType\<close> and then checks the node. The functions of this section are
  the second half: they take what \<^verbatim>\<open>inferType\<close> returned for the operands
  (\<open>None\<close> for an operand whose type is undefined) and return the diagnostics of the
  node and the type it publishes in \<^verbatim>\<open>retType\<close> (\<open>None\<close> when it publishes
  none).
\<close>

type_synonym Inferred = "string list \<times> ExprType option"

text \<open>
  The operand test of the arithmetic nodes: not a single value, or not a tensor, or a
  tensor of booleans.
\<close>

definition notNumericTensor :: "ExprType \<Rightarrow> bool" where
  "notNumericTensor t =
     (case t of [Some (ir_TensorType c ds cv)] \<Rightarrow> c = ScalarBoolean | _ \<Rightarrow> True)"

definition operandError :: "string \<Rightarrow> ExprType option \<Rightarrow> string list" where
  "operandError msg ty =
     (case ty of None \<Rightarrow> [] | Some t \<Rightarrow> if notNumericTensor t then [msg] else [])"

text \<open>\<^verbatim>\<open>visit(MulExpr)\<close> from the component-type check on: the shape table.\<close>

definition mulTensors :: "irType \<Rightarrow> irType \<Rightarrow> Inferred" where
  "mulTensors ltype rtype =
     (let ldimensions = getDimensions ltype;
          rdimensions = getDimensions rtype;
          lhsOrder = order ltype;
          rhsOrder = order rtype;
          componentType = getComponentType ltype
      in
      if getComponentType ltype \<noteq> getComponentType rtype then
        ([''cannot multiply tensors containing elements of type <T> and type <T>''], None)
      else if lhsOrder = 0 \<or> rhsOrder = 0 then
        ([], Some [Some (if lhsOrder > 0 then ltype else rtype)])
      else if lhsOrder = 1 \<and> rhsOrder = 1 then
        (if isColumnVector ltype \<and> isColumnVector rtype then
           ([''cannot multiply two column vectors''], None)
         else if \<not> isColumnVector ltype \<and> \<not> isColumnVector rtype then
           ([''cannot multiply two row vectors''], None)
         else if ldimensions ! 0 \<noteq> rdimensions ! 0 then
           ([''cannot multiply vectors of type <T> and type <T>''], None)
         else
           ([], Some [Some (ir_TensorType componentType
                      (if isColumnVector ltype then [ldimensions ! 0, rdimensions ! 0] else [])
                      False)]))
      else if lhsOrder = 2 \<and> rhsOrder = 1 then
        (if ldimensions ! 1 \<noteq> rdimensions ! 0 then
           ([''cannot multiply a matrix of type <T> by a vector of type <T>''], None)
         else
           ((if \<not> isColumnVector rtype then [''Cannot multiply a matrix by a row vector'']
             else []),
            Some [Some (ir_TensorType componentType [ldimensions ! 0] True)]))
      else if lhsOrder = 1 \<and> rhsOrder = 2 then
        (if ldimensions ! 0 \<noteq> rdimensions ! 0
            \<or> getComponentType ltype \<noteq> getComponentType rtype then
           ([''cannot multiply a vector of type <T> by a matrix of type <T>''], None)
         else
           ((if isColumnVector ltype then [''Cannot multiply a column vector by a matrix'']
             else []),
            Some [Some (ir_TensorType componentType [rdimensions ! 1] False)]))
      else if lhsOrder = 2 \<and> rhsOrder = 2 then
        (if ldimensions ! 1 \<noteq> rdimensions ! 0 then
           ([''cannot multiply matrices of type <T> and type <T>''], None)
         else
           ([], Some [Some (ir_TensorType componentType
                      [ldimensions ! 0, rdimensions ! 1] False)]))
      else
        ([''cannot multiply tensors of order 3 or greater using *''], None))"

definition visit_MulExpr :: "ExprType option \<Rightarrow> ExprType option \<Rightarrow> Inferred" where
  "visit_MulExpr lhsType rhsType =
     (let dl = operandError
                 ''expected left operand of multiplication operation to be a numeric tensor but got an operand of type <T>''
                 lhsType;
          dr = operandError
                 ''expected right operand of multiplication operation to be a numeric tensor but got an operand of type <T>''
                 rhsType
      in case (lhsType, rhsType) of
           (Some [Some ltype], Some [Some rtype]) \<Rightarrow>
             if dl @ dr \<noteq> [] then (dl @ dr, None) else mulTensors ltype rtype
         | _ \<Rightarrow> (dl @ dr, None))"

definition visit_DivExpr :: "ExprType option \<Rightarrow> ExprType option \<Rightarrow> Inferred" where
  "visit_DivExpr lhsType rhsType =
     (let dl = operandError
                 ''expected left operand of division operation to be a numeric tensor but got an operand of type <T>''
                 lhsType;
          dr = operandError
                 ''expected right operand of division operation to be a numeric tensor but got an operand of type <T>''
                 rhsType
      in case (lhsType, rhsType) of
           (Some [Some ltype], Some [Some rtype]) \<Rightarrow>
             if dl @ dr \<noteq> [] then (dl @ dr, None)
             else if getComponentType ltype \<noteq> getComponentType rtype then
               ([''cannot divide tensors containing elements of type <T> and type <T>''], None)
             else if order ltype > 0 \<and> order rtype > 0 then
               ([''division of a non-scalar tensor of type <T> by a non-scalar tensor of type <T> is not supported''],
                None)
             else ([], if order ltype > 0 then lhsType else rhsType)
         | _ \<Rightarrow> (dl @ dr, None))"

definition typeCheckBinaryElwise :: "ExprType option \<Rightarrow> ExprType option \<Rightarrow> (ExprType option) Res" where
  "typeCheckBinaryElwise lhsType rhsType =
     (let dl = operandError
                 ''expected left operand of element-wise operation to be a numeric tensor but got an operand of type <T>''
                 lhsType;
          dr = operandError
                 ''expected right operand of element-wise operation to be a numeric tensor but got an operand of type <T>''
                 rhsType
      in case (lhsType, rhsType) of
           (Some [Some ltype], Some [Some rtype]) \<Rightarrow>
             if dl @ dr \<noteq> [] then Inr (dl @ dr, None)
             else
               bindF (if order ltype = 0 \<or> order rtype = 0
                      then Inr (getComponentType ltype \<noteq> getComponentType rtype)
                      else bindF (compareTypes (Some ltype) (Some rtype)) (\<lambda>eq. Inr (\<not> eq)))
                 (\<lambda>incompatible.
                    if incompatible then
                      Inr ([''cannot perform element-wise operation on tensors of type <T> and type <T>''],
                           None)
                    else Inr ([], if order ltype > 0 then lhsType else rhsType))
         | _ \<Rightarrow> Inr (dl @ dr, None))"

definition typeCheckBinaryBoolean :: "ExprType option \<Rightarrow> ExprType option \<Rightarrow> Inferred" where
  "typeCheckBinaryBoolean lhsType rhsType =
     ((case lhsType of
         None \<Rightarrow> []
       | Some t \<Rightarrow>
           if length t \<noteq> 1 \<or> \<not> isBoolean (t ! 0) then
             [''expected left operand of boolean operation to be a boolean but got an operand of type <T>'']
           else [])
      @ (case rhsType of
           None \<Rightarrow> []
         | Some t \<Rightarrow>
             if length t \<noteq> 1 \<or> \<not> isBoolean (t ! 0) then
               [''expected right operand of boolean operation to be a boolean but got an operand of type <T>'']
             else []),
      Some [Some ir_Boolean])"

definition visit_NotExpr :: "ExprType option \<Rightarrow> Inferred" where
  "visit_NotExpr opndType =
     ((case opndType of
         None \<Rightarrow> []
       | Some t \<Rightarrow>
           if length t \<noteq> 1 \<or> \<not> isBoolean (t ! 0) then
             [''expected a boolean operand but got an operand of type <T>'']
           else []),
      Some [Some ir_Boolean])"

text \<open>
  The loop of \<^verbatim>\<open>visit(EqExpr)\<close>: \<open>repType\<close> is the type of the first scalar
  operand seen; each operand comes with the diagnostics of its own inference.
\<close>

fun eqOperands :: "ExprType option \<Rightarrow> Inferred list \<Rightarrow> failure + string list" where
  "eqOperands repType [] = Inr []"
| "eqOperands repType ((d, opndType) # rest) =
     (case opndType of
        None \<Rightarrow> bindF (eqOperands repType rest) (\<lambda>ds. Inr (d @ ds))
      | Some t \<Rightarrow>
          if length t \<noteq> 1 \<or> \<not> isScalar (t ! 0) then
            bindF (eqOperands repType rest) (\<lambda>ds.
              Inr (d @ [''comparison operations can only be performed on scalar values, not values of type <T>''] @ ds))
          else
            (case repType of
               None \<Rightarrow> bindF (eqOperands (Some t) rest) (\<lambda>ds. Inr (d @ ds))
             | Some r \<Rightarrow>
                 bindF (compareTypes (r ! 0) (t ! 0)) (\<lambda>eq.
                 bindF (eqOperands repType rest) (\<lambda>ds.
                   Inr (d @ (if \<not> eq then
                               [''value of type <T> cannot be compared to value of type <T>'']
                             else []) @ ds)))))"

definition visit_EqExpr :: "Inferred list \<Rightarrow> (ExprType option) Res" where
  "visit_EqExpr operands =
     bindF (eqOperands None operands) (\<lambda>ds. Inr (ds, Some [Some ir_Boolean]))"

definition visit_NegExpr :: "ExprType option \<Rightarrow> Inferred" where
  "visit_NegExpr opndType =
     (case opndType of
        None \<Rightarrow> ([], None)
      | Some t \<Rightarrow>
          if notNumericTensor t then
            ([''expected operand of tensor negation to be a numeric tensor but got an operand of type <T>''],
             None)
          else ([], opndType))"

text \<open>The typing rule of the transpose, on a tensor type of order at most 2.\<close>

definition transposeType :: "irType \<Rightarrow> irType" where
  "transposeType t =
     (if order t = 0 then t
      else if order t = 1 then
        ir_TensorType (getComponentType t) (getDimensions t) (\<not> isColumnVector t)
      else
        ir_TensorType (getComponentType t) [getDimensions t ! 1, getDimensions t ! 0] False)"

definition visit_TransposeExpr :: "ExprType option \<Rightarrow> Inferred" where
  "visit_TransposeExpr opndType =
     (case opndType of
        None \<Rightarrow> ([], None)
      | Some t \<Rightarrow>
          (case t of
             [Some (ir_TensorType c ds cv)] \<Rightarrow>
               if length ds > 2 then
                 ([''operand of tensor transpose must be a tensor of order 2 or less, but got an operand of type <T>''],
                  None)
               else ([], Some [Some (transposeType (ir_TensorType c ds cv))])
           | _ \<Rightarrow>
               ([''operand of tensor transpose must be a tensor of order 2 or less, but got an operand of type <T>''],
                None)))"

subsection \<open>Map\<close>

text \<open>
  The first loop of \<^verbatim>\<open>visit(MapExpr)\<close>: the type of each partial actual,
  undefined where the actual is not a single value.
\<close>

fun partialActualsType :: "Inferred list \<Rightarrow> string list \<times> Type list" where
  "partialActualsType [] = ([], [])"
| "partialActualsType ((d, paramType) # rest) =
     (let (ds, ts) = partialActualsType rest
      in case paramType of
           None \<Rightarrow> (d @ ds, None # ts)
         | Some t \<Rightarrow>
             if length t = 0 then
               (d @ [''must pass a non-void value as argument''] @ ds, None # ts)
             else if length t \<noteq> 1 then
               (d @ [''cannot pass multiple values of types <T> as a single argument''] @ ds,
                None # ts)
             else (d @ ds, (t ! 0) # ts))"

text \<open>
  The actuals the assembly function is checked against: the partial actuals, an element
  of the target set, and, when the target has endpoints and the count does not yet match
  the function's arguments, a tuple of the first endpoint's elements, as long as the
  number of endpoints.
\<close>

definition synthesizedActuals :: "Type list \<Rightarrow> irType \<Rightarrow> nat \<Rightarrow> failure + Type list" where
  "synthesizedActuals actualsType targetSetType nargs =
     (case targetSetType of
        ir_SetType elementType endpointSets \<Rightarrow>
          (let actuals = actualsType @ [Some elementType]
           in if length endpointSets > 0 \<and> length actuals \<noteq> nargs then
                (case snd (endpointSets ! 0) of
                   ir_SetType neighborElementType neighborEndpoints \<Rightarrow>
                     Inr (actuals @ [Some (ir_TupleType neighborElementType
                                             (int (length endpointSets)))])
                 | _ \<Rightarrow> Inl (Aborted (IAssert ''isSet()'')))
              else Inr actuals)
      | _ \<Rightarrow> Inl (Aborted (IAssert ''isSet()'')))"

text \<open>The last loop of \<^verbatim>\<open>visit(MapExpr)\<close>: the pairwise comparison.\<close>

fun compareActuals :: "Type list \<Rightarrow> Var list \<Rightarrow> failure + string list" where
  "compareActuals (a # as) (f # fs) =
     (if \<not> defined a \<or> \<not> defined (snd f) then compareActuals as fs
      else bindF (compareTypes a (snd f)) (\<lambda>eq.
           bindF (compareActuals as fs) (\<lambda>ds.
             Inr ((if \<not> eq then
                     [''map operation passes argument of type <T> to assembly function but function <F> expects argument of type <T>'']
                   else []) @ ds))))"
| "compareActuals _ _ = Inr []"

definition visit_MapExpr :: "ProgramContext \<Rightarrow> string \<Rightarrow> string \<Rightarrow> Inferred list \<Rightarrow> (ExprType option) Res" where
  "visit_MapExpr ctx funcName targetName partialActuals =
     (let (d1, actualsType) = partialActualsType partialActuals;
          func = map_of (funcs ctx) funcName;
          d2 = (if \<not> containsFunction ctx funcName then [reportUndeclared ''function'' funcName]
                else []);
          retType = (case func of
                       None \<Rightarrow> None
                     | Some f \<Rightarrow> Some (map snd (getResults f)))
      in
      bindF (if \<not> hasSymbol ctx targetName then
               Inr ([reportUndeclared ''set'' targetName], None)
             else bindF (getSymbol ctx targetName) (\<lambda>sy.
               if \<not> isSet (snd (getExpr sy)) then
                 Inr ([''map operation can only be applied to sets''], None)
               else Inr ([], snd (getExpr sy))))
        (\<lambda>(d3, target).
           case (func, target) of
             (Some f, Some targetSetType) \<Rightarrow>
               bindF (synthesizedActuals actualsType targetSetType (length (getArguments f)))
                 (\<lambda>actuals.
                    if length actuals \<noteq> length (getArguments f) then
                      Inr (d1 @ d2 @ d3 @
                           [''map operation passes <N> arguments to assembly function but function <F> expects <N> arguments''],
                           retType)
                    else bindF (compareActuals actuals (getArguments f)) (\<lambda>d4.
                      Inr (d1 @ d2 @ d3 @ d4, retType)))
           | _ \<Rightarrow> Inr (d1 @ d2 @ d3, retType)))"

subsection \<open>Call\<close>

text \<open>
  The second loop of \<^verbatim>\<open>visit(CallExpr)\<close>, run when the number of arguments is
  the function's.
\<close>

fun checkArguments :: "ExprType option list \<Rightarrow> Var list \<Rightarrow> failure + string list" where
  "checkArguments (argType # as) (f # fs) =
     (case argType of
        None \<Rightarrow> checkArguments as fs
      | Some t \<Rightarrow>
          if length t = 0 then
            bindF (checkArguments as fs) (\<lambda>ds.
              Inr (''must pass a non-void value as argument'' # ds))
          else if length t \<noteq> 1 then
            bindF (checkArguments as fs) (\<lambda>ds.
              Inr (''cannot pass multiple values of types <T> as a single argument'' # ds))
          else
            bindF (compareTypes (t ! 0) (snd f)) (\<lambda>eq.
            bindF (checkArguments as fs) (\<lambda>ds.
              Inr ((if \<not> eq then
                      [''expected argument of type <T> but got an argument of type <T>'']
                    else []) @ ds))))"
| "checkArguments _ _ = Inr []"

text \<open>
  \<^verbatim>\<open>visit(CallExpr)\<close> after the arguments are inferred; the assertion on the
  function's name is the first statement of the visit and is checked in
  \<open>inferType\<close> before the arguments are visited, and here again for a caller
  that did not.
\<close>

definition visit_CallExpr :: "ProgramContext \<Rightarrow> string \<Rightarrow> ExprType option list \<Rightarrow> (ExprType option) Res" where
  "visit_CallExpr ctx funcName argTypes =
     (case map_of (funcs ctx) funcName of
        None \<Rightarrow> Inl (Aborted (IAssert ''ctx.containsFunction(expr->func->ident)''))
      | Some func \<Rightarrow>
          (let funcArgs = getArguments func;
               retType = Some (map snd (getResults func))
           in if length argTypes \<noteq> length funcArgs then
                (if getKind func = Intrinsic \<and> length funcArgs = 0 then Inr ([], retType)
                 else Inr ([''passed in <N> arguments but function <F> expects <N>''], retType))
              else bindF (checkArguments argTypes funcArgs) (\<lambda>ds. Inr (ds, retType))))"

subsection \<open>Variables and literals\<close>

definition visit_VarExpr :: "ProgramContext \<Rightarrow> bool \<Rightarrow> bool \<Rightarrow> string \<Rightarrow> (ExprType option) Res" where
  "visit_VarExpr ctx isCheckWritable skipCheckDeclared n =
     (if \<not> hasSymbol ctx n then
        Inr ((if \<not> skipCheckDeclared then [reportUndeclared ''variable or constant'' n]
              else []), None)
      else bindF (getSymbol ctx n) (\<lambda>varSym.
        let d = (if isCheckWritable \<and> \<not> isWritable varSym then
                   [quoted n @ '' is not writable'']
                 else if \<not> isCheckWritable \<and> \<not> isReadable varSym then
                   [quoted n @ '' is not readable'']
                 else []);
            varType = snd (getExpr varSym)
        in if \<not> defined varType then Inr (d, None) else Inr (d, Some [varType])))"

text \<open>
  Modelled from the spec: the messages of \<^verbatim>\<open>TypeError\<close> and
  \<^verbatim>\<open>DimError\<close> (type_checker.h) are not part of the sources; both are
  \<^verbatim>\<open>std::exception\<close>s, which the literal node catches and reports.
\<close>

fun what :: "exn \<Rightarrow> string" where
  "what TypeError = ''TypeError''"
| "what DimError = ''DimError''"
| "what OutOfRange = ''vector::at''"

definition typeCheckDenseTensorLiteral :: "DenseTensorLiteral \<Rightarrow> (ExprType option) Res" where
  "typeCheckDenseTensorLiteral lit =
     (case getDenseTensorType lit of
        Inl (Thrown err) \<Rightarrow> Inr ([what err], None)
      | Inl (Aborted a) \<Rightarrow> Inl (Aborted a)
      | Inr tensorType \<Rightarrow>
          (let idoms = map (\<lambda>n. [IndexSet_Range (int n)]) (rev (dimSizes tensorType));
               elemType = (if kind tensorType = Type_INT then ScalarInt else ScalarFloat)
           in if \<not> (length idoms = 1 \<or> \<not> transposed lit) then
                Inl (Aborted (IAssert ''idoms.size() == 1 || !lit->transposed''))
              else Inr ([], Some [Some (ir_TensorType elemType idoms (transposed lit))])))"

subsection \<open>Tensor and tuple reads\<close>

datatype 'e ReadParam = Slice | ExprParam 'e

fun isSlice :: "'e ReadParam \<Rightarrow> bool" where
  "isSlice Slice = True"
| "isSlice (ExprParam e) = False"

text \<open>
  Modelled from the spec: \<^verbatim>\<open>getOuterDimensions\<close> and \<^verbatim>\<open>getBlockType\<close>
  (types.h) are not part of the sources. In an index domain "the first element is the
  outer dimension, the remainder describe the block-nesting": the outer dimensions are
  the first index set of every domain, and the block type drops them; a tensor whose
  domains hold one index set each has scalar blocks.
\<close>

definition getOuterDimensions :: "irType \<Rightarrow> indexSet list" where
  "getOuterDimensions t = concat (map (take 1) (getDimensions t))"

definition getBlockType :: "irType \<Rightarrow> irType" where
  "getBlockType t =
     (case getDimensions t of
        [] \<Rightarrow> ir_TensorType (getComponentType t) [] False
      | d # ds \<Rightarrow>
          if length d \<le> 1 then ir_TensorType (getComponentType t) [] False
          else ir_TensorType (getComponentType t) (map tl (d # ds)) (isColumnVector t))"

text \<open>The type test of one index expression against the outer dimension it indexes.\<close>

definition checkIndex :: "indexSet list \<Rightarrow> nat \<Rightarrow> ExprType option \<Rightarrow> failure + string list" where
  "checkIndex outerDims i indexType =
     (case indexType of
        None \<Rightarrow> Inr []
      | Some t \<Rightarrow>
          if length t = 0 then Inr [''must pass a non-void value as index'']
          else if length t \<noteq> 1 then
            Inr [''cannot pass multiple values of types <T> as a single index'']
          else if length outerDims \<le> i then
            Inl (Aborted (UndefinedBehaviour ''outerDims[i]''))
          else
            (case outerDims ! i of
               IndexSet_Range n \<Rightarrow>
                 Inr (if \<not> isInt (t ! 0) then
                        [''expected an integral index but got an index of type <T>'']
                      else [])
             | IndexSet_Set n setType \<Rightarrow>
                 (case setType of
                    ir_SetType elementType eps \<Rightarrow>
                      if isInt (t ! 0) then Inr []
                      else bindF (compareTypes (Some elementType) (t ! 0)) (\<lambda>eq.
                        Inr (if \<not> eq then
                               [''expected an integral index or an index of type <T> but got an index of type <T>'']
                             else []))
                  | _ \<Rightarrow> Inl (Aborted (IAssert ''isSet()'')))
             | IndexSet_Dynamic \<Rightarrow> Inr []))"

text \<open>
  The loop of \<^verbatim>\<open>visit(TensorReadExpr)\<close> over the indices, from index \<open>i\<close>
  on: the diagnostics, and the dimensions kept (those indexed by a slice). An index
  expression comes as the result of its own inference, which the loop runs when it
  reaches the index.
\<close>

fun readIndices :: "indexSet list \<Rightarrow> IndexDomain list \<Rightarrow> nat \<Rightarrow> ((ExprType option) Res) ReadParam list
                    \<Rightarrow> failure + (string list \<times> IndexDomain list)" where
  "readIndices outerDims dimensions i [] = Inr ([], [])"
| "readIndices outerDims dimensions i (Slice # rest) =
     bindF (readIndices outerDims dimensions (Suc i) rest) (\<lambda>(ds, dims).
       Inr (ds, (dimensions ! i) # dims))"
| "readIndices outerDims dimensions i (ExprParam r # rest) =
     bindF r (\<lambda>(d, indexType).
     bindF (checkIndex outerDims i indexType) (\<lambda>d'.
     bindF (readIndices outerDims dimensions (Suc i) rest) (\<lambda>(ds, dims).
       Inr (d @ d' @ ds, dims))))"

definition tupleIndex :: "((ExprType option) Res) ReadParam list \<Rightarrow> failure + string list" where
  "tupleIndex indices =
     (if length indices \<noteq> 1 then Inr [''tuple access expects exactly one index but got <N>'']
      else case indices ! 0 of
             Slice \<Rightarrow> Inr [''tuple access expects an integral index'']
           | ExprParam r \<Rightarrow>
               bindF r (\<lambda>(d, indexType).
                 case indexType of
                   None \<Rightarrow> Inl (Aborted (UndefinedBehaviour ''indexType->size()''))
                 | Some t \<Rightarrow>
                     Inr (d @ (if length t \<noteq> 1 \<or> \<not> isInt (t ! 0) then
                                 [''tuple access expects an integral index but got an index of type <T>'']
                               else []))))"

definition visit_TensorReadExpr :: "ExprType option \<Rightarrow> ((ExprType option) Res) ReadParam list \<Rightarrow> (ExprType option) Res" where
  "visit_TensorReadExpr lhsType indices =
     (case lhsType of
        None \<Rightarrow> Inr ([], None)
      | Some lt \<Rightarrow>
          if length lt \<noteq> 1 then
            Inr ([''can only access elements of a single tensor or tuple''], None)
          else
            (case lt ! 0 of
               Some (ir_TensorType c dimensions cv) \<Rightarrow>
                 if length dimensions \<noteq> length indices then
                   Inr ([''tensor access expected <N> indices but got <N>''], None)
                 else
                   bindF (readIndices (getOuterDimensions (ir_TensorType c dimensions cv))
                            dimensions 0 indices) (\<lambda>(ds, dims).
                     if dims = [] then
                       Inr (ds, Some [Some (getBlockType (ir_TensorType c dimensions cv))])
                     else
                       Inr (ds, Some [Some (ir_TensorType c dims
                                             (length dims = 1 \<and> \<not> isSlice (last indices)))]))
             | Some (ir_TupleType elementType n) \<Rightarrow>
                 bindF (tupleIndex indices) (\<lambda>ds. Inr (ds, Some [Some elementType]))
             | _ \<Rightarrow> Inr ([''cannot access elements from objects of type <T>''], None)))"

subsection \<open>Field reads\<close>

text \<open>
  Modelled from the spec: \<^verbatim>\<open>getFieldType\<close> (ir.h) is not part of the sources.
  The field of a set is "a tensor with outer dimension equal to that set, inner block
  equal to the field's declared type".
\<close>

definition getFieldType :: "Var \<Rightarrow> string \<Rightarrow> failure + Type" where
  "getFieldType setExpr fieldName =
     (case snd setExpr of
        Some (ir_SetType (ir_ElementType n fs) eps) \<Rightarrow>
          (case map_of fs fieldName of
             Some (ir_TensorType c ds cv) \<Rightarrow>
               (let s = IndexSet_Set (fst setExpr) (ir_SetType (ir_ElementType n fs) eps)
                in Inr (Some (ir_TensorType c
                               (case ds of [] \<Rightarrow> [[s]] | d # ds' \<Rightarrow> (s # d) # ds') False)))
           | _ \<Rightarrow> Inl (Aborted (IAssert ''isTensor()'')))
      | _ \<Rightarrow> Inl (Aborted (IAssert ''isSet()'')))"

text \<open>
  \<^verbatim>\<open>visit(FieldReadExpr)\<close>; \<open>setOrElemVar\<close> is the name of the operand when
  the operand is a \<^verbatim>\<open>VarExpr\<close>.
\<close>

definition visit_FieldReadExpr :: "ProgramContext \<Rightarrow> ExprType option \<Rightarrow> string option \<Rightarrow> string \<Rightarrow> (ExprType option) Res" where
  "visit_FieldReadExpr ctx lhsType setOrElemVar fieldName =
     (case lhsType of
        None \<Rightarrow> Inr ([], None)
      | Some lt \<Rightarrow>
          if length lt \<noteq> 1 then
            Inr ([''can only access fields of a single set or element''], None)
          else
            bindF (case lt ! 0 of
                     Some (ir_ElementType n fs) \<Rightarrow> Inr (Some fs)
                   | Some (ir_SetType (ir_ElementType n fs) eps) \<Rightarrow> Inr (Some fs)
                   | Some (ir_SetType _ eps) \<Rightarrow> Inl (Aborted (IAssert ''isElement()''))
                   | _ \<Rightarrow> Inr None)
              (\<lambda>elemType.
                 case elemType of
                   None \<Rightarrow> Inr ([''field accesses are only valid for sets and elements''], None)
                 | Some fs \<Rightarrow>
                     (case map_of fs fieldName of
                        None \<Rightarrow> Inr ([''undefined field '' @ quoted fieldName], None)
                      | Some fty \<Rightarrow>
                          if isElement (lt ! 0) then Inr ([], Some [Some fty])
                          else
                            (case setOrElemVar of
                               None \<Rightarrow> Inl (Aborted (IAssert ''isa<VarExpr>(expr->setOrElem)''))
                             | Some varName \<Rightarrow>
                                 bindF (getSymbol ctx varName) (\<lambda>sy.
                                 bindF (getFieldType (getExpr sy) fieldName) (\<lambda>fieldType.
                                 bindF (toTensor fieldType) (\<lambda>ft.
                                   if order ft > 1 then
                                     Inr ([''cannot read from non-scalar and non-vector set fields''],
                                          None)
                                   else Inr ([], Some [fieldType]))))))))"

section \<open>Expressions\<close>

text \<open>
  The expression nodes of the HIR. An argument of a call may be missing (a null
  pointer, which \<^verbatim>\<open>visit(CallExpr)\<close> skips). The three dense literal nodes are
  wrapped by \<open>DenseLiteral\<close>.
\<close>

datatype Expr =
    MapExpr string "Expr list" string
  | OrExpr Expr Expr
  | AndExpr Expr Expr
  | XorExpr Expr Expr
  | EqExpr "Expr list"
  | NotExpr Expr
  | AddExpr Expr Expr
  | SubExpr Expr Expr
  | MulExpr Expr Expr
  | DivExpr Expr Expr
  | ElwiseMulExpr Expr Expr
  | ElwiseDivExpr Expr Expr
  | NegExpr Expr
  | ExpExpr Expr Expr
  | TransposeExpr Expr
  | CallExpr string "Expr option list"
  | TensorReadExpr Expr "Expr ReadParam list"
  | TupleReadExpr Expr Expr
  | FieldReadExpr Expr string
  | VarExpr string
  | IntLiteral int
  | FloatLiteral real
  | BoolLiteral bool
  | DenseLiteral DenseTensorLiteral

fun varExprIdent :: "Expr \<Rightarrow> string option" where
  "varExprIdent (VarExpr n) = Some n"
| "varExprIdent _ = None"

text \<open>Running the visits of a list of operands in order; the first failure ends the run.\<close>

fun sequenceF :: "(failure + 'a) list \<Rightarrow> failure + 'a list" where
  "sequenceF [] = Inr []"
| "sequenceF (r # rs) = bindF r (\<lambda>x. bindF (sequenceF rs) (\<lambda>xs. Inr (x # xs)))"

definition unaryNode :: "(ExprType option \<Rightarrow> Inferred) \<Rightarrow> (ExprType option) Res \<Rightarrow> (ExprType option) Res" where
  "unaryNode rule r =
     bindF r (\<lambda>(d1, t1). Inr (d1 @ fst (rule t1), snd (rule t1)))"

definition binaryNode :: "(ExprType option \<Rightarrow> ExprType option \<Rightarrow> Inferred)
                          \<Rightarrow> (ExprType option) Res \<Rightarrow> (ExprType option) Res \<Rightarrow> (ExprType option) Res" where
  "binaryNode rule rl rr =
     bindF rl (\<lambda>(d1, t1). bindF rr (\<lambda>(d2, t2).
       Inr (d1 @ d2 @ fst (rule t1 t2), snd (rule t1 t2))))"

definition binaryNodeF :: "(ExprType option \<Rightarrow> ExprType option \<Rightarrow> (ExprType option) Res)
                          \<Rightarrow> (ExprType option) Res \<Rightarrow> (ExprType option) Res \<Rightarrow> (ExprType option) Res" where
  "binaryNodeF rule rl rr =
     bindF rl (\<lambda>(d1, t1). bindF rr (\<lambda>(d2, t2).
       bindF (rule t1 t2) (\<lambda>(d, t). Inr (d1 @ d2 @ d, t))))"

text \<open>The inference of a call argument; a missing argument has no type.\<close>

definition inferArgument :: "((ExprType option) Res) option \<Rightarrow> (ExprType option) Res" where
  "inferArgument a = (case a of None \<Rightarrow> Inr ([], None) | Some r \<Rightarrow> r)"

text \<open>
  \<^verbatim>\<open>inferType\<close>: the visit of an expression. \<open>isCheckWritable\<close> says that the
  node is the one \<^verbatim>\<open>markCheckWritable\<close> marked (the variable at the base of an
  assignment target); it is handed down through the base of a tensor read and of a field
  read and to no other operand. \<open>skipCheckDeclared\<close> is the checker's flag of that name.
\<close>

primrec inferType :: "Expr \<Rightarrow> ProgramContext \<Rightarrow> bool \<Rightarrow> bool \<Rightarrow> (ExprType option) Res" where
  "inferType (MapExpr func partialActuals target) ctx isCheckWritable skipCheckDeclared =
     bindF (sequenceF (map (\<lambda>f. f ctx False skipCheckDeclared) (map inferType partialActuals)))
       (\<lambda>actuals. visit_MapExpr ctx func target actuals)"
| "inferType (OrExpr l r) ctx isCheckWritable skipCheckDeclared =
     binaryNode typeCheckBinaryBoolean
       (inferType l ctx False skipCheckDeclared) (inferType r ctx False skipCheckDeclared)"
| "inferType (AndExpr l r) ctx isCheckWritable skipCheckDeclared =
     binaryNode typeCheckBinaryBoolean
       (inferType l ctx False skipCheckDeclared) (inferType r ctx False skipCheckDeclared)"
| "inferType (XorExpr l r) ctx isCheckWritable skipCheckDeclared =
     binaryNode typeCheckBinaryBoolean
       (inferType l ctx False skipCheckDeclared) (inferType r ctx False skipCheckDeclared)"
| "inferType (EqExpr operands) ctx isCheckWritable skipCheckDeclared =
     bindF (sequenceF (map (\<lambda>f. f ctx False skipCheckDeclared) (map inferType operands)))
       (\<lambda>opnds. visit_EqExpr opnds)"
| "inferType (NotExpr e) ctx isCheckWritable skipCheckDeclared =
     unaryNode visit_NotExpr (inferType e ctx False skipCheckDeclared)"
| "inferType (AddExpr l r) ctx isCheckWritable skipCheckDeclared =
     binaryNodeF typeCheckBinaryElwise
       (inferType l ctx False skipCheckDeclared) (inferType r ctx False skipCheckDeclared)"
| "inferType (SubExpr l r) ctx isCheckWritable skipCheckDeclared =
     binaryNodeF typeCheckBinaryElwise
       (inferType l ctx False skipCheckDeclared) (inferType r ctx False skipCheckDeclared)"
| "inferType (MulExpr l r) ctx isCheckWritable skipCheckDeclared =
     binaryNode visit_MulExpr
       (inferType l ctx False skipCheckDeclared) (inferType r ctx False skipCheckDeclared)"
| "inferType (DivExpr l r) ctx isCheckWritable skipCheckDeclared =
     binaryNode visit_DivExpr
       (inferType l ctx False skipCheckDeclared) (inferType r ctx False skipCheckDeclared)"
| "inferType (ElwiseMulExpr l r) ctx isCheckWritable skipCheckDeclared =
     binaryNodeF typeCheckBinaryElwise
       (inferType l ctx False skipCheckDeclared) (inferType r ctx False skipCheckDeclared)"
| "inferType (ElwiseDivExpr l r) ctx isCheckWritable skipCheckDeclared =
     binaryNodeF typeCheckBinaryElwise
       (inferType l ctx False skipCheckDeclared) (inferType r ctx False skipCheckDeclared)"
| "inferType (NegExpr e) ctx isCheckWritable skipCheckDeclared =
     unaryNode visit_NegExpr (inferType e ctx False skipCheckDeclared)"
| "inferType (ExpExpr l r) ctx isCheckWritable skipCheckDeclared =
     Inl (Aborted NotSupportedYet)"
| "inferType (TransposeExpr e) ctx isCheckWritable skipCheckDeclared =
     unaryNode visit_TransposeExpr (inferType e ctx False skipCheckDeclared)"
| "inferType (CallExpr func arguments) ctx isCheckWritable skipCheckDeclared =
     (if \<not> containsFunction ctx func then
        Inl (Aborted (IAssert ''ctx.containsFunction(expr->func->ident)''))
      else
        bindF (sequenceF (map inferArgument
                 (map (map_option (\<lambda>f. f ctx False skipCheckDeclared))
                    (map (map_option inferType) arguments))))
          (\<lambda>args.
             bindF (visit_CallExpr ctx func (map snd args)) (\<lambda>(d, t).
               Inr (concat (map fst args) @ d, t))))"
| "inferType (TensorReadExpr tensor indices) ctx isCheckWritable skipCheckDeclared =
     bindF (inferType tensor ctx isCheckWritable skipCheckDeclared) (\<lambda>(d1, lhsType).
     bindF (visit_TensorReadExpr lhsType
              (map (map_ReadParam (\<lambda>f. f ctx False skipCheckDeclared))
                 (map (map_ReadParam inferType) indices)))
       (\<lambda>(d, t). Inr (d1 @ d, t)))"
| "inferType (TupleReadExpr tuple index) ctx isCheckWritable skipCheckDeclared =
     Inl (Aborted Unreachable)"
| "inferType (FieldReadExpr setOrElem field) ctx isCheckWritable skipCheckDeclared =
     bindF (inferType setOrElem ctx isCheckWritable skipCheckDeclared) (\<lambda>(d1, lhsType).
     bindF (visit_FieldReadExpr ctx lhsType (varExprIdent setOrElem) field)
       (\<lambda>(d, t). Inr (d1 @ d, t)))"
| "inferType (VarExpr n) ctx isCheckWritable skipCheckDeclared =
     visit_VarExpr ctx isCheckWritable skipCheckDeclared n"
| "inferType (IntLiteral v) ctx isCheckWritable skipCheckDeclared =
     Inr ([], Some [Some ir_Int])"
| "inferType (FloatLiteral v) ctx isCheckWritable skipCheckDeclared =
     Inr ([], Some [Some ir_Float])"
| "inferType (BoolLiteral v) ctx isCheckWritable skipCheckDeclared =
     Inr ([], Some [Some ir_Boolean])"
| "inferType (DenseLiteral lit) ctx isCheckWritable skipCheckDeclared =
     typeCheckDenseTensorLiteral lit"

section \<open>Statements\<close>

text \<open>
  The statement nodes: a declaration with its optional initializer, an assignment of an
  expression to its targets, the loops and the branch with their bodies (the for-loop
  with its range domain, lower and upper bound), and print.
\<close>

datatype Stmt =
    VarDecl IdentDecl "Expr option"
  | ConstDecl IdentDecl "Expr option"
  | AssignStmt "Expr list" Expr
  | WhileStmt Expr "Stmt list"
  | IfStmt Expr "Stmt list" "Stmt list option"
  | ForStmt string Expr Expr "Stmt list"
  | PrintStmt Expr

text \<open>The checker: the program context and the diagnostics collected so far.\<close>

record TypeChecker =
  tc_ctx :: ProgramContext
  tc_errors :: "string list"

definition report :: "string list \<Rightarrow> TypeChecker \<Rightarrow> TypeChecker" where
  "report ds tc = tc\<lparr>tc_errors := tc_errors tc @ ds\<rparr>"

definition setCtx :: "ProgramContext \<Rightarrow> TypeChecker \<Rightarrow> TypeChecker" where
  "setCtx c tc = tc\<lparr>tc_ctx := c\<rparr>"

subsection \<open>Variable and constant declarations\<close>

text \<open>
  The three-iterator \<^verbatim>\<open>std::equal(first1, last1, first2)\<close>: it walks the first
  range and reads the second alongside, without a bound on the second.
\<close>

fun stdEqual :: "'a list \<Rightarrow> 'a list \<Rightarrow> failure + bool" where
  "stdEqual [] ys = Inr True"
| "stdEqual (x # xs) [] = Inl (Aborted (UndefinedBehaviour ''std::equal reads past the end''))"
| "stdEqual (x # xs) (y # ys) = (if x = y then stdEqual xs ys else Inr False)"

definition initMsg :: string where
  "initMsg = ''cannot initialize a variable or constant of type <T> with an expression of type <T>''"

text \<open>
  \<^verbatim>\<open>typeCheckVarOrConstDecl\<close> from the comparison of the declared type with the
  type of the initializer on; the declared type is defined here.
\<close>

definition checkInitializer :: "bool \<Rightarrow> irType \<Rightarrow> ExprType option \<Rightarrow> failure + string list" where
  "checkInitializer isConst varType initType =
     (case initType of
        None \<Rightarrow> Inr []
      | Some it \<Rightarrow>
          bindF (if length it = 1 then compareTypes (Some varType) (it ! 0) else Inr False)
            (\<lambda>same.
               if same then Inr []
               else if \<not> isTensor (Some varType) then
                 Inl (Aborted (IAssert ''varType.isTensor()''))
               else if length it \<noteq> 1 \<or> \<not> isTensor (it ! 0) then Inr [initMsg]
               else
                 bindF (toTensor (it ! 0)) (\<lambda>initTensorType.
                   if isScalar (it ! 0)
                      \<and> getComponentType varType = getComponentType initTensorType then Inr []
                   else
                     bindF (if isConst then
                              compareTypes (Some (getBlockType varType))
                                (Some (getBlockType initTensorType))
                            else Inr False)
                       (\<lambda>sameBlock.
                          if sameBlock then
                            bindF (stdEqual
                                     (dropWhile (\<lambda>d. d = IndexSet_Range 1)
                                        (getOuterDimensions varType))
                                     (dropWhile (\<lambda>d. d = IndexSet_Range 1)
                                        (getOuterDimensions initTensorType)))
                              (\<lambda>eq. if eq then Inr [] else Inr [initMsg])
                          else Inr [initMsg]))))"

definition typeCheckVarOrConstDecl :: "IdentDecl \<Rightarrow> Expr option \<Rightarrow> bool \<Rightarrow> TypeChecker \<Rightarrow> failure + TypeChecker" where
  "typeCheckVarOrConstDecl decl initVal isConst tc =
     bindF (getVar (tc_ctx tc) decl) (\<lambda>(d1, var).
     bindF (case initVal of
              None \<Rightarrow> Inr ([], None)
            | Some e \<Rightarrow> inferType e (tc_ctx tc) False False) (\<lambda>(d2, initType).
     bindF (if hasSymbolLocal (tc_ctx tc) (fst var) then
              bindF (getSymbol (tc_ctx tc) (fst var)) (\<lambda>sy. Inr (defined (snd (getExpr sy))))
            else Inr False) (\<lambda>declared.
       if declared then
         Inr (report (d1 @ d2 @ [reportMultipleDefs ''variable or constant'' (fst var)]) tc)
       else
         bindF (addSymbolAccess (tc_ctx tc) (fst var) var
                  (if isConst then Read else ReadWrite)) (\<lambda>ctx'.
           case snd var of
             None \<Rightarrow> Inr (report (d1 @ d2) (setCtx ctx' tc))
           | Some varType \<Rightarrow>
               bindF (checkInitializer isConst varType initType) (\<lambda>d3.
                 Inr (report (d1 @ d2 @ d3) (setCtx ctx' tc)))))))"

subsection \<open>Assignment\<close>

text \<open>
  The first loop of \<^verbatim>\<open>visit(AssignStmt)\<close>: each target is inferred as a write
  target, and without the declaration check when it is a variable; a target that is not
  a single value has an undefined type.
\<close>

fun inferTargets :: "ProgramContext \<Rightarrow> Expr list \<Rightarrow> failure + (string list \<times> Type list)" where
  "inferTargets ctx [] = Inr ([], [])"
| "inferTargets ctx (lhs # rest) =
     bindF (inferType lhs ctx True (varExprIdent lhs \<noteq> None)) (\<lambda>(d, ltype).
     bindF (inferTargets ctx rest) (\<lambda>(ds, ts).
       Inr (d @ ds,
            (case ltype of
               Some [t] \<Rightarrow> t
             | _ \<Rightarrow> None) # ts)))"

text \<open>The loop that compares each target with the value assigned to it.\<close>

fun compareTargets :: "Type list \<Rightarrow> ExprType \<Rightarrow> failure + string list" where
  "compareTargets (l # ls) (e # es) =
     bindF (if defined l then bindF (compareTypes l e) (\<lambda>eq. Inr (\<not> eq)) else Inr False)
       (\<lambda>differ.
          bindF (if differ then
                   (if \<not> isTensor l \<or> \<not> isScalar e then Inr True
                    else bindF (toTensor l) (\<lambda>lt. bindF (toTensor e) (\<lambda>et.
                           Inr (getComponentType lt \<noteq> getComponentType et))))
                 else Inr False)
            (\<lambda>bad.
               bindF (compareTargets ls es) (\<lambda>ds.
                 Inr ((if bad then
                         [''cannot assign a value of type <T> to a target of type <T>'']
                       else []) @ ds))))"
| "compareTargets (l # ls) [] =
     (if defined l then Inl (Thrown OutOfRange) else compareTargets ls [])"
| "compareTargets [] es = Inr []"

text \<open>
  The last loop: a target that is a variable without a binding becomes a new local, of
  the type assigned to it when the statement checked and of undefined type otherwise.
\<close>

fun declareTargets :: "bool \<Rightarrow> Expr list \<Rightarrow> ExprType \<Rightarrow> ProgramContext \<Rightarrow> failure + ProgramContext" where
  "declareTargets typeChecked [] es ctx = Inr ctx"
| "declareTargets typeChecked (lhs # rest) es ctx =
     bindF (case varExprIdent lhs of
              None \<Rightarrow> Inr ctx
            | Some varName \<Rightarrow>
                if hasSymbol ctx varName then Inr ctx
                else if typeChecked then
                  (case es of
                     [] \<Rightarrow> Inl (Thrown OutOfRange)
                   | e # es' \<Rightarrow> addSymbol ctx (varName, e))
                else addSymbol ctx (varName, None))
       (\<lambda>ctx'. declareTargets typeChecked rest (tl es) ctx')"

definition visit_AssignStmt :: "Expr list \<Rightarrow> Expr \<Rightarrow> TypeChecker \<Rightarrow> failure + TypeChecker" where
  "visit_AssignStmt lhs expr tc =
     bindF (inferType expr (tc_ctx tc) False False) (\<lambda>(d0, exprType).
     bindF (inferTargets (tc_ctx tc) lhs) (\<lambda>(d1, lhsType).
       let d2 = (case exprType of
                   None \<Rightarrow> []
                 | Some et \<Rightarrow>
                     if length lhs \<noteq> length et then
                       [''cannot assign an expression returning <N> values to <N> targets'']
                     else [])
       in bindF (case exprType of
                   None \<Rightarrow> Inr []
                 | Some et \<Rightarrow> if d2 \<noteq> [] then Inr [] else compareTargets lhsType et) (\<lambda>d3.
          let typeChecked = (exprType \<noteq> None \<and> d2 = [] \<and> d3 = [])
          in bindF (declareTargets typeChecked lhs
                      (case exprType of None \<Rightarrow> [] | Some et \<Rightarrow> et) (tc_ctx tc)) (\<lambda>ctx'.
               Inr (report (d0 @ d1 @ d2 @ d3) (setCtx ctx' tc))))))"

subsection \<open>Control flow\<close>

definition conditionError :: "ExprType option \<Rightarrow> string list" where
  "conditionError condType =
     (case condType of
        None \<Rightarrow> []
      | Some t \<Rightarrow>
          if length t \<noteq> 1 \<or> \<not> isBoolean (t ! 0) then
            [''expected a boolean conditional expression but got an expression of type <T>'']
          else [])"

definition visit_RangeDomain :: "Expr \<Rightarrow> Expr \<Rightarrow> ProgramContext \<Rightarrow> failure + string list" where
  "visit_RangeDomain lower upper ctx =
     bindF (inferType lower ctx False False) (\<lambda>(d1, lowerType).
     bindF (inferType upper ctx False False) (\<lambda>(d2, upperType).
       Inr (d1 @ d2
            @ (case lowerType of
                 None \<Rightarrow> []
               | Some t \<Rightarrow>
                   if length t \<noteq> 1 \<or> \<not> isInt (t ! 0) then
                     [''expected lower bound of for-loop range to be integral but got an expression of type <T>'']
                   else [])
            @ (case upperType of
                 None \<Rightarrow> []
               | Some t \<Rightarrow>
                   if length t \<noteq> 1 \<or> \<not> isInt (t ! 0) then
                     [''expected upper bound of for-loop range to be integral but got an expression of type <T>'']
                   else []))))"

definition visit_PrintStmt :: "Expr \<Rightarrow> TypeChecker \<Rightarrow> failure + TypeChecker" where
  "visit_PrintStmt expr tc =
     bindF (inferType expr (tc_ctx tc) False False) (\<lambda>(d, exprType).
       Inr (report (d @ (case exprType of
                           None \<Rightarrow> []
                         | Some t \<Rightarrow>
                             if length t \<noteq> 1 \<or> \<not> isTensor (t ! 0) then
                               [''cannot print an expression of type <T>'']
                             else [])) tc))"

text \<open>Leaving a scope: \<^verbatim>\<open>ctx.unscope()\<close> on the checker.\<close>

definition leaveScope :: "TypeChecker \<Rightarrow> failure + TypeChecker" where
  "leaveScope tc = bindF (unscope (tc_ctx tc)) (\<lambda>c. Inr (setCtx c tc))"

definition enterScope :: "TypeChecker \<Rightarrow> TypeChecker" where
  "enterScope tc = setCtx (scope (tc_ctx tc)) tc"

text \<open>
  The visit of a statement, and of a block of statements in order (the traversal of a
  block is the visitor framework's, modelled from the spec: section 4.5, a walk over the
  children).
\<close>

fun checkStmt :: "Stmt \<Rightarrow> TypeChecker \<Rightarrow> failure + TypeChecker"
  and checkStmts :: "Stmt list \<Rightarrow> TypeChecker \<Rightarrow> failure + TypeChecker"
where
  "checkStmt (VarDecl decl initVal) tc = typeCheckVarOrConstDecl decl initVal False tc"
| "checkStmt (ConstDecl decl initVal) tc = typeCheckVarOrConstDecl decl initVal True tc"
| "checkStmt (AssignStmt lhs expr) tc = visit_AssignStmt lhs expr tc"
| "checkStmt (WhileStmt cond body) tc =
     (case inferType cond (tc_ctx tc) False False of
        Inl f \<Rightarrow> Inl f
      | Inr (d, condType) \<Rightarrow>
          (case checkStmts body (enterScope (report d tc)) of
             Inl f \<Rightarrow> Inl f
           | Inr tc1 \<Rightarrow>
               bindF (leaveScope tc1) (\<lambda>tc2. Inr (report (conditionError condType) tc2))))"
| "checkStmt (IfStmt cond ifBody elseBody) tc =
     (case inferType cond (tc_ctx tc) False False of
        Inl f \<Rightarrow> Inl f
      | Inr (d, condType) \<Rightarrow>
          (case checkStmts ifBody (enterScope (report d tc)) of
             Inl f \<Rightarrow> Inl f
           | Inr tc1 \<Rightarrow>
               (case leaveScope tc1 of
                  Inl f \<Rightarrow> Inl f
                | Inr tc2 \<Rightarrow>
                    (case elseBody of
                       None \<Rightarrow> Inr (report (conditionError condType) tc2)
                     | Some body \<Rightarrow>
                         (case checkStmts body (enterScope tc2) of
                            Inl f \<Rightarrow> Inl f
                          | Inr tc3 \<Rightarrow>
                              bindF (leaveScope tc3) (\<lambda>tc4.
                                Inr (report (conditionError condType) tc4)))))))"
| "checkStmt (ForStmt loopVar lower upper body) tc =
     (case visit_RangeDomain lower upper (tc_ctx (enterScope tc)) of
        Inl f \<Rightarrow> Inl f
      | Inr d \<Rightarrow>
          (case addSymbolAccess (tc_ctx (enterScope tc)) loopVar (loopVar, Some ir_Int) Read of
             Inl f \<Rightarrow> Inl f
           | Inr c \<Rightarrow>
               (case checkStmts body (setCtx c (report d tc)) of
                  Inl f \<Rightarrow> Inl f
                | Inr tc1 \<Rightarrow> leaveScope tc1)))"
| "checkStmt (PrintStmt expr) tc = visit_PrintStmt expr tc"
| "checkStmts [] tc = Inr tc"
| "checkStmts (s # ss) tc =
     (case checkStmt s tc of
        Inl f \<Rightarrow> Inl f
      | Inr tc1 \<Rightarrow> checkStmts ss tc1)"

section \<open>Declarations\<close>

text \<open>
  The top-level declarations: an element type with its fields, an extern variable, and a
  function with its arguments (each with its \<^verbatim>\<open>inout\<close> flag), results and body.
\<close>

datatype ProgramElement =
    ElementTypeDecl string "IdentDecl list"
  | ExternDecl IdentDecl
  | FuncDecl string "(IdentDecl \<times> bool) list" "IdentDecl list" "Stmt list"

text \<open>The loop of \<^verbatim>\<open>visit(ElementTypeDecl)\<close>: the fields whose type is defined.\<close>

fun getFields :: "ProgramContext \<Rightarrow> IdentDecl list \<Rightarrow> failure + (string list \<times> (string \<times> irType) list)" where
  "getFields ctx [] = Inr ([], [])"
| "getFields ctx (f # fs) =
     bindF (getIRType ctx (declType f)) (\<lambda>(d, t).
     bindF (getFields ctx fs) (\<lambda>(ds, kept).
       Inr (d @ ds, (case t of None \<Rightarrow> kept | Some ft \<Rightarrow> (ident f, ft) # kept))))"

definition visit_ElementTypeDecl :: "string \<Rightarrow> IdentDecl list \<Rightarrow> TypeChecker \<Rightarrow> failure + TypeChecker" where
  "visit_ElementTypeDecl n fieldDecls tc =
     bindF (getFields (tc_ctx tc) fieldDecls) (\<lambda>(d, fs).
       if containsElementType (tc_ctx tc) n then
         Inr (report (d @ [reportMultipleDefs ''element type'' n]) tc)
       else
         Inr (report d (setCtx (addElementType (tc_ctx tc) n (ir_ElementType n fs)) tc)))"

definition visit_ExternDecl :: "IdentDecl \<Rightarrow> TypeChecker \<Rightarrow> failure + TypeChecker" where
  "visit_ExternDecl decl tc =
     bindF (getVar (tc_ctx tc) decl) (\<lambda>(d, externVar).
       if hasSymbol (tc_ctx tc) (fst externVar) then
         Inr (report (d @ [reportMultipleDefs ''variable or constant'' (fst externVar)]) tc)
       else
         bindF (addSymbol (tc_ctx tc) externVar) (\<lambda>c. Inr (report d (setCtx c tc))))"

text \<open>
  The two loops of \<^verbatim>\<open>visit(FuncDecl)\<close>: whether every declaration checked, the
  variables kept, and the checker with the symbols added.
\<close>

fun declareArguments :: "(IdentDecl \<times> bool) list \<Rightarrow> TypeChecker \<Rightarrow> failure + (bool \<times> Var list \<times> TypeChecker)" where
  "declareArguments [] tc = Inr (True, [], tc)"
| "declareArguments ((arg, inout) # rest) tc =
     bindF (getVar (tc_ctx tc) arg) (\<lambda>(d, argVar).
       if \<not> defined (snd argVar) then
         bindF (declareArguments rest (report d tc)) (\<lambda>(ok, vs, tc'). Inr (False, vs, tc'))
       else
         bindF (addSymbolAccess (tc_ctx tc) (fst argVar) argVar
                  (if inout then ReadWrite else Read)) (\<lambda>c.
         bindF (declareArguments rest (report d (setCtx c tc))) (\<lambda>(ok, vs, tc').
           Inr (ok, argVar # vs, tc'))))"

fun declareResults :: "IdentDecl list \<Rightarrow> TypeChecker \<Rightarrow> failure + (bool \<times> Var list \<times> TypeChecker)" where
  "declareResults [] tc = Inr (True, [], tc)"
| "declareResults (res # rest) tc =
     bindF (getVar (tc_ctx tc) res) (\<lambda>(d, result).
       if \<not> defined (snd result) then
         bindF (declareResults rest (report d tc)) (\<lambda>(ok, vs, tc'). Inr (False, vs, tc'))
       else
         bindF (addSymbol (tc_ctx tc) result) (\<lambda>c.
         bindF (declareResults rest (report d (setCtx c tc))) (\<lambda>(ok, vs, tc').
           Inr (ok, result # vs, tc'))))"

definition visit_FuncDecl :: "string \<Rightarrow> (IdentDecl \<times> bool) list \<Rightarrow> IdentDecl list \<Rightarrow> Stmt list
                              \<Rightarrow> TypeChecker \<Rightarrow> failure + TypeChecker" where
  "visit_FuncDecl n args results body tc =
     bindF (declareArguments args (enterScope tc)) (\<lambda>(ok1, arguments, tc1).
     bindF (declareResults results tc1) (\<lambda>(ok2, res, tc2).
     bindF (checkStmts body tc2) (\<lambda>tc3.
     bindF (leaveScope tc3) (\<lambda>tc4.
       if \<not> (ok1 \<and> ok2) then Inr tc4
       else if containsFunction (tc_ctx tc4) n then
         Inr (report [reportMultipleDefs ''function or procedure'' n] tc4)
       else
         Inr (setCtx (addFunction (tc_ctx tc4)
                        \<lparr>getName = n, getArguments = arguments, getResults = res,
                         getKind = Internal\<rparr>) tc4)))))"

fun visit_ProgramElement :: "ProgramElement \<Rightarrow> TypeChecker \<Rightarrow> failure + TypeChecker" where
  "visit_ProgramElement (ElementTypeDecl n fieldDecls) tc = visit_ElementTypeDecl n fieldDecls tc"
| "visit_ProgramElement (ExternDecl decl) tc = visit_ExternDecl decl tc"
| "visit_ProgramElement (FuncDecl n args results body) tc = visit_FuncDecl n args results body tc"

text \<open>
  The walk over a program (the visitor framework's traversal, modelled from the spec:
  the top-level declarations in order).
\<close>

fun typeCheck :: "ProgramElement list \<Rightarrow> TypeChecker \<Rightarrow> failure + TypeChecker" where
  "typeCheck [] tc = Inr tc"
| "typeCheck (e # es) tc = bindF (visit_ProgramElement e tc) (typeCheck es)"

text \<open>A fresh checker: the global scope, no element types, the given functions.\<close>

definition newTypeChecker :: "(string \<times> Func) list \<Rightarrow> TypeChecker" where
  "newTypeChecker intrinsics =
     \<lparr>tc_ctx = \<lparr>symtable = [[]], elementTypes = [], funcs = intrinsics\<rparr>, tc_errors = []\<rparr>"

section \<open>Vocabulary of the theorems\<close>

text \<open>
  The axes of a tensor that a read indexes by a slice, in order. An index is given by
  the type of its expression (\<open>None\<close> for a slice), inferred without a diagnostic as
  that single value; it is well typed for the outer dimension it indexes when it is a
  slice, an integer or, for a named set, an element of the set (any single value for a
  dynamic dimension).
\<close>

definition slicedAxes :: "IndexDomain list \<Rightarrow> 'e ReadParam list \<Rightarrow> IndexDomain list" where
  "slicedAxes dims indices = map fst (filter (\<lambda>(d, p). isSlice p) (zip dims indices))"

definition inferredIndex :: "irType option \<Rightarrow> ((ExprType option) Res) ReadParam" where
  "inferredIndex ix =
     (case ix of None \<Rightarrow> Slice | Some ty \<Rightarrow> ExprParam (Inr ([], Some [Some ty])))"

definition wellTypedIndex :: "indexSet \<Rightarrow> irType option \<Rightarrow> bool" where
  "wellTypedIndex outer ix =
     (case ix of
        None \<Rightarrow> True
      | Some ty \<Rightarrow>
          (case outer of
             IndexSet_Range n \<Rightarrow> ty = ir_Int
           | IndexSet_Set n setType \<Rightarrow>
               (case setType of
                  ir_SetType el eps \<Rightarrow> ty = ir_Int \<or> ty = el
                | _ \<Rightarrow> False)
           | IndexSet_Dynamic \<Rightarrow> True))"


text \<open>
  The types of the assemble-and-multiply scenario: \<open>Point\<close> and \<open>Spring\<close>, the
  sets \<open>points\<close> and \<open>springs\<close>, and \<open>tensor[points,points](float)\<close>.
\<close>

definition PointT :: irType where
  "PointT = ir_ElementType ''Point'' [(''b'', ir_Float), (''c'', ir_Float)]"

definition SpringT :: irType where
  "SpringT = ir_ElementType ''Spring'' [(''a'', ir_Float)]"

definition pointsT :: irType where
  "pointsT = ir_SetType PointT []"

definition springsT :: irType where
  "springsT = ir_SetType SpringT [(''points'', pointsT), (''points'', pointsT)]"

definition matrixT :: irType where
  "matrixT = ir_TensorType ScalarFloat
               [[IndexSet_Set ''points'' pointsT], [IndexSet_Set ''points'' pointsT]] False"

text \<open>The element type of a set type.\<close>

fun elementTypeOf :: "irType \<Rightarrow> irType" where
  "elementTypeOf (ir_SetType el eps) = el"
| "elementTypeOf t = t"

text \<open>
  A context for the assemble-and-multiply scenario: the sets \<open>points\<close> and
  \<open>springs\<close>, the assembly function \<open>f(s : Spring, p : (Point*2))\<close> and a function
  \<open>g(s : Spring)\<close> of the element alone, both with the result
  \<open>A : tensor[points,points](float)\<close>.
\<close>

definition springsCtx :: ProgramContext where
  "springsCtx =
     \<lparr>symtable = [[(''springs'', \<lparr>getExpr = (''springs'', Some springsT), access = ReadWrite\<rparr>),
                   (''points'', \<lparr>getExpr = (''points'', Some pointsT), access = ReadWrite\<rparr>)]],
      elementTypes = [(''Spring'', SpringT), (''Point'', PointT)],
      funcs = [(''f'', \<lparr>getName = ''f'',
                        getArguments = [(''s'', Some SpringT),
                                        (''p'', Some (ir_TupleType PointT 2))],
                        getResults = [(''A'', Some matrixT)], getKind = Internal\<rparr>),
               (''g'', \<lparr>getName = ''g'',
                        getArguments = [(''s'', Some SpringT)],
                        getResults = [(''A'', Some matrixT)], getKind = Internal\<rparr>)]\<rparr>"

text \<open>
  A name that \<^verbatim>\<open>typeCheckVarOrConstDecl\<close> rejects as declared twice: bound in the
  innermost scope to a symbol of defined type.
\<close>

definition alreadyDeclared :: "ProgramContext \<Rightarrow> string \<Rightarrow> bool" where
  "alreadyDeclared ctx n =
     (hasSymbolLocal ctx n \<and>
      (case lookupSymbol (symtable ctx) n of
         None \<Rightarrow> False
       | Some sy \<Rightarrow> defined (snd (getExpr sy))))"

text \<open>The index sets that the slack for constants skips: the ranges of length 1.\<close>

definition dropUnitDims :: "indexSet list \<Rightarrow> indexSet list" where
  "dropUnitDims ds = dropWhile (\<lambda>d. d = IndexSet_Range 1) ds"

text \<open>
  The declarations \<open>const v : tensor[3,1](float) = [[1.0,2.0,3.0]]\<close> and
  \<open>const v : tensor[3](float) = [[1.0,2.0,3.0]]\<close>, and
  \<open>var x : int = x\<close>.
\<close>

definition rowLiteral :: Expr where
  "rowLiteral = DenseLiteral (NDTensorLiteral [FloatVectorLiteral [1, 2, 3] False] False)"

definition constColumn :: Stmt where
  "constColumn =
     ConstDecl \<lparr>ident = ''v'',
                declType = TensorTypeNode (NDTensorType (ScalarType ScalarType_FLOAT)
                             [RangeIndexSet 3, RangeIndexSet 1] False)\<rparr>
       (Some rowLiteral)"

definition constVector :: Stmt where
  "constVector =
     ConstDecl \<lparr>ident = ''v'',
                declType = TensorTypeNode (NDTensorType (ScalarType ScalarType_FLOAT)
                             [RangeIndexSet 3] False)\<rparr>
       (Some rowLiteral)"

definition selfReference :: Stmt where
  "selfReference =
     VarDecl \<lparr>ident = ''x'', declType = TensorTypeNode (ScalarType ScalarType_INT)\<rparr>
       (Some (VarExpr ''x''))"

text \<open>The depth of the symbol stack.\<close>

definition depth :: "TypeChecker \<Rightarrow> nat" where
  "depth tc = length (symtable (tc_ctx tc))"

text \<open>
  A procedure with a loop whose condition is not boolean and whose body refers to an
  undeclared variable, a branch, and a for-loop whose upper bound is not integral.
\<close>

definition scopedProgram :: "ProgramElement list" where
  "scopedProgram =
     [FuncDecl ''main'' [] []
        [WhileStmt (IntLiteral 1) [AssignStmt [VarExpr ''y''] (VarExpr ''z'')],
         IfStmt (BoolLiteral True) [PrintStmt (IntLiteral 1)]
           (Some [ForStmt ''i'' (IntLiteral 0) (FloatLiteral 1) []])]]"

text \<open>A result that is not an exception: a value, or an abort of the process.\<close>

definition noThrow :: "failure + 'a \<Rightarrow> bool" where
  "noThrow r = (case r of Inl (Thrown e) \<Rightarrow> False | _ \<Rightarrow> True)"

text \<open>
  A procedure that calls a function that is not declared, and the declaration
  \<open>var q : Point = 1.0\<close> of a variable that is not a tensor, checked where
  \<open>Point\<close> is declared.
\<close>

definition undeclaredCall :: "ProgramElement list" where
  "undeclaredCall =
     [FuncDecl ''main'' [] [] [AssignStmt [VarExpr ''x''] (CallExpr ''h'' [])]]"

definition pointVar :: Stmt where
  "pointVar = VarDecl \<lparr>ident = ''q'', declType = ElementType ''Point''\<rparr> (Some (FloatLiteral 1))"

definition springsChecker :: TypeChecker where
  "springsChecker = \<lparr>tc_ctx = springsCtx, tc_errors = []\<rparr>"

section \<open>Dense-literal shape inference\<close>

lemma merge_agree:
  "merge \<lparr>dimSizes = S @ [n], kind = K\<rparr> \<lparr>dimSizes = S, kind = K\<rparr>
     = Inr \<lparr>dimSizes = S @ [Suc n], kind = K\<rparr>"
  by (simp add: merge_def)

lemma mergeElems_agree:
  "\<forall>r\<in>set es. getDenseTensorType r = Inr \<lparr>dimSizes = S, kind = K\<rparr> \<Longrightarrow>
   mergeElems \<lparr>dimSizes = S @ [n], kind = K\<rparr> es
     = Inr \<lparr>dimSizes = S @ [n + length es], kind = K\<rparr>"
proof (induction es arbitrary: n)
  case Nil
  then show ?case by simp
next
  case (Cons r es)
  from Cons.prems have r: "getDenseTensorType r = Inr \<lparr>dimSizes = S, kind = K\<rparr>"
    by simp
  from Cons.prems
  have rest: "\<forall>r\<in>set es. getDenseTensorType r = Inr \<lparr>dimSizes = S, kind = K\<rparr>"
    by simp
  show ?case using Cons.IH [OF rest, of "Suc n"] by (simp add: r merge_agree)
qed

lemma mergeElems_first_mismatch:
  "\<forall>r\<in>set pre. getDenseTensorType r = Inr \<lparr>dimSizes = S, kind = K\<rparr> \<Longrightarrow>
   getDenseTensorType r = Inr tr \<Longrightarrow>
   mergeElems \<lparr>dimSizes = S @ [n], kind = K\<rparr> (pre @ r # post) =
     (if kind tr \<noteq> K then Inl (Thrown TypeError)
      else if dimSizes tr \<noteq> S then Inl (Thrown DimError)
      else mergeElems \<lparr>dimSizes = S @ [Suc (n + length pre)], kind = K\<rparr> post)"
proof (induction pre arbitrary: n)
  case Nil
  then show ?case by (auto simp: merge_def)
next
  case (Cons p pre)
  from Cons.prems have p: "getDenseTensorType p = Inr \<lparr>dimSizes = S, kind = K\<rparr>"
    by simp
  from Cons.prems
  have rest: "\<forall>r\<in>set pre. getDenseTensorType r = Inr \<lparr>dimSizes = S, kind = K\<rparr>"
    by simp
  show ?case using Cons.IH [OF rest Cons.prems(2), of "Suc n"] by (simp add: p merge_agree)
qed

lemma rows_agree:
  assumes "getDenseTensorType e = Inr \<lparr>dimSizes = S, kind = K\<rparr>"
    and "\<forall>r\<in>set es. getDenseTensorType r = Inr \<lparr>dimSizes = S, kind = K\<rparr>"
  shows "getDenseTensorType (NDTensorLiteral (e # es) False)
           = Inr \<lparr>dimSizes = S @ [Suc (length es)], kind = K\<rparr>"
  using mergeElems_agree [OF assms(2), of 1] assms(1) by (simp add: addDimension_def)

lemma rows_mismatch:
  assumes "getDenseTensorType e = Inr \<lparr>dimSizes = S, kind = K\<rparr>"
    and "\<forall>r\<in>set pre. getDenseTensorType r = Inr \<lparr>dimSizes = S, kind = K\<rparr>"
    and "getDenseTensorType r = Inr tr"
    and "kind tr \<noteq> K \<or> dimSizes tr \<noteq> S"
  shows "getDenseTensorType (NDTensorLiteral (e # pre @ r # post) False)
           = Inl (Thrown (if kind tr \<noteq> K then TypeError else DimError))"
  using mergeElems_first_mismatch [OF assms(2) assms(3), of 1 post] assms(1) assms(4)
  by (auto simp: addDimension_def)

text \<open>
  Claim C8, as the code has it. A nested literal of M rows (M at least 1), each of
  shape S and of one scalar kind, has the shape (M, S...) and that kind (the helper keeps
  the axes innermost first, the literal node publishes them outermost first). Otherwise
  the first row that disagrees with the first row decides the exception: a TypeError when
  it differs in scalar kind, whatever its shape, and a DimError when it has the kind and
  differs in shape. The literal node turns an exception of the helper into one diagnostic
  and publishes no type.
\<close>

theorem dense_literal_shape:
  "(getDenseTensorType e = Inr \<lparr>dimSizes = S, kind = K\<rparr> \<and>
    (\<forall>r\<in>set es. getDenseTensorType r = Inr \<lparr>dimSizes = S, kind = K\<rparr>) \<longrightarrow>
      getDenseTensorType (NDTensorLiteral (e # es) False)
        = Inr \<lparr>dimSizes = S @ [Suc (length es)], kind = K\<rparr> \<and>
      typeCheckDenseTensorLiteral (NDTensorLiteral (e # es) False)
        = Inr ([], Some [Some (ir_TensorType (if K = Type_INT then ScalarInt else ScalarFloat)
                   (map (\<lambda>n. [IndexSet_Range (int n)]) (Suc (length es) # rev S)) False)])) \<and>
   (getDenseTensorType e = Inr \<lparr>dimSizes = S, kind = K\<rparr> \<and>
    (\<forall>r\<in>set pre. getDenseTensorType r = Inr \<lparr>dimSizes = S, kind = K\<rparr>) \<and>
    getDenseTensorType r = Inr tr \<and> kind tr \<noteq> K \<longrightarrow>
      getDenseTensorType (NDTensorLiteral (e # pre @ r # post) False) = Inl (Thrown TypeError)) \<and>
   (getDenseTensorType e = Inr \<lparr>dimSizes = S, kind = K\<rparr> \<and>
    (\<forall>r\<in>set pre. getDenseTensorType r = Inr \<lparr>dimSizes = S, kind = K\<rparr>) \<and>
    getDenseTensorType r = Inr tr \<and> kind tr = K \<and> dimSizes tr \<noteq> S \<longrightarrow>
      getDenseTensorType (NDTensorLiteral (e # pre @ r # post) False) = Inl (Thrown DimError)) \<and>
   (getDenseTensorType lit = Inl (Thrown err) \<longrightarrow>
      typeCheckDenseTensorLiteral lit = Inr ([what err], None))"
proof (intro conjI impI)
  assume a: "getDenseTensorType e = Inr \<lparr>dimSizes = S, kind = K\<rparr> \<and>
    (\<forall>r\<in>set es. getDenseTensorType r = Inr \<lparr>dimSizes = S, kind = K\<rparr>)"
  then show g: "getDenseTensorType (NDTensorLiteral (e # es) False)
        = Inr \<lparr>dimSizes = S @ [Suc (length es)], kind = K\<rparr>"
    using rows_agree by blast
  show "typeCheckDenseTensorLiteral (NDTensorLiteral (e # es) False)
        = Inr ([], Some [Some (ir_TensorType (if K = Type_INT then ScalarInt else ScalarFloat)
                   (map (\<lambda>n. [IndexSet_Range (int n)]) (Suc (length es) # rev S)) False)])"
    unfolding typeCheckDenseTensorLiteral_def g by simp
next
  assume "getDenseTensorType e = Inr \<lparr>dimSizes = S, kind = K\<rparr> \<and>
    (\<forall>r\<in>set pre. getDenseTensorType r = Inr \<lparr>dimSizes = S, kind = K\<rparr>) \<and>
    getDenseTensorType r = Inr tr \<and> kind tr \<noteq> K"
  then show "getDenseTensorType (NDTensorLiteral (e # pre @ r # post) False)
               = Inl (Thrown TypeError)"
    using rows_mismatch [of e S K pre r tr post] by simp
next
  assume "getDenseTensorType e = Inr \<lparr>dimSizes = S, kind = K\<rparr> \<and>
    (\<forall>r\<in>set pre. getDenseTensorType r = Inr \<lparr>dimSizes = S, kind = K\<rparr>) \<and>
    getDenseTensorType r = Inr tr \<and> kind tr = K \<and> dimSizes tr \<noteq> S"
  then show "getDenseTensorType (NDTensorLiteral (e # pre @ r # post) False)
               = Inl (Thrown DimError)"
    using rows_mismatch [of e S K pre r tr post] by simp
next
  assume "getDenseTensorType lit = Inl (Thrown err)"
  then show "typeCheckDenseTensorLiteral lit = Inr ([what err], None)"
    by (simp add: typeCheckDenseTensorLiteral_def)
qed

lemmas dense_simps = addIntValues_def addFloatValues_def newDenseTensorType_def addToLast_def
  addDimension_def merge_def typeCheckDenseTensorLiteral_def

theorem dense_literal_shape_witness:
  "getDenseTensorType (IntVectorLiteral [1, 2] False) = Inr \<lparr>dimSizes = [2], kind = Type_INT\<rparr> \<and>
   getDenseTensorType (IntVectorLiteral [3, 4] False) = Inr \<lparr>dimSizes = [2], kind = Type_INT\<rparr> \<and>
   getDenseTensorType (IntVectorLiteral [5, 6] False) = Inr \<lparr>dimSizes = [2], kind = Type_INT\<rparr> \<and>
   getDenseTensorType (NDTensorLiteral [IntVectorLiteral [1, 2] False,
       IntVectorLiteral [3, 4] False, IntVectorLiteral [5, 6] False] False)
     = Inr \<lparr>dimSizes = [2, 3], kind = Type_INT\<rparr> \<and>
   typeCheckDenseTensorLiteral (NDTensorLiteral [IntVectorLiteral [1, 2] False,
       IntVectorLiteral [3, 4] False, IntVectorLiteral [5, 6] False] False)
     = Inr ([], Some [Some (ir_TensorType ScalarInt
                              [[IndexSet_Range 3], [IndexSet_Range 2]] False)]) \<and>
   getDenseTensorType (FloatVectorLiteral [1, 2] False)
     = Inr \<lparr>dimSizes = [2], kind = Type_FLOAT\<rparr> \<and>
   getDenseTensorType (NDTensorLiteral [IntVectorLiteral [1, 2] False,
       FloatVectorLiteral [1, 2] False] False) = Inl (Thrown TypeError) \<and>
   getDenseTensorType (IntVectorLiteral [1, 2, 3] False)
     = Inr \<lparr>dimSizes = [3], kind = Type_INT\<rparr> \<and>
   getDenseTensorType (NDTensorLiteral [IntVectorLiteral [1, 2] False,
       IntVectorLiteral [1, 2, 3] False] False) = Inl (Thrown DimError) \<and>
   typeCheckDenseTensorLiteral (NDTensorLiteral [IntVectorLiteral [1, 2] False,
       IntVectorLiteral [1, 2, 3] False] False) = Inr ([what DimError], None)"
proof -
  have h1: "getDenseTensorType (IntVectorLiteral [1, 2] False)
              = Inr \<lparr>dimSizes = [2], kind = Type_INT\<rparr>"
    by (simp add: dense_simps)
  have h2: "\<forall>r\<in>set [IntVectorLiteral [3, 4] False, IntVectorLiteral [5, 6] False].
      getDenseTensorType r = Inr \<lparr>dimSizes = [2], kind = Type_INT\<rparr>"
    by (simp add: dense_simps)
  have h3: "getDenseTensorType (FloatVectorLiteral [1, 2] False)
              = Inr \<lparr>dimSizes = [2], kind = Type_FLOAT\<rparr>"
    by (simp add: dense_simps)
  have h4: "getDenseTensorType (IntVectorLiteral [1, 2, 3] False)
              = Inr \<lparr>dimSizes = [3], kind = Type_INT\<rparr>"
    by (simp add: dense_simps)
  note t = dense_literal_shape
  have a: "getDenseTensorType (NDTensorLiteral [IntVectorLiteral [1, 2] False,
       IntVectorLiteral [3, 4] False, IntVectorLiteral [5, 6] False] False)
     = Inr \<lparr>dimSizes = [2, 3], kind = Type_INT\<rparr> \<and>
   typeCheckDenseTensorLiteral (NDTensorLiteral [IntVectorLiteral [1, 2] False,
       IntVectorLiteral [3, 4] False, IntVectorLiteral [5, 6] False] False)
     = Inr ([], Some [Some (ir_TensorType ScalarInt
                              [[IndexSet_Range 3], [IndexSet_Range 2]] False)])"
    using t [where e = "IntVectorLiteral [1, 2] False" and S = "[2]" and K = Type_INT
        and es = "[IntVectorLiteral [3, 4] False, IntVectorLiteral [5, 6] False]"] h1 h2
    by simp
  have b: "getDenseTensorType (NDTensorLiteral [IntVectorLiteral [1, 2] False,
       FloatVectorLiteral [1, 2] False] False) = Inl (Thrown TypeError)"
    using t [where e = "IntVectorLiteral [1, 2] False" and S = "[2]" and K = Type_INT
        and pre = "[]" and r = "FloatVectorLiteral [1, 2] False"
        and tr = "\<lparr>dimSizes = [2], kind = Type_FLOAT\<rparr>" and post = "[]"] h1 h3
    by simp
  have c: "getDenseTensorType (NDTensorLiteral [IntVectorLiteral [1, 2] False,
       IntVectorLiteral [1, 2, 3] False] False) = Inl (Thrown DimError)"
    using t [where e = "IntVectorLiteral [1, 2] False" and S = "[2]" and K = Type_INT
        and pre = "[]" and r = "IntVectorLiteral [1, 2, 3] False"
        and tr = "\<lparr>dimSizes = [3], kind = Type_INT\<rparr>" and post = "[]"] h1 h4
    by simp
  have d: "typeCheckDenseTensorLiteral (NDTensorLiteral [IntVectorLiteral [1, 2] False,
       IntVectorLiteral [1, 2, 3] False] False) = Inr ([what DimError], None)"
    using t [where lit = "NDTensorLiteral [IntVectorLiteral [1, 2] False,
       IntVectorLiteral [1, 2, 3] False] False" and err = DimError] c
    by simp
  show ?thesis using h1 h2 h3 h4 a b c d by simp
qed

text \<open>
  Claim C8 as stated fails on a literal whose rows differ in shape and in scalar kind:
  the rows \<open>[1, 2]\<close> and \<open>[1.0, 2.0, 3.0]\<close> differ in shape, and the helper raises a
  TypeError, not a DimError.
\<close>

theorem dense_literal_counterexample:
  "getDenseTensorType (IntVectorLiteral [1, 2] False)
     = Inr \<lparr>dimSizes = [2], kind = Type_INT\<rparr> \<and>
   getDenseTensorType (FloatVectorLiteral [1, 2, 3] False)
     = Inr \<lparr>dimSizes = [3], kind = Type_FLOAT\<rparr> \<and>
   getDenseTensorType (NDTensorLiteral [IntVectorLiteral [1, 2] False,
       FloatVectorLiteral [1, 2, 3] False] False) = Inl (Thrown TypeError) \<and>
   getDenseTensorType (NDTensorLiteral [IntVectorLiteral [1, 2] False,
       FloatVectorLiteral [1, 2, 3] False] False) \<noteq> Inl (Thrown DimError)"
  by (simp add: dense_simps)

section \<open>Multiplication and transpose\<close>

lemma visit_MulExpr_numeric:
  "c \<noteq> ScalarBoolean \<Longrightarrow> c' \<noteq> ScalarBoolean \<Longrightarrow>
   visit_MulExpr (Some [Some (ir_TensorType c ld lcv)]) (Some [Some (ir_TensorType c' rd rcv)])
     = mulTensors (ir_TensorType c ld lcv) (ir_TensorType c' rd rcv)"
  by (simp add: visit_MulExpr_def operandError_def notNumericTensor_def)

lemma mul_scalar_left:
  "mulTensors (ir_TensorType c [] lcv) (ir_TensorType c rd rcv)
     = ([], Some [Some (ir_TensorType c rd rcv)])"
  by (simp add: mulTensors_def order_def)

lemma mul_scalar_right:
  "ld \<noteq> [] \<Longrightarrow>
   mulTensors (ir_TensorType c ld lcv) (ir_TensorType c [] rcv)
     = ([], Some [Some (ir_TensorType c ld lcv)])"
  by (simp add: mulTensors_def order_def)

lemma mul_vector_vector:
  "mulTensors (ir_TensorType c [a] lcv) (ir_TensorType c [x] rcv) =
     (if lcv \<and> rcv then ([''cannot multiply two column vectors''], None)
      else if \<not> lcv \<and> \<not> rcv then ([''cannot multiply two row vectors''], None)
      else if a \<noteq> x then ([''cannot multiply vectors of type <T> and type <T>''], None)
      else ([], Some [Some (ir_TensorType c (if lcv then [a, x] else []) False)]))"
  by (simp add: mulTensors_def order_def)

lemma mul_matrix_vector:
  "mulTensors (ir_TensorType c [a, b] lcv) (ir_TensorType c [x] rcv) =
     (if b \<noteq> x then ([''cannot multiply a matrix of type <T> by a vector of type <T>''], None)
      else ((if \<not> rcv then [''Cannot multiply a matrix by a row vector''] else []),
            Some [Some (ir_TensorType c [a] True)]))"
  by (simp add: mulTensors_def order_def)

lemma mul_vector_matrix:
  "mulTensors (ir_TensorType c [a] lcv) (ir_TensorType c [x, y] rcv) =
     (if a \<noteq> x then ([''cannot multiply a vector of type <T> by a matrix of type <T>''], None)
      else ((if lcv then [''Cannot multiply a column vector by a matrix''] else []),
            Some [Some (ir_TensorType c [y] False)]))"
  by (simp add: mulTensors_def order_def)

lemma mul_matrix_matrix:
  "mulTensors (ir_TensorType c [a, b] lcv) (ir_TensorType c [x, y] rcv) =
     (if b \<noteq> x then ([''cannot multiply matrices of type <T> and type <T>''], None)
      else ([], Some [Some (ir_TensorType c [a, y] False)]))"
  by (simp add: mulTensors_def order_def)

lemma mul_order3:
  "0 < length ld \<Longrightarrow> 0 < length rd \<Longrightarrow> 3 \<le> length ld \<or> 3 \<le> length rd \<Longrightarrow>
   mulTensors (ir_TensorType c ld lcv) (ir_TensorType c rd rcv)
     = ([''cannot multiply tensors of order 3 or greater using *''], None)"
  by (auto simp: mulTensors_def order_def)

lemma length1E: "length xs = Suc 0 \<Longrightarrow> \<exists>a. xs = [a]"
  by (cases xs) auto

lemma length2E: "length xs = 2 \<Longrightarrow> \<exists>a b. xs = [a, b]"
  by (cases xs; cases "tl xs") auto

text \<open>
  Claim C2, as the code has it. For numeric tensor operands \<open>l\<close> and \<open>r\<close> of one
  component type, the multiplication node follows the shape table, read in order.
  An operand of order 0: the result is the other operand, of whatever order.
  Vector times vector: no diagnostic exactly when one operand is a column vector, the
  other a row vector and the dimensions are equal, and a diagnostic leaves the type
  undefined; column times row is the order-2 tensor of dimensions (left, right).
  Matrix times vector: no diagnostic exactly when \<open>L.dim[1] = R.dim[0]\<close> and the vector
  is a column; the result then is the column vector of dimension \<open>L.dim[0]\<close>.
  Vector times matrix: no diagnostic exactly when \<open>L.dim[0] = R.dim[0]\<close> and the vector
  is a row; the result then is the row vector of dimension \<open>R.dim[1]\<close>.
  Matrix times matrix: no diagnostic exactly when \<open>L.dim[1] = R.dim[0]\<close>; the result
  then has the dimensions \<open>(L.dim[0], R.dim[1])\<close>.
  Otherwise, that is when neither operand has order 0 and one has order 3 or more, the
  node reports "cannot multiply tensors of order 3 or greater using *" and publishes no
  type.
\<close>

theorem mul_shape_table:
  "c \<noteq> ScalarBoolean \<longrightarrow>
   (let l = ir_TensorType c ld lcv;
        r = ir_TensorType c rd rcv;
        res = visit_MulExpr (Some [Some l]) (Some [Some r])
    in (order l = 0 \<longrightarrow> res = ([], Some [Some r])) \<and>
       (order r = 0 \<and> 0 < order l \<longrightarrow> res = ([], Some [Some l])) \<and>
       (order l = 1 \<and> order r = 1 \<longrightarrow>
          (fst res = [] \<longleftrightarrow> lcv \<noteq> rcv \<and> ld ! 0 = rd ! 0) \<and>
          (fst res \<noteq> [] \<longrightarrow> snd res = None) \<and>
          (lcv \<and> \<not> rcv \<and> ld ! 0 = rd ! 0 \<longrightarrow>
             res = ([], Some [Some (ir_TensorType c [ld ! 0, rd ! 0] False)]))) \<and>
       (order l = 2 \<and> order r = 1 \<longrightarrow>
          (fst res = [] \<longleftrightarrow> ld ! 1 = rd ! 0 \<and> rcv) \<and>
          (ld ! 1 = rd ! 0 \<and> rcv \<longrightarrow>
             res = ([], Some [Some (ir_TensorType c [ld ! 0] True)]))) \<and>
       (order l = 1 \<and> order r = 2 \<longrightarrow>
          (fst res = [] \<longleftrightarrow> ld ! 0 = rd ! 0 \<and> \<not> lcv) \<and>
          (ld ! 0 = rd ! 0 \<and> \<not> lcv \<longrightarrow>
             res = ([], Some [Some (ir_TensorType c [rd ! 1] False)]))) \<and>
       (order l = 2 \<and> order r = 2 \<longrightarrow>
          (fst res = [] \<longleftrightarrow> ld ! 1 = rd ! 0) \<and>
          (ld ! 1 = rd ! 0 \<longrightarrow>
             res = ([], Some [Some (ir_TensorType c [ld ! 0, rd ! 1] False)]))) \<and>
       (0 < order l \<and> 0 < order r \<and> (3 \<le> order l \<or> 3 \<le> order r) \<longrightarrow>
          res = ([''cannot multiply tensors of order 3 or greater using *''], None)))"
proof
  assume c: "c \<noteq> ScalarBoolean"
  note v = visit_MulExpr_numeric [OF c c]
  have r0: "length ld = 0 \<Longrightarrow>
      mulTensors (ir_TensorType c ld lcv) (ir_TensorType c rd rcv)
        = ([], Some [Some (ir_TensorType c rd rcv)])"
    using mul_scalar_left by simp
  have r0': "length rd = 0 \<Longrightarrow> 0 < length ld \<Longrightarrow>
      mulTensors (ir_TensorType c ld lcv) (ir_TensorType c rd rcv)
        = ([], Some [Some (ir_TensorType c ld lcv)])"
    using mul_scalar_right by simp
  have r11: "length ld = 1 \<Longrightarrow> length rd = 1 \<Longrightarrow>
      mulTensors (ir_TensorType c ld lcv) (ir_TensorType c rd rcv) =
     (if lcv \<and> rcv then ([''cannot multiply two column vectors''], None)
      else if \<not> lcv \<and> \<not> rcv then ([''cannot multiply two row vectors''], None)
      else if ld ! 0 \<noteq> rd ! 0 then ([''cannot multiply vectors of type <T> and type <T>''], None)
      else ([], Some [Some (ir_TensorType c (if lcv then [ld ! 0, rd ! 0] else []) False)]))"
    using mul_vector_vector by (auto dest!: length1E)
  have r21: "length ld = 2 \<Longrightarrow> length rd = 1 \<Longrightarrow>
      mulTensors (ir_TensorType c ld lcv) (ir_TensorType c rd rcv) =
     (if ld ! 1 \<noteq> rd ! 0 then ([''cannot multiply a matrix of type <T> by a vector of type <T>''], None)
      else ((if \<not> rcv then [''Cannot multiply a matrix by a row vector''] else []),
            Some [Some (ir_TensorType c [ld ! 0] True)]))"
    using mul_matrix_vector by (auto dest!: length1E length2E)
  have r12: "length ld = 1 \<Longrightarrow> length rd = 2 \<Longrightarrow>
      mulTensors (ir_TensorType c ld lcv) (ir_TensorType c rd rcv) =
     (if ld ! 0 \<noteq> rd ! 0 then ([''cannot multiply a vector of type <T> by a matrix of type <T>''], None)
      else ((if lcv then [''Cannot multiply a column vector by a matrix''] else []),
            Some [Some (ir_TensorType c [rd ! 1] False)]))"
    using mul_vector_matrix by (auto dest!: length1E length2E)
  have r22: "length ld = 2 \<Longrightarrow> length rd = 2 \<Longrightarrow>
      mulTensors (ir_TensorType c ld lcv) (ir_TensorType c rd rcv) =
     (if ld ! 1 \<noteq> rd ! 0 then ([''cannot multiply matrices of type <T> and type <T>''], None)
      else ([], Some [Some (ir_TensorType c [ld ! 0, rd ! 1] False)]))"
    using mul_matrix_matrix by (auto dest!: length2E)
  show "let l = ir_TensorType c ld lcv;
        r = ir_TensorType c rd rcv;
        res = visit_MulExpr (Some [Some l]) (Some [Some r])
    in (order l = 0 \<longrightarrow> res = ([], Some [Some r])) \<and>
       (order r = 0 \<and> 0 < order l \<longrightarrow> res = ([], Some [Some l])) \<and>
       (order l = 1 \<and> order r = 1 \<longrightarrow>
          (fst res = [] \<longleftrightarrow> lcv \<noteq> rcv \<and> ld ! 0 = rd ! 0) \<and>
          (fst res \<noteq> [] \<longrightarrow> snd res = None) \<and>
          (lcv \<and> \<not> rcv \<and> ld ! 0 = rd ! 0 \<longrightarrow>
             res = ([], Some [Some (ir_TensorType c [ld ! 0, rd ! 0] False)]))) \<and>
       (order l = 2 \<and> order r = 1 \<longrightarrow>
          (fst res = [] \<longleftrightarrow> ld ! 1 = rd ! 0 \<and> rcv) \<and>
          (ld ! 1 = rd ! 0 \<and> rcv \<longrightarrow>
             res = ([], Some [Some (ir_TensorType c [ld ! 0] True)]))) \<and>
       (order l = 1 \<and> order r = 2 \<longrightarrow>
          (fst res = [] \<longleftrightarrow> ld ! 0 = rd ! 0 \<and> \<not> lcv) \<and>
          (ld ! 0 = rd ! 0 \<and> \<not> lcv \<longrightarrow>
             res = ([], Some [Some (ir_TensorType c [rd ! 1] False)]))) \<and>
       (order l = 2 \<and> order r = 2 \<longrightarrow>
          (fst res = [] \<longleftrightarrow> ld ! 1 = rd ! 0) \<and>
          (ld ! 1 = rd ! 0 \<longrightarrow>
             res = ([], Some [Some (ir_TensorType c [ld ! 0, rd ! 1] False)]))) \<and>
       (0 < order l \<and> 0 < order r \<and> (3 \<le> order l \<or> 3 \<le> order r) \<longrightarrow>
          res = ([''cannot multiply tensors of order 3 or greater using *''], None))"
    unfolding Let_def v order_def getDimensions.simps
  proof (intro conjI impI)
    assume "length ld = 0" then show "mulTensors (ir_TensorType c ld lcv) (ir_TensorType c rd rcv) = ([], Some [Some (ir_TensorType c rd rcv)])"
      by (rule r0)
  next
    assume "length rd = 0 \<and> 0 < length ld"
    then show "mulTensors (ir_TensorType c ld lcv) (ir_TensorType c rd rcv) = ([], Some [Some (ir_TensorType c ld lcv)])"
      using r0' by blast
  next
    assume a: "length ld = 1 \<and> length rd = 1"
    show "(fst (mulTensors (ir_TensorType c ld lcv) (ir_TensorType c rd rcv)) = []) = (lcv \<noteq> rcv \<and> ld ! 0 = rd ! 0)"
      unfolding r11 [OF a [THEN conjunct1] a [THEN conjunct2]] by auto
    show "snd (mulTensors (ir_TensorType c ld lcv) (ir_TensorType c rd rcv)) = None"
      if "fst (mulTensors (ir_TensorType c ld lcv) (ir_TensorType c rd rcv)) \<noteq> []"
      using that unfolding r11 [OF a [THEN conjunct1] a [THEN conjunct2]] by (auto split: if_splits)
    show "mulTensors (ir_TensorType c ld lcv) (ir_TensorType c rd rcv) = ([], Some [Some (ir_TensorType c [ld ! 0, rd ! 0] False)])"
      if "lcv \<and> \<not> rcv \<and> ld ! 0 = rd ! 0"
      using that unfolding r11 [OF a [THEN conjunct1] a [THEN conjunct2]] by auto
  next
    assume a: "length ld = 2 \<and> length rd = 1"
    show "(fst (mulTensors (ir_TensorType c ld lcv) (ir_TensorType c rd rcv)) = []) = (ld ! 1 = rd ! 0 \<and> rcv)"
      unfolding r21 [OF a [THEN conjunct1] a [THEN conjunct2]] by auto
    show "mulTensors (ir_TensorType c ld lcv) (ir_TensorType c rd rcv) = ([], Some [Some (ir_TensorType c [ld ! 0] True)])"
      if "ld ! 1 = rd ! 0 \<and> rcv"
      using that unfolding r21 [OF a [THEN conjunct1] a [THEN conjunct2]] by auto
  next
    assume a: "length ld = 1 \<and> length rd = 2"
    show "(fst (mulTensors (ir_TensorType c ld lcv) (ir_TensorType c rd rcv)) = []) = (ld ! 0 = rd ! 0 \<and> \<not> lcv)"
      unfolding r12 [OF a [THEN conjunct1] a [THEN conjunct2]] by auto
    show "mulTensors (ir_TensorType c ld lcv) (ir_TensorType c rd rcv) = ([], Some [Some (ir_TensorType c [rd ! 1] False)])"
      if "ld ! 0 = rd ! 0 \<and> \<not> lcv"
      using that unfolding r12 [OF a [THEN conjunct1] a [THEN conjunct2]] by auto
  next
    assume a: "length ld = 2 \<and> length rd = 2"
    show "(fst (mulTensors (ir_TensorType c ld lcv) (ir_TensorType c rd rcv)) = []) = (ld ! 1 = rd ! 0)"
      unfolding r22 [OF a [THEN conjunct1] a [THEN conjunct2]] by auto
    show "mulTensors (ir_TensorType c ld lcv) (ir_TensorType c rd rcv) = ([], Some [Some (ir_TensorType c [ld ! 0, rd ! 1] False)])"
      if "ld ! 1 = rd ! 0"
      using that unfolding r22 [OF a [THEN conjunct1] a [THEN conjunct2]] by auto
  next
    assume "0 < length ld \<and> 0 < length rd \<and> (3 \<le> length ld \<or> 3 \<le> length rd)"
    then show "mulTensors (ir_TensorType c ld lcv) (ir_TensorType c rd rcv) = ([''cannot multiply tensors of order 3 or greater using *''], None)"
      using mul_order3 by blast
  qed
qed
theorem mul_shape_table_witness:
  "ScalarFloat \<noteq> ScalarBoolean \<and>
   visit_MulExpr
     (Some [Some (ir_TensorType ScalarFloat [] False)])
     (Some [Some (ir_TensorType ScalarFloat
                    [[IndexSet_Range 2], [IndexSet_Range 3], [IndexSet_Range 4]] False)])
     = ([], Some [Some (ir_TensorType ScalarFloat
                    [[IndexSet_Range 2], [IndexSet_Range 3], [IndexSet_Range 4]] False)]) \<and>
   visit_MulExpr
     (Some [Some (ir_TensorType ScalarFloat [[IndexSet_Range 3]] True)])
     (Some [Some (ir_TensorType ScalarFloat [[IndexSet_Range 3]] False)])
     = ([], Some [Some (ir_TensorType ScalarFloat [[IndexSet_Range 3], [IndexSet_Range 3]] False)]) \<and>
   visit_MulExpr
     (Some [Some (ir_TensorType ScalarFloat [[IndexSet_Range 3], [IndexSet_Range 4]] False)])
     (Some [Some (ir_TensorType ScalarFloat [[IndexSet_Range 4]] True)])
     = ([], Some [Some (ir_TensorType ScalarFloat [[IndexSet_Range 3]] True)]) \<and>
   visit_MulExpr
     (Some [Some (ir_TensorType ScalarFloat [[IndexSet_Range 3]] False)])
     (Some [Some (ir_TensorType ScalarFloat [[IndexSet_Range 3], [IndexSet_Range 4]] False)])
     = ([], Some [Some (ir_TensorType ScalarFloat [[IndexSet_Range 4]] False)]) \<and>
   visit_MulExpr
     (Some [Some (ir_TensorType ScalarFloat [[IndexSet_Range 3], [IndexSet_Range 4]] False)])
     (Some [Some (ir_TensorType ScalarFloat [[IndexSet_Range 4], [IndexSet_Range 5]] False)])
     = ([], Some [Some (ir_TensorType ScalarFloat [[IndexSet_Range 3], [IndexSet_Range 5]] False)]) \<and>
   visit_MulExpr
     (Some [Some (ir_TensorType ScalarFloat
                    [[IndexSet_Range 2], [IndexSet_Range 3], [IndexSet_Range 4]] False)])
     (Some [Some (ir_TensorType ScalarFloat [[IndexSet_Range 4]] True)])
     = ([''cannot multiply tensors of order 3 or greater using *''], None)"
proof -
  have c: "ScalarFloat \<noteq> ScalarBoolean" by simp
  note t = mul_shape_table [rule_format, OF c, unfolded Let_def order_def getDimensions.simps]
  show ?thesis
    using c
      t [where ld = "[]" and rd = "[[IndexSet_Range 2], [IndexSet_Range 3], [IndexSet_Range 4]]"
           and lcv = False and rcv = False]
      t [where ld = "[[IndexSet_Range 3]]" and rd = "[[IndexSet_Range 3]]"
           and lcv = True and rcv = False]
      t [where ld = "[[IndexSet_Range 3], [IndexSet_Range 4]]" and rd = "[[IndexSet_Range 4]]"
           and lcv = False and rcv = True]
      t [where ld = "[[IndexSet_Range 3]]" and rd = "[[IndexSet_Range 3], [IndexSet_Range 4]]"
           and lcv = False and rcv = False]
      t [where ld = "[[IndexSet_Range 3], [IndexSet_Range 4]]"
           and rd = "[[IndexSet_Range 4], [IndexSet_Range 5]]" and lcv = False and rcv = False]
      t [where ld = "[[IndexSet_Range 2], [IndexSet_Range 3], [IndexSet_Range 4]]"
           and rd = "[[IndexSet_Range 4]]" and lcv = False and rcv = True]
    by simp
qed

text \<open>
  Claim C2 as stated fails on its last row: a scalar times a tensor of order 3 is
  accepted without a diagnostic, with the order-3 type as the result.
\<close>

theorem mul_order3_counterexample:
  "order (ir_TensorType ScalarFloat
            [[IndexSet_Range 2], [IndexSet_Range 3], [IndexSet_Range 4]] False) = 3 \<and>
   visit_MulExpr
     (Some [Some ir_Float])
     (Some [Some (ir_TensorType ScalarFloat
                    [[IndexSet_Range 2], [IndexSet_Range 3], [IndexSet_Range 4]] False)])
     = ([], Some [Some (ir_TensorType ScalarFloat
                    [[IndexSet_Range 2], [IndexSet_Range 3], [IndexSet_Range 4]] False)])"
  by (simp add: order_def ir_Float_def visit_MulExpr_def operandError_def notNumericTensor_def
      mulTensors_def)

lemma transposeType_twice:
  assumes "order t \<le> 2" and "isTensor (Some t)" and "order t = 2 \<longrightarrow> \<not> isColumnVector t"
  shows "transposeType (transposeType t) = t"
proof -
  from assms(2) obtain c ds cv where t: "t = ir_TensorType c ds cv"
    by (cases t) auto
  consider "length ds = 0" | "length ds = 1" | "length ds = 2"
    using assms(1) by (auto simp: t order_def le_Suc_eq numeral_2_eq_2)
  then show ?thesis
  proof cases
    case 1
    then show ?thesis by (simp add: t transposeType_def order_def)
  next
    case 2
    then show ?thesis by (simp add: t transposeType_def order_def)
  next
    case 3
    then obtain a b where "ds = [a, b]" using length2E by blast
    then show ?thesis using assms(3) by (simp add: t transposeType_def order_def)
  qed
qed

lemma order_transposeType:
  "order t \<le> 2 \<Longrightarrow> order (transposeType t) = order t"
  by (cases "getDimensions t"; cases "tl (getDimensions t)")
     (auto simp: transposeType_def order_def)

lemma visit_TransposeExpr_tensor:
  "order t \<le> 2 \<Longrightarrow> isTensor (Some t) \<Longrightarrow>
   visit_TransposeExpr (Some [Some t]) = ([], Some [Some (transposeType t)])"
  by (cases t) (auto simp: visit_TransposeExpr_def order_def)

lemma isTensor_transposeType:
  "isTensor (Some t) \<Longrightarrow> isTensor (Some (transposeType t))"
  by (cases t) (auto simp: transposeType_def)

text \<open>
  Claim C10. A tensor type of order at most 2 that keeps the data model's invariant (the
  column-vector flag stands on tensors of order 1 only, so a matrix does not carry it) is
  restored by two transposes, as a type and through the transpose node; and a row vector
  times a column vector of the same dimension and component type infers the order-0
  tensor of that component type.
\<close>

theorem transpose_twice:
  "(order t \<le> 2 \<and> isTensor (Some t) \<and> (order t = 2 \<longrightarrow> \<not> isColumnVector t) \<longrightarrow>
      transposeType (transposeType t) = t \<and>
      visit_TransposeExpr (snd (visit_TransposeExpr (Some [Some t]))) = ([], Some [Some t])) \<and>
   (c \<noteq> ScalarBoolean \<longrightarrow>
      visit_MulExpr (Some [Some (ir_TensorType c [d] False)])
                    (Some [Some (ir_TensorType c [d] True)])
        = ([], Some [Some (ir_TensorType c [] False)]))"
proof (intro conjI impI)
  assume a: "order t \<le> 2 \<and> isTensor (Some t) \<and> (order t = 2 \<longrightarrow> \<not> isColumnVector t)"
  then show tt: "transposeType (transposeType t) = t"
    using transposeType_twice by blast
  from a have "visit_TransposeExpr (Some [Some t]) = ([], Some [Some (transposeType t)])"
    using visit_TransposeExpr_tensor by blast
  moreover from a
  have "visit_TransposeExpr (Some [Some (transposeType t)])
          = ([], Some [Some (transposeType (transposeType t))])"
    using visit_TransposeExpr_tensor [of "transposeType t"] order_transposeType [of t]
      isTensor_transposeType [of t] by simp
  ultimately
  show "visit_TransposeExpr (snd (visit_TransposeExpr (Some [Some t]))) = ([], Some [Some t])"
    using tt by simp
next
  assume "c \<noteq> ScalarBoolean"
  then show "visit_MulExpr (Some [Some (ir_TensorType c [d] False)])
                    (Some [Some (ir_TensorType c [d] True)])
        = ([], Some [Some (ir_TensorType c [] False)])"
    by (simp add: visit_MulExpr_numeric mul_vector_vector)
qed

theorem transpose_twice_witness:
  "order (ir_TensorType ScalarFloat [[IndexSet_Range 3], [IndexSet_Range 4]] False) \<le> 2 \<and>
   isTensor (Some (ir_TensorType ScalarFloat [[IndexSet_Range 3], [IndexSet_Range 4]] False)) \<and>
   transposeType (ir_TensorType ScalarFloat [[IndexSet_Range 3], [IndexSet_Range 4]] False)
     = ir_TensorType ScalarFloat [[IndexSet_Range 4], [IndexSet_Range 3]] False \<and>
   transposeType (transposeType
       (ir_TensorType ScalarFloat [[IndexSet_Range 3], [IndexSet_Range 4]] False))
     = ir_TensorType ScalarFloat [[IndexSet_Range 3], [IndexSet_Range 4]] False \<and>
   visit_TransposeExpr (snd (visit_TransposeExpr
       (Some [Some (ir_TensorType ScalarFloat [[IndexSet_Range 3]] True)])))
     = ([], Some [Some (ir_TensorType ScalarFloat [[IndexSet_Range 3]] True)]) \<and>
   visit_MulExpr (Some [Some (ir_TensorType ScalarFloat [[IndexSet_Range 3]] False)])
                 (Some [Some (ir_TensorType ScalarFloat [[IndexSet_Range 3]] True)])
     = ([], Some [Some (ir_TensorType ScalarFloat [] False)])"
proof -
  have h: "order (ir_TensorType ScalarFloat [[IndexSet_Range 3], [IndexSet_Range 4]] False) \<le> 2"
    "isTensor (Some (ir_TensorType ScalarFloat [[IndexSet_Range 3], [IndexSet_Range 4]] False))"
    "transposeType (ir_TensorType ScalarFloat [[IndexSet_Range 3], [IndexSet_Range 4]] False)
     = ir_TensorType ScalarFloat [[IndexSet_Range 4], [IndexSet_Range 3]] False"
    by (simp_all add: order_def transposeType_def)
  have c: "ScalarFloat \<noteq> ScalarBoolean" by simp
  show ?thesis
    using h c
      transpose_twice [where t = "ir_TensorType ScalarFloat [[IndexSet_Range 3], [IndexSet_Range 4]] False"
        and c = ScalarFloat and d = "[IndexSet_Range 3]"]
      transpose_twice [where t = "ir_TensorType ScalarFloat [[IndexSet_Range 3]] True"
        and c = ScalarFloat and d = "[IndexSet_Range 3]"]
    by (simp add: order_def)
qed

section \<open>Tensor reads\<close>

lemma readIndices_kept:
  "readIndices od dims i ps = Inr (ds, kept) \<Longrightarrow> i + length ps \<le> length dims \<Longrightarrow>
   kept = slicedAxes (drop i dims) ps"
proof (induction ps arbitrary: i ds kept)
  case Nil
  then show ?case by (simp add: slicedAxes_def)
next
  case (Cons p ps)
  from Cons.prems(2) have i: "i < length dims" and l: "Suc i + length ps \<le> length dims"
    by simp_all
  show ?case
  proof (cases p)
    case Slice
    with Cons.prems(1) obtain ds' kept' where
      r: "readIndices od dims (Suc i) ps = Inr (ds', kept')"
      and k: "kept = dims ! i # kept'"
      by (auto simp: bindF_def split: sum.splits)
    from Cons.IH [OF r l] have "kept' = slicedAxes (drop (Suc i) dims) ps" .
    then show ?thesis using k i Slice
      by (simp add: slicedAxes_def Cons_nth_drop_Suc [symmetric])
  next
    case (ExprParam r)
    with Cons.prems(1) obtain ds' where
      rr: "readIndices od dims (Suc i) ps = Inr (ds', kept)"
      by (auto simp: bindF_def split: sum.splits prod.splits)
    from Cons.IH [OF rr l] have "kept = slicedAxes (drop (Suc i) dims) ps" .
    then show ?thesis using i ExprParam
      by (simp add: slicedAxes_def Cons_nth_drop_Suc [symmetric])
  qed
qed

lemma inferredIndex_simps:
  "inferredIndex None = Slice"
  "inferredIndex (Some ty) = ExprParam (Inr ([], Some [Some ty]))"
  by (simp_all add: inferredIndex_def)

lemma checkIndex_wellTyped:
  "i < length od \<Longrightarrow> wellTypedIndex (od ! i) (Some ty) \<Longrightarrow>
   checkIndex od i (Some [Some ty]) = Inr []"
  by (auto simp: wellTypedIndex_def checkIndex_def ir_Int_def compareTypes_def bindF_def
      split: indexSet.splits irType.splits)

lemma readIndices_wellTyped:
  "list_all2 wellTypedIndex (drop i od) ixs \<Longrightarrow>
   \<exists>kept. readIndices od dims i (map inferredIndex ixs) = Inr ([], kept)"
proof (induction ixs arbitrary: i)
  case Nil
  then show ?case by simp
next
  case (Cons p ps)
  from Cons.prems obtain x xs where d: "drop i od = x # xs"
    and w: "wellTypedIndex x p" and rest: "list_all2 wellTypedIndex xs ps"
    by (auto simp: list_all2_Cons2)
  from d have i: "i < length od"
    by (metis drop_all list.distinct(1) not_le)
  from d i have x: "od ! i = x" and xs: "drop (Suc i) od = xs"
    by (simp_all add: Cons_nth_drop_Suc [symmetric])
  from Cons.IH [of "Suc i"] rest xs
  obtain kept where k: "readIndices od dims (Suc i) (map inferredIndex ps) = Inr ([], kept)"
    by auto
  show ?case
  proof (cases p)
    case None
    then show ?thesis using k by (simp add: bindF_def inferredIndex_simps)
  next
    case (Some ty)
    with w x i have "checkIndex od i (Some [Some ty]) = Inr []"
      using checkIndex_wellTyped by blast
    then show ?thesis using k Some by (simp add: bindF_def inferredIndex_simps)
  qed
qed

text \<open>
  Claim C5. A read of a tensor with as many indices as the tensor has dimensions: when
  the visit returns, the type it publishes has exactly the axes indexed by slices, in
  order, and is marked a column vector exactly when one axis survives and the last index
  is not a slice; when no axis survives it is the block type of the tensor. And when the
  indices are well typed the visit returns, with that type and no diagnostic.
\<close>

theorem tensor_read_type:
  "(length dims = length indices \<and>
    visit_TensorReadExpr (Some [Some (ir_TensorType c dims cv)]) indices = Inr (ds, ty) \<longrightarrow>
      ty = Some [Some (if slicedAxes dims indices = [] then getBlockType (ir_TensorType c dims cv)
                       else ir_TensorType c (slicedAxes dims indices)
                              (length (slicedAxes dims indices) = 1
                               \<and> \<not> isSlice (last indices)))]) \<and>
   (length dims = length ixs \<and>
    list_all2 wellTypedIndex (getOuterDimensions (ir_TensorType c dims cv)) ixs \<longrightarrow>
      visit_TensorReadExpr (Some [Some (ir_TensorType c dims cv)]) (map inferredIndex ixs)
        = Inr ([], Some [Some (if slicedAxes dims (map inferredIndex ixs) = []
                               then getBlockType (ir_TensorType c dims cv)
                               else ir_TensorType c (slicedAxes dims (map inferredIndex ixs))
                                      (length (slicedAxes dims (map inferredIndex ixs)) = 1
                                       \<and> \<not> isSlice (last (map inferredIndex ixs))))]))"
proof (intro conjI impI)
  assume a: "length dims = length indices \<and>
    visit_TensorReadExpr (Some [Some (ir_TensorType c dims cv)]) indices = Inr (ds, ty)"
  then obtain kept where
    r: "readIndices (getOuterDimensions (ir_TensorType c dims cv)) dims 0 indices = Inr (ds, kept)"
    and t: "ty = Some [Some (if kept = [] then getBlockType (ir_TensorType c dims cv)
                             else ir_TensorType c kept
                                    (length kept = 1 \<and> \<not> isSlice (last indices)))]"
    by (auto simp: visit_TensorReadExpr_def bindF_def split: sum.splits if_splits)
  from readIndices_kept [OF r] a have "kept = slicedAxes dims indices" by simp
  with t show "ty = Some [Some (if slicedAxes dims indices = []
                       then getBlockType (ir_TensorType c dims cv)
                       else ir_TensorType c (slicedAxes dims indices)
                              (length (slicedAxes dims indices) = 1
                               \<and> \<not> isSlice (last indices)))]"
    by simp
next
  assume a: "length dims = length ixs \<and>
    list_all2 wellTypedIndex (getOuterDimensions (ir_TensorType c dims cv)) ixs"
  then obtain kept where
    r: "readIndices (getOuterDimensions (ir_TensorType c dims cv)) dims 0 (map inferredIndex ixs)
          = Inr ([], kept)"
    using readIndices_wellTyped [of 0 "getOuterDimensions (ir_TensorType c dims cv)" ixs dims]
    by auto
  from readIndices_kept [OF r] a have "kept = slicedAxes dims (map inferredIndex ixs)" by simp
  with r a show "visit_TensorReadExpr (Some [Some (ir_TensorType c dims cv)]) (map inferredIndex ixs)
        = Inr ([], Some [Some (if slicedAxes dims (map inferredIndex ixs) = []
                               then getBlockType (ir_TensorType c dims cv)
                               else ir_TensorType c (slicedAxes dims (map inferredIndex ixs))
                                      (length (slicedAxes dims (map inferredIndex ixs)) = 1
                                       \<and> \<not> isSlice (last (map inferredIndex ixs))))])"
    by (simp add: visit_TensorReadExpr_def bindF_def)
qed

theorem tensor_read_type_witness:
  "list_all2 wellTypedIndex (getOuterDimensions matrixT) [None, Some PointT] \<and>
   visit_TensorReadExpr (Some [Some matrixT]) (map inferredIndex [None, Some PointT])
     = Inr ([], Some [Some (ir_TensorType ScalarFloat [[IndexSet_Set ''points'' pointsT]] True)]) \<and>
   list_all2 wellTypedIndex (getOuterDimensions matrixT) [Some ir_Int, None] \<and>
   visit_TensorReadExpr (Some [Some matrixT]) (map inferredIndex [Some ir_Int, None])
     = Inr ([], Some [Some (ir_TensorType ScalarFloat [[IndexSet_Set ''points'' pointsT]] False)]) \<and>
   list_all2 wellTypedIndex (getOuterDimensions matrixT) [Some PointT, Some ir_Int] \<and>
   visit_TensorReadExpr (Some [Some matrixT]) (map inferredIndex [Some PointT, Some ir_Int])
     = Inr ([], Some [Some ir_Float]) \<and>
   visit_TensorReadExpr (Some [Some matrixT])
       [Slice, ExprParam (Inr ([], Some [Some ir_Float]))]
     = Inr ([''expected an integral index or an index of type <T> but got an index of type <T>''],
            Some [Some (ir_TensorType ScalarFloat [[IndexSet_Set ''points'' pointsT]] True)])"
proof -
  have m: "matrixT = ir_TensorType ScalarFloat
               [[IndexSet_Set ''points'' pointsT], [IndexSet_Set ''points'' pointsT]] False"
    by (simp add: matrixT_def)
  have w: "list_all2 wellTypedIndex (getOuterDimensions matrixT) [None, Some PointT]"
    "list_all2 wellTypedIndex (getOuterDimensions matrixT) [Some ir_Int, None]"
    "list_all2 wellTypedIndex (getOuterDimensions matrixT) [Some PointT, Some ir_Int]"
    by (simp_all add: m getOuterDimensions_def wellTypedIndex_def pointsT_def)
  have v: "visit_TensorReadExpr (Some [Some matrixT])
       [Slice, ExprParam (Inr ([], Some [Some ir_Float]))]
     = Inr ([''expected an integral index or an index of type <T> but got an index of type <T>''],
            Some [Some (ir_TensorType ScalarFloat [[IndexSet_Set ''points'' pointsT]] True)])"
    by (simp add: m visit_TensorReadExpr_def getOuterDimensions_def bindF_def checkIndex_def
        pointsT_def PointT_def ir_Float_def compareTypes_def)
  note t = tensor_read_type [where c = ScalarFloat and cv = False
      and dims = "[[IndexSet_Set ''points'' pointsT], [IndexSet_Set ''points'' pointsT]]",
      folded m]
  show ?thesis
    using w v
      t [where ixs = "[None, Some PointT]"
           and indices = "[Slice, ExprParam (Inr ([], Some [Some ir_Float]))]"
           and ds = "[''expected an integral index or an index of type <T> but got an index of type <T>'']"
           and ty = "Some [Some (ir_TensorType ScalarFloat [[IndexSet_Set ''points'' pointsT]] True)]"]
      t [where ixs = "[Some ir_Int, None]"]
      t [where ixs = "[Some PointT, Some ir_Int]"]
    by (simp add: slicedAxes_def inferredIndex_simps getBlockType_def m ir_Float_def)
qed

section \<open>Map expressions\<close>

text \<open>
  Claim C1, as the code has it. For a map of a declared function \<open>F\<close> to a target
  \<open>T\<close> that resolves to a symbol of set type (whose endpoints are sets), the actuals
  are the partial actuals, then an element of \<open>T\<close>'s element type, and then, when
  \<open>T\<close> has endpoints and the actuals so far are not as many as \<open>F\<close>'s arguments,
  a tuple of the first endpoint's element type, as long as the number of endpoints. The
  arity and the pairwise types are checked against \<open>F\<close> on that list, and the node
  publishes \<open>F\<close>'s result types.
\<close>

theorem map_actuals:
  "map_of (funcs ctx) F = Some f \<and>
   lookupSymbol (symtable ctx) T = Some sy \<and>
   snd (getExpr sy) = Some (ir_SetType el eps) \<and>
   (\<forall>e\<in>set eps. isSet (Some (snd e))) \<longrightarrow>
   (let partial = snd (partialActualsType partialActuals);
        d1 = fst (partialActualsType partialActuals);
        base = partial @ [Some el];
        actuals = (if eps \<noteq> [] \<and> length base \<noteq> length (getArguments f) then
                     base @ [Some (ir_TupleType (elementTypeOf (snd (eps ! 0)))
                                     (int (length eps)))]
                   else base);
        retType = Some (map snd (getResults f))
    in synthesizedActuals partial (ir_SetType el eps) (length (getArguments f)) = Inr actuals \<and>
       visit_MapExpr ctx F T partialActuals =
         (if length actuals \<noteq> length (getArguments f) then
            Inr (d1 @ [''map operation passes <N> arguments to assembly function but function <F> expects <N> arguments''],
                 retType)
          else bindF (compareActuals actuals (getArguments f)) (\<lambda>d4.
                 Inr (d1 @ d4, retType))))"
proof
  assume a: "map_of (funcs ctx) F = Some f \<and>
   lookupSymbol (symtable ctx) T = Some sy \<and>
   snd (getExpr sy) = Some (ir_SetType el eps) \<and>
   (\<forall>e\<in>set eps. isSet (Some (snd e)))"
  have e0: "eps \<noteq> [] \<Longrightarrow>
      \<exists>nel neps. snd (eps ! 0) = ir_SetType nel neps"
  proof -
    assume "eps \<noteq> []"
    then have "eps ! 0 \<in> set eps" by (cases eps) auto
    with a have "isSet (Some (snd (eps ! 0)))" by blast
    then show ?thesis by (cases "snd (eps ! 0)") auto
  qed
  have s: "synthesizedActuals partial (ir_SetType el eps) n =
      Inr (if eps \<noteq> [] \<and> length (partial @ [Some el]) \<noteq> n then
             (partial @ [Some el]) @ [Some (ir_TupleType (elementTypeOf (snd (eps ! 0)))
                                             (int (length eps)))]
           else partial @ [Some el])" for partial n
    using e0 by (auto simp: synthesizedActuals_def Let_def)
  obtain d1 partial where p: "partialActualsType partialActuals = (d1, partial)"
    by (cases "partialActualsType partialActuals")
  from a have v: "visit_MapExpr ctx F T partialActuals =
      bindF (synthesizedActuals partial (ir_SetType el eps) (length (getArguments f)))
        (\<lambda>actuals.
           if length actuals \<noteq> length (getArguments f) then
             Inr (d1 @ [''map operation passes <N> arguments to assembly function but function <F> expects <N> arguments''],
                  Some (map snd (getResults f)))
           else bindF (compareActuals actuals (getArguments f)) (\<lambda>d4.
                  Inr (d1 @ d4, Some (map snd (getResults f)))))"
    by (auto simp: visit_MapExpr_def p containsFunction_def hasSymbol_def getSymbol_def bindF_def
        Let_def split: sum.splits)
  show "let partial = snd (partialActualsType partialActuals);
        d1 = fst (partialActualsType partialActuals);
        base = partial @ [Some el];
        actuals = (if eps \<noteq> [] \<and> length base \<noteq> length (getArguments f) then
                     base @ [Some (ir_TupleType (elementTypeOf (snd (eps ! 0)))
                                     (int (length eps)))]
                   else base);
        retType = Some (map snd (getResults f))
    in synthesizedActuals partial (ir_SetType el eps) (length (getArguments f)) = Inr actuals \<and>
       visit_MapExpr ctx F T partialActuals =
         (if length actuals \<noteq> length (getArguments f) then
            Inr (d1 @ [''map operation passes <N> arguments to assembly function but function <F> expects <N> arguments''],
                 retType)
          else bindF (compareActuals actuals (getArguments f)) (\<lambda>d4.
                 Inr (d1 @ d4, retType)))"
    unfolding Let_def p v s fst_conv snd_conv by (simp add: bindF_def)
qed

lemmas scenario_simps = springsCtx_def springsT_def pointsT_def SpringT_def PointT_def matrixT_def
  ir_Float_def ir_Int_def ir_Boolean_def

theorem map_actuals_witness:
  "map_of (funcs springsCtx) ''f'' =
     Some \<lparr>getName = ''f'',
           getArguments = [(''s'', Some SpringT), (''p'', Some (ir_TupleType PointT 2))],
           getResults = [(''A'', Some matrixT)], getKind = Internal\<rparr> \<and>
   lookupSymbol (symtable springsCtx) ''springs''
     = Some \<lparr>getExpr = (''springs'', Some springsT), access = ReadWrite\<rparr> \<and>
   springsT = ir_SetType SpringT [(''points'', pointsT), (''points'', pointsT)] \<and>
   synthesizedActuals [] springsT 2 = Inr [Some SpringT, Some (ir_TupleType PointT 2)] \<and>
   visit_MapExpr springsCtx ''f'' ''springs'' [] = Inr ([], Some [Some matrixT])"
proof -
  have h: "map_of (funcs springsCtx) ''f'' =
     Some \<lparr>getName = ''f'',
           getArguments = [(''s'', Some SpringT), (''p'', Some (ir_TupleType PointT 2))],
           getResults = [(''A'', Some matrixT)], getKind = Internal\<rparr>"
    "lookupSymbol (symtable springsCtx) ''springs''
     = Some \<lparr>getExpr = (''springs'', Some springsT), access = ReadWrite\<rparr>"
    "springsT = ir_SetType SpringT [(''points'', pointsT), (''points'', pointsT)]"
    "\<forall>e\<in>set [(''points'', pointsT), (''points'', pointsT)]. isSet (Some (snd e))"
    by (simp_all add: springsCtx_def springsT_def pointsT_def)
  show ?thesis
    using h map_actuals [where ctx = springsCtx and F = "''f''" and T = "''springs''"
        and f = "\<lparr>getName = ''f'',
           getArguments = [(''s'', Some SpringT), (''p'', Some (ir_TupleType PointT 2))],
           getResults = [(''A'', Some matrixT)], getKind = Internal\<rparr>"
        and sy = "\<lparr>getExpr = (''springs'', Some springsT), access = ReadWrite\<rparr>"
        and el = SpringT and eps = "[(''points'', pointsT), (''points'', pointsT)]"
        and partialActuals = "[]"]
    by (simp add: Let_def bindF_def compareTypes_def pointsT_def numeral_2_eq_2)
qed

text \<open>
  Claim C1 as stated fails when the function takes the element alone: \<open>springs\<close> has
  two endpoints, and mapping \<open>g(s : Spring)\<close> to it synthesizes the element only, no
  tuple, and reports nothing.
\<close>

theorem map_actuals_counterexample:
  "springsT = ir_SetType SpringT [(''points'', pointsT), (''points'', pointsT)] \<and>
   map_of (funcs springsCtx) ''g'' =
     Some \<lparr>getName = ''g'', getArguments = [(''s'', Some SpringT)],
           getResults = [(''A'', Some matrixT)], getKind = Internal\<rparr> \<and>
   synthesizedActuals [] springsT 1 = Inr [Some SpringT] \<and>
   visit_MapExpr springsCtx ''g'' ''springs'' [] = Inr ([], Some [Some matrixT])"
  by (simp add: scenario_simps synthesizedActuals_def visit_MapExpr_def containsFunction_def
      hasSymbol_def getSymbol_def bindF_def compareTypes_def)

section \<open>Variable and constant declarations\<close>

lemma stdEqual_refl: "stdEqual xs xs = Inr True"
  by (induction xs) auto

lemma toTensor_tensor: "isTensor (Some t) \<Longrightarrow> toTensor (Some t) = Inr t"
  by (cases t) (auto simp: toTensor_def)

lemma checkInitializer_slack:
  assumes "isTensor (Some varT)" and "isTensor (Some initT)"
    and "getBlockType varT = getBlockType initT"
    and "dropUnitDims (getOuterDimensions varT) = dropUnitDims (getOuterDimensions initT)"
  shows "checkInitializer True varT (Some [Some initT]) = Inr []"
  using assms
  by (simp add: checkInitializer_def compareTypes_def bindF_def toTensor_tensor stdEqual_refl
      dropUnitDims_def)

lemma typeCheckVarOrConstDecl_fresh:
  assumes "getVar (tc_ctx tc) decl = Inr (d1, (n, Some varT))"
    and "inferType e (tc_ctx tc) False False = Inr (d2, initType)"
    and "\<not> alreadyDeclared (tc_ctx tc) n"
    and "symtable (tc_ctx tc) = s # ss"
  shows "typeCheckVarOrConstDecl decl (Some e) isConst tc =
           bindF (checkInitializer isConst varT initType) (\<lambda>d3.
             Inr (report (d1 @ d2 @ d3)
                    (setCtx ((tc_ctx tc)\<lparr>symtable :=
                       ((n, \<lparr>getExpr = (n, Some varT),
                             access = (if isConst then Read else ReadWrite)\<rparr>) # s) # ss\<rparr>) tc)))"
  using assms
  by (auto simp: typeCheckVarOrConstDecl_def bindF_def alreadyDeclared_def getSymbol_def
      addSymbolAccess_def hasSymbolLocal_def split: option.splits)

text \<open>
  Claim C7, as the code has it. A constant whose declared tensor type and initializer
  tensor type have equal block types is accepted, with no diagnostic of the declaration's
  own, whenever the two lists of outer dimensions agree after the leading dimensions
  equal to 1 are discarded from both; the constant is registered read-only.
\<close>

theorem const_unit_slack:
  "getVar (tc_ctx tc) decl = Inr (d1, (n, Some varT)) \<and>
   inferType e (tc_ctx tc) False False = Inr (d2, Some [Some initT]) \<and>
   \<not> alreadyDeclared (tc_ctx tc) n \<and> symtable (tc_ctx tc) = s # ss \<and>
   isTensor (Some varT) \<and> isTensor (Some initT) \<and>
   getBlockType varT = getBlockType initT \<and>
   dropUnitDims (getOuterDimensions varT) = dropUnitDims (getOuterDimensions initT) \<longrightarrow>
     checkInitializer True varT (Some [Some initT]) = Inr [] \<and>
     typeCheckVarOrConstDecl decl (Some e) True tc =
       Inr (report (d1 @ d2)
              (setCtx ((tc_ctx tc)\<lparr>symtable :=
                 ((n, \<lparr>getExpr = (n, Some varT), access = Read\<rparr>) # s) # ss\<rparr>) tc))"
proof
  assume a: "getVar (tc_ctx tc) decl = Inr (d1, (n, Some varT)) \<and>
   inferType e (tc_ctx tc) False False = Inr (d2, Some [Some initT]) \<and>
   \<not> alreadyDeclared (tc_ctx tc) n \<and> symtable (tc_ctx tc) = s # ss \<and>
   isTensor (Some varT) \<and> isTensor (Some initT) \<and>
   getBlockType varT = getBlockType initT \<and>
   dropUnitDims (getOuterDimensions varT) = dropUnitDims (getOuterDimensions initT)"
  then have c: "checkInitializer True varT (Some [Some initT]) = Inr []"
    using checkInitializer_slack by blast
  from a have "typeCheckVarOrConstDecl decl (Some e) True tc =
           bindF (checkInitializer True varT (Some [Some initT])) (\<lambda>d3.
             Inr (report (d1 @ d2 @ d3)
                    (setCtx ((tc_ctx tc)\<lparr>symtable :=
                       ((n, \<lparr>getExpr = (n, Some varT),
                             access = (if True then Read else ReadWrite)\<rparr>) # s) # ss\<rparr>) tc)))"
    using typeCheckVarOrConstDecl_fresh [of tc decl d1 n varT e d2 "Some [Some initT]" s ss True]
    by blast
  with c show "checkInitializer True varT (Some [Some initT]) = Inr [] \<and>
     typeCheckVarOrConstDecl decl (Some e) True tc =
       Inr (report (d1 @ d2)
              (setCtx ((tc_ctx tc)\<lparr>symtable :=
                 ((n, \<lparr>getExpr = (n, Some varT), access = Read\<rparr>) # s) # ss\<rparr>) tc))"
    by (simp add: bindF_def)
qed

lemmas checker_simps = newTypeChecker_def typeCheckVarOrConstDecl_def getVar_def
  buildNDTensorType_def blockedTensorType_def toTensor_def order_def bindF_def
  hasSymbolLocal_def hasSymbol_def getSymbol_def addSymbolAccess_def addSymbol_def
  checkInitializer_def compareTypes_def getBlockType_def getOuterDimensions_def
  report_def setCtx_def ir_Float_def ir_Int_def ir_Boolean_def visit_VarExpr_def
  reportUndeclared_def quoted_def

lemma rowLiteral_type:
  "inferType rowLiteral ctx False False
     = Inr ([], Some [Some (ir_TensorType ScalarFloat
                              [[IndexSet_Range 1], [IndexSet_Range 3]] False)])"
  by (simp add: rowLiteral_def dense_simps)

theorem const_unit_slack_witness:
  "getVar (tc_ctx (newTypeChecker []))
       \<lparr>ident = ''v'',
        declType = TensorTypeNode (NDTensorType (ScalarType ScalarType_FLOAT)
                     [RangeIndexSet 3] False)\<rparr>
     = Inr ([], (''v'', Some (ir_TensorType ScalarFloat [[IndexSet_Range 3]] False))) \<and>
   inferType rowLiteral (tc_ctx (newTypeChecker [])) False False
     = Inr ([], Some [Some (ir_TensorType ScalarFloat
                              [[IndexSet_Range 1], [IndexSet_Range 3]] False)]) \<and>
   dropUnitDims (getOuterDimensions (ir_TensorType ScalarFloat [[IndexSet_Range 3]] False))
     = dropUnitDims (getOuterDimensions
         (ir_TensorType ScalarFloat [[IndexSet_Range 1], [IndexSet_Range 3]] False)) \<and>
   checkStmt constVector (newTypeChecker [])
     = Inr \<lparr>tc_ctx = \<lparr>symtable =
                [[(''v'', \<lparr>getExpr = (''v'', Some (ir_TensorType ScalarFloat
                                                    [[IndexSet_Range 3]] False)),
                           access = Read\<rparr>)]],
              elementTypes = [], funcs = []\<rparr>,
            tc_errors = []\<rparr>"
proof -
  have g: "getVar (tc_ctx (newTypeChecker []))
       \<lparr>ident = ''v'',
        declType = TensorTypeNode (NDTensorType (ScalarType ScalarType_FLOAT)
                     [RangeIndexSet 3] False)\<rparr>
     = Inr ([], (''v'', Some (ir_TensorType ScalarFloat [[IndexSet_Range 3]] False)))"
    by (simp add: checker_simps)
  have d: "dropUnitDims (getOuterDimensions (ir_TensorType ScalarFloat [[IndexSet_Range 3]] False))
     = dropUnitDims (getOuterDimensions
         (ir_TensorType ScalarFloat [[IndexSet_Range 1], [IndexSet_Range 3]] False))"
    by (simp add: dropUnitDims_def getOuterDimensions_def)
  have h: "\<not> alreadyDeclared (tc_ctx (newTypeChecker [])) ''v''"
    "symtable (tc_ctx (newTypeChecker [])) = [] # []"
    "getBlockType (ir_TensorType ScalarFloat [[IndexSet_Range 3]] False)
       = getBlockType (ir_TensorType ScalarFloat [[IndexSet_Range 1], [IndexSet_Range 3]] False)"
    by (simp_all add: alreadyDeclared_def newTypeChecker_def hasSymbolLocal_def getBlockType_def)
  show ?thesis
    using g d h rowLiteral_type [of "tc_ctx (newTypeChecker [])"]
      const_unit_slack [where tc = "newTypeChecker []"
        and decl = "\<lparr>ident = ''v'',
              declType = TensorTypeNode (NDTensorType (ScalarType ScalarType_FLOAT)
                     [RangeIndexSet 3] False)\<rparr>"
        and ?d1.0 = "[]" and n = "''v''"
        and varT = "ir_TensorType ScalarFloat [[IndexSet_Range 3]] False"
        and e = rowLiteral and ?d2.0 = "[]"
        and initT = "ir_TensorType ScalarFloat [[IndexSet_Range 1], [IndexSet_Range 3]] False"
        and s = "[]" and ss = "[]"]
    by (simp add: constVector_def report_def setCtx_def newTypeChecker_def)
qed

text \<open>
  Claim C7 as stated fails on its own example: for
  \<open>const v : tensor[3,1](float) = [[1.0,2.0,3.0]]\<close> the declared dimensions are
  \<open>[3, 1]\<close> and the literal's \<open>[1, 3]\<close>; only the leading 1 of the literal is
  skipped, and \<^verbatim>\<open>std::equal\<close> walks the two declared dimensions against the one
  dimension left of the literal, past its end. The declaration is not accepted: the
  behaviour is undefined.
\<close>

theorem const_unit_slack_counterexample:
  "checkStmt constColumn (newTypeChecker [])
     = Inl (Aborted (UndefinedBehaviour ''std::equal reads past the end''))"
  by (simp add: constColumn_def rowLiteral_type checker_simps)

lemma lookupSymbol_added:
  "addSymbolAccess ctx n v a = Inr ctx' \<Longrightarrow>
   lookupSymbol (symtable ctx') n = Some \<lparr>getExpr = v, access = a\<rparr>"
  by (auto simp: addSymbolAccess_def split: list.splits)

lemma bindF_simps:
  "bindF (Inr x) f = f x"
  "bindF (Inl e) f = Inl e"
  by (simp_all add: bindF_def)

lemma declared_eq:
  "(if hasSymbolLocal ctx n then
      bindF (getSymbol ctx n) (\<lambda>sy. Inr (defined (snd (getExpr sy))))
    else Inr False) = Inr (alreadyDeclared ctx n)"
  by (auto simp: hasSymbolLocal_def getSymbol_def alreadyDeclared_def bindF_def
      split: list.splits option.splits)

lemma typeCheckVarOrConstDecl_eq:
  assumes "getVar (tc_ctx tc) decl = Inr (d1, var)"
    and "inferType e (tc_ctx tc) False False = Inr (d2, initType)"
  shows "typeCheckVarOrConstDecl decl (Some e) isConst tc =
     (if alreadyDeclared (tc_ctx tc) (fst var) then
         Inr (report (d1 @ d2 @ [reportMultipleDefs ''variable or constant'' (fst var)]) tc)
       else
         bindF (addSymbolAccess (tc_ctx tc) (fst var) var
                  (if isConst then Read else ReadWrite)) (\<lambda>ctx'.
           case snd var of
             None \<Rightarrow> Inr (report (d1 @ d2) (setCtx ctx' tc))
           | Some varType \<Rightarrow>
               bindF (checkInitializer isConst varType initType) (\<lambda>d3.
                 Inr (report (d1 @ d2 @ d3) (setCtx ctx' tc)))))"
  by (simp add: typeCheckVarOrConstDecl_def assms bindF_simps declared_eq)

lemma typeCheckVarOrConstDecl_cases:
  assumes "typeCheckVarOrConstDecl decl (Some e) isConst tc = Inr tc'"
  obtains d1 var d2 initType where
    "getVar (tc_ctx tc) decl = Inr (d1, var)"
    "inferType e (tc_ctx tc) False False = Inr (d2, initType)"
    "alreadyDeclared (tc_ctx tc) (fst var) \<Longrightarrow>
       tc' = report (d1 @ d2 @ [reportMultipleDefs ''variable or constant'' (fst var)]) tc"
    "\<not> alreadyDeclared (tc_ctx tc) (fst var) \<Longrightarrow>
       \<exists>ctx' d3. addSymbolAccess (tc_ctx tc) (fst var) var (if isConst then Read else ReadWrite)
                    = Inr ctx' \<and>
                 tc' = report (d1 @ d2 @ d3) (setCtx ctx' tc)"
proof -
  from assms obtain d1 var where g: "getVar (tc_ctx tc) decl = Inr (d1, var)"
    by (cases "getVar (tc_ctx tc) decl") (auto simp: typeCheckVarOrConstDecl_def bindF_def)
  from assms g obtain d2 initType where
    i: "inferType e (tc_ctx tc) False False = Inr (d2, initType)"
    by (cases "inferType e (tc_ctx tc) False False")
       (auto simp: typeCheckVarOrConstDecl_def bindF_def)
  note r = assms [unfolded typeCheckVarOrConstDecl_eq [OF g i]]
  show thesis
  proof (rule that [OF g i])
    assume "alreadyDeclared (tc_ctx tc) (fst var)"
    with r show "tc' = report (d1 @ d2 @ [reportMultipleDefs ''variable or constant'' (fst var)]) tc"
      by simp
  next
    assume "\<not> alreadyDeclared (tc_ctx tc) (fst var)"
    with r obtain ctx' where
      ad: "addSymbolAccess (tc_ctx tc) (fst var) var (if isConst then Read else ReadWrite)
             = Inr ctx'"
      and rest: "(case snd var of
             None \<Rightarrow> Inr (report (d1 @ d2) (setCtx ctx' tc))
           | Some varType \<Rightarrow>
               bindF (checkInitializer isConst varType initType) (\<lambda>d3.
                 Inr (report (d1 @ d2 @ d3) (setCtx ctx' tc)))) = Inr tc'"
      by (auto simp: bindF_def split: sum.splits)
    have "\<exists>d3. tc' = report (d1 @ d2 @ d3) (setCtx ctx' tc)"
    proof (cases "snd var")
      case None
      with rest have "tc' = report (d1 @ d2 @ []) (setCtx ctx' tc)" by simp
      then show ?thesis by blast
    next
      case (Some varType)
      with rest obtain d3 where "tc' = report (d1 @ d2 @ d3) (setCtx ctx' tc)"
        by (auto simp: bindF_def split: sum.splits)
      then show ?thesis by blast
    qed
    with ad show "\<exists>ctx' d3. addSymbolAccess (tc_ctx tc) (fst var) var
                    (if isConst then Read else ReadWrite) = Inr ctx' \<and>
                 tc' = report (d1 @ d2 @ d3) (setCtx ctx' tc)"
      by blast
  qed
qed

text \<open>
  Claim C6, as the code has it. The type of the declaration and then the initializer are
  checked in the context as it stands before the declaration, and their diagnostics are
  reported first; only then is the symbol registered (read-write for \<open>var\<close>,
  read-only for \<open>const\<close>), unless the name is already declared in the scope. So a
  self-reference in the initializer resolves to an outer binding, and is reported as
  undeclared when there is none.
\<close>

theorem initializer_before_registration:
  "(typeCheckVarOrConstDecl decl (Some e) isConst tc = Inr tc' \<longrightarrow>
      (\<exists>d1 var d2 initType.
         getVar (tc_ctx tc) decl = Inr (d1, var) \<and>
         inferType e (tc_ctx tc) False False = Inr (d2, initType) \<and>
         take (length (tc_errors tc @ d1 @ d2)) (tc_errors tc') = tc_errors tc @ d1 @ d2 \<and>
         (\<not> alreadyDeclared (tc_ctx tc) (fst var) \<longrightarrow>
            lookupSymbol (symtable (tc_ctx tc')) (fst var)
              = Some \<lparr>getExpr = var, access = (if isConst then Read else ReadWrite)\<rparr>))) \<and>
   (\<not> hasSymbol (tc_ctx tc) (ident decl) \<and>
    typeCheckVarOrConstDecl decl (Some (VarExpr (ident decl))) isConst tc = Inr tc' \<longrightarrow>
      reportUndeclared ''variable or constant'' (ident decl) \<in> set (tc_errors tc'))"
proof (intro conjI impI)
  assume a: "typeCheckVarOrConstDecl decl (Some e) isConst tc = Inr tc'"
  from a obtain d1 var d2 initType where
    g: "getVar (tc_ctx tc) decl = Inr (d1, var)"
    and i: "inferType e (tc_ctx tc) False False = Inr (d2, initType)"
    and y: "alreadyDeclared (tc_ctx tc) (fst var) \<Longrightarrow>
       tc' = report (d1 @ d2 @ [reportMultipleDefs ''variable or constant'' (fst var)]) tc"
    and n: "\<not> alreadyDeclared (tc_ctx tc) (fst var) \<Longrightarrow>
       \<exists>ctx' d3. addSymbolAccess (tc_ctx tc) (fst var) var (if isConst then Read else ReadWrite)
                    = Inr ctx' \<and>
                 tc' = report (d1 @ d2 @ d3) (setCtx ctx' tc)"
    by (rule typeCheckVarOrConstDecl_cases) blast
  have p: "take (length (tc_errors tc @ d1 @ d2)) (tc_errors tc') = tc_errors tc @ d1 @ d2"
    using y n by (cases "alreadyDeclared (tc_ctx tc) (fst var)") (auto simp: report_def setCtx_def)
  have s: "lookupSymbol (symtable (tc_ctx tc')) (fst var)
              = Some \<lparr>getExpr = var, access = (if isConst then Read else ReadWrite)\<rparr>"
    if "\<not> alreadyDeclared (tc_ctx tc) (fst var)"
  proof -
    from n [OF that] obtain ctx' d3 where
      "addSymbolAccess (tc_ctx tc) (fst var) var (if isConst then Read else ReadWrite) = Inr ctx'"
      "tc' = report (d1 @ d2 @ d3) (setCtx ctx' tc)"
      by blast
    then show ?thesis using lookupSymbol_added by (simp add: report_def setCtx_def)
  qed
  from g i p s
  show "\<exists>d1 var d2 initType.
         getVar (tc_ctx tc) decl = Inr (d1, var) \<and>
         inferType e (tc_ctx tc) False False = Inr (d2, initType) \<and>
         take (length (tc_errors tc @ d1 @ d2)) (tc_errors tc') = tc_errors tc @ d1 @ d2 \<and>
         (\<not> alreadyDeclared (tc_ctx tc) (fst var) \<longrightarrow>
            lookupSymbol (symtable (tc_ctx tc')) (fst var)
              = Some \<lparr>getExpr = var, access = (if isConst then Read else ReadWrite)\<rparr>)"
    by blast
next
  assume a: "\<not> hasSymbol (tc_ctx tc) (ident decl) \<and>
    typeCheckVarOrConstDecl decl (Some (VarExpr (ident decl))) isConst tc = Inr tc'"
  then have t: "typeCheckVarOrConstDecl decl (Some (VarExpr (ident decl))) isConst tc = Inr tc'"
    by simp
  from t obtain d1 var d2 initType where
    g: "getVar (tc_ctx tc) decl = Inr (d1, var)"
    and i: "inferType (VarExpr (ident decl)) (tc_ctx tc) False False = Inr (d2, initType)"
    and y: "alreadyDeclared (tc_ctx tc) (fst var) \<Longrightarrow>
       tc' = report (d1 @ d2 @ [reportMultipleDefs ''variable or constant'' (fst var)]) tc"
    and n: "\<not> alreadyDeclared (tc_ctx tc) (fst var) \<Longrightarrow>
       \<exists>ctx' d3. addSymbolAccess (tc_ctx tc) (fst var) var (if isConst then Read else ReadWrite)
                    = Inr ctx' \<and>
                 tc' = report (d1 @ d2 @ d3) (setCtx ctx' tc)"
    by (rule typeCheckVarOrConstDecl_cases) blast
  from a i have "d2 = [reportUndeclared ''variable or constant'' (ident decl)]"
    by (simp add: visit_VarExpr_def)
  then show "reportUndeclared ''variable or constant'' (ident decl) \<in> set (tc_errors tc')"
    using y n by (cases "alreadyDeclared (tc_ctx tc) (fst var)") (auto simp: report_def setCtx_def)
qed

theorem initializer_before_registration_witness:
  "\<not> hasSymbol (tc_ctx (newTypeChecker [])) ''x'' \<and>
   checkStmt selfReference (newTypeChecker [])
     = Inr \<lparr>tc_ctx = \<lparr>symtable = [[(''x'', \<lparr>getExpr = (''x'', Some ir_Int),
                                              access = ReadWrite\<rparr>)]],
                        elementTypes = [], funcs = []\<rparr>,
            tc_errors = [reportUndeclared ''variable or constant'' ''x'']\<rparr> \<and>
   reportUndeclared ''variable or constant'' ''x''
     \<in> set (tc_errors \<lparr>tc_ctx = \<lparr>symtable = [[(''x'', \<lparr>getExpr = (''x'', Some ir_Int),
                                              access = ReadWrite\<rparr>)]],
                        elementTypes = [], funcs = []\<rparr>,
            tc_errors = [reportUndeclared ''variable or constant'' ''x'']\<rparr>)"
proof -
  have h: "\<not> hasSymbol (tc_ctx (newTypeChecker [])) ''x''"
    by (simp add: hasSymbol_def newTypeChecker_def)
  have c: "checkStmt selfReference (newTypeChecker [])
     = Inr \<lparr>tc_ctx = \<lparr>symtable = [[(''x'', \<lparr>getExpr = (''x'', Some ir_Int),
                                              access = ReadWrite\<rparr>)]],
                        elementTypes = [], funcs = []\<rparr>,
            tc_errors = [reportUndeclared ''variable or constant'' ''x'']\<rparr>"
    by (simp add: selfReference_def checker_simps)
  show ?thesis
    using h c
      initializer_before_registration [where tc = "newTypeChecker []" and isConst = False
        and decl = "\<lparr>ident = ''x'', declType = TensorTypeNode (ScalarType ScalarType_INT)\<rparr>"
        and tc' = "\<lparr>tc_ctx = \<lparr>symtable = [[(''x'', \<lparr>getExpr = (''x'', Some ir_Int),
                                              access = ReadWrite\<rparr>)]],
                        elementTypes = [], funcs = []\<rparr>,
            tc_errors = [reportUndeclared ''variable or constant'' ''x'']\<rparr>"]
    by (simp add: selfReference_def)
qed

text \<open>
  Claim C6 as stated fails on \<open>var x : int = x\<close> in a fresh checker: the initializer
  is checked while \<open>x\<close> is not yet registered, so the self-reference is reported as an
  undeclared name instead of resolving to the new symbol.
\<close>

theorem initializer_before_registration_counterexample:
  "checkStmt selfReference (newTypeChecker [])
     = Inr \<lparr>tc_ctx = \<lparr>symtable = [[(''x'', \<lparr>getExpr = (''x'', Some ir_Int),
                                              access = ReadWrite\<rparr>)]],
                        elementTypes = [], funcs = []\<rparr>,
            tc_errors = [reportUndeclared ''variable or constant'' ''x'']\<rparr>"
  by (simp add: selfReference_def checker_simps)

section \<open>Error recovery at expression nodes\<close>

lemma mulTensors_failed:
  "fst (mulTensors l r) \<noteq> [] \<Longrightarrow>
   fst (mulTensors l r) \<noteq> [''Cannot multiply a matrix by a row vector''] \<Longrightarrow>
   fst (mulTensors l r) \<noteq> [''Cannot multiply a column vector by a matrix''] \<Longrightarrow>
   snd (mulTensors l r) = None"
  unfolding mulTensors_def Let_def by (auto split: if_splits)

lemma visit_MulExpr_failed:
  "fst (visit_MulExpr l r) \<noteq> [] \<Longrightarrow>
   fst (visit_MulExpr l r) \<noteq> [''Cannot multiply a matrix by a row vector''] \<Longrightarrow>
   fst (visit_MulExpr l r) \<noteq> [''Cannot multiply a column vector by a matrix''] \<Longrightarrow>
   snd (visit_MulExpr l r) = None"
  using mulTensors_failed
  by (auto simp: visit_MulExpr_def Let_def split: option.splits list.splits if_splits)

lemma visit_DivExpr_failed:
  "fst (visit_DivExpr l r) \<noteq> [] \<Longrightarrow> snd (visit_DivExpr l r) = None"
  by (auto simp: visit_DivExpr_def Let_def split: option.splits list.splits if_splits)

lemma typeCheckBinaryElwise_failed:
  "typeCheckBinaryElwise l r = Inr (d, ty) \<Longrightarrow> d \<noteq> [] \<Longrightarrow> ty = None"
  by (auto simp: typeCheckBinaryElwise_def Let_def bindF_def compareTypes_def
      split: option.splits list.splits if_splits)

lemma visit_NegExpr_failed:
  "fst (visit_NegExpr t) \<noteq> [] \<Longrightarrow> snd (visit_NegExpr t) = None"
  by (auto simp: visit_NegExpr_def split: option.splits if_splits)

lemma visit_TransposeExpr_failed:
  "fst (visit_TransposeExpr t) \<noteq> [] \<Longrightarrow> snd (visit_TransposeExpr t) = None"
  by (auto simp: visit_TransposeExpr_def split: option.splits list.splits irType.splits if_splits)

lemma typeCheckDenseTensorLiteral_failed:
  "typeCheckDenseTensorLiteral lit = Inr (d, ty) \<Longrightarrow> d \<noteq> [] \<Longrightarrow> ty = None"
  by (auto simp: typeCheckDenseTensorLiteral_def Let_def
      split: sum.splits failure.splits if_splits)

lemma visit_FieldReadExpr_failed:
  "visit_FieldReadExpr ctx lt v f = Inr (d, ty) \<Longrightarrow> d \<noteq> [] \<Longrightarrow> ty = None"
  by (auto simp: visit_FieldReadExpr_def bindF_def
      split: option.splits sum.splits if_splits irType.splits)

lemma visit_EqExpr_type:
  "visit_EqExpr operands = Inr (d, ty) \<Longrightarrow> ty = Some [Some ir_Boolean]"
  by (auto simp: visit_EqExpr_def bindF_def split: sum.splits)

text \<open>
  Claim C4, as the code has it. At the arithmetic nodes (the element-wise operators,
  division, negation, transpose), at a dense literal and at a field read, a diagnostic
  of the node leaves the type unpublished; so it does at a multiplication, apart from
  the two checks of a vector's orientation against a matrix. The comparison node and the
  boolean nodes (and, or, xor, not) always publish \<open>bool\<close>, whatever their operands
  and whether or not they report a diagnostic.
\<close>

theorem failed_check_publishes_no_type:
  "(typeCheckBinaryElwise l r = Inr (d, ty) \<and> d \<noteq> [] \<longrightarrow> ty = None) \<and>
   (fst (visit_DivExpr l r) \<noteq> [] \<longrightarrow> snd (visit_DivExpr l r) = None) \<and>
   (fst (visit_NegExpr t) \<noteq> [] \<longrightarrow> snd (visit_NegExpr t) = None) \<and>
   (fst (visit_TransposeExpr t) \<noteq> [] \<longrightarrow> snd (visit_TransposeExpr t) = None) \<and>
   (typeCheckDenseTensorLiteral lit = Inr (d, ty) \<and> d \<noteq> [] \<longrightarrow> ty = None) \<and>
   (visit_FieldReadExpr ctx t v f = Inr (d, ty) \<and> d \<noteq> [] \<longrightarrow> ty = None) \<and>
   (fst (visit_MulExpr l r) \<noteq> [] \<and>
    fst (visit_MulExpr l r) \<noteq> [''Cannot multiply a matrix by a row vector''] \<and>
    fst (visit_MulExpr l r) \<noteq> [''Cannot multiply a column vector by a matrix''] \<longrightarrow>
      snd (visit_MulExpr l r) = None) \<and>
   snd (typeCheckBinaryBoolean l r) = Some [Some ir_Boolean] \<and>
   snd (visit_NotExpr t) = Some [Some ir_Boolean] \<and>
   (visit_EqExpr operands = Inr (d, ty) \<longrightarrow> ty = Some [Some ir_Boolean])"
proof (intro conjI impI)
  show "ty = None" if "typeCheckBinaryElwise l r = Inr (d, ty) \<and> d \<noteq> []"
    using that typeCheckBinaryElwise_failed by blast
  show "snd (visit_DivExpr l r) = None" if "fst (visit_DivExpr l r) \<noteq> []"
    using that by (rule visit_DivExpr_failed)
  show "snd (visit_NegExpr t) = None" if "fst (visit_NegExpr t) \<noteq> []"
    using that by (rule visit_NegExpr_failed)
  show "snd (visit_TransposeExpr t) = None" if "fst (visit_TransposeExpr t) \<noteq> []"
    using that by (rule visit_TransposeExpr_failed)
  show "ty = None" if "typeCheckDenseTensorLiteral lit = Inr (d, ty) \<and> d \<noteq> []"
    using that typeCheckDenseTensorLiteral_failed by blast
  show "ty = None" if "visit_FieldReadExpr ctx t v f = Inr (d, ty) \<and> d \<noteq> []"
    using that visit_FieldReadExpr_failed by blast
  show "snd (visit_MulExpr l r) = None"
    if "fst (visit_MulExpr l r) \<noteq> [] \<and>
        fst (visit_MulExpr l r) \<noteq> [''Cannot multiply a matrix by a row vector''] \<and>
        fst (visit_MulExpr l r) \<noteq> [''Cannot multiply a column vector by a matrix'']"
    using that visit_MulExpr_failed by blast
  show "snd (typeCheckBinaryBoolean l r) = Some [Some ir_Boolean]"
    by (simp add: typeCheckBinaryBoolean_def)
  show "snd (visit_NotExpr t) = Some [Some ir_Boolean]"
    by (simp add: visit_NotExpr_def)
  show "ty = Some [Some ir_Boolean]" if "visit_EqExpr operands = Inr (d, ty)"
    using that by (rule visit_EqExpr_type)
qed

theorem failed_check_publishes_no_type_witness:
  "typeCheckBinaryElwise (Some [Some ir_Int]) (Some [Some ir_Float])
     = Inr ([''cannot perform element-wise operation on tensors of type <T> and type <T>''], None) \<and>
   visit_NegExpr (Some [Some ir_Boolean])
     = ([''expected operand of tensor negation to be a numeric tensor but got an operand of type <T>''],
        None) \<and>
   visit_MulExpr (Some [Some (ir_TensorType ScalarFloat [[IndexSet_Range 3]] False)])
                 (Some [Some (ir_TensorType ScalarFloat [[IndexSet_Range 3]] False)])
     = ([''cannot multiply two row vectors''], None) \<and>
   typeCheckDenseTensorLiteral (NDTensorLiteral [IntVectorLiteral [1, 2] False,
       IntVectorLiteral [1, 2, 3] False] False) = Inr ([''DimError''], None) \<and>
   visit_EqExpr [([], Some [Some ir_Int]), ([], Some [Some ir_Float])]
     = Inr ([''value of type <T> cannot be compared to value of type <T>''],
            Some [Some ir_Boolean])"
proof -
  have a: "typeCheckBinaryElwise (Some [Some ir_Int]) (Some [Some ir_Float])
     = Inr ([''cannot perform element-wise operation on tensors of type <T> and type <T>''], None)"
    by (simp add: typeCheckBinaryElwise_def operandError_def notNumericTensor_def ir_Int_def
        ir_Float_def order_def bindF_def)
  have b: "fst (visit_NegExpr (Some [Some ir_Boolean]))
     = [''expected operand of tensor negation to be a numeric tensor but got an operand of type <T>'']"
    by (simp add: visit_NegExpr_def notNumericTensor_def ir_Boolean_def)
  have c: "fst (visit_MulExpr (Some [Some (ir_TensorType ScalarFloat [[IndexSet_Range 3]] False)])
                 (Some [Some (ir_TensorType ScalarFloat [[IndexSet_Range 3]] False)]))
     = [''cannot multiply two row vectors'']"
    by (simp add: visit_MulExpr_numeric mul_vector_vector)
  have e: "typeCheckDenseTensorLiteral (NDTensorLiteral [IntVectorLiteral [1, 2] False,
       IntVectorLiteral [1, 2, 3] False] False) = Inr ([''DimError''], None)"
    by (simp add: dense_simps)
  have g: "visit_EqExpr [([], Some [Some ir_Int]), ([], Some [Some ir_Float])]
     = Inr ([''value of type <T> cannot be compared to value of type <T>''],
            Some [Some ir_Boolean])"
    by (simp add: visit_EqExpr_def bindF_def compareTypes_def ir_Int_def ir_Float_def
        ir_Boolean_def)
  note t = failed_check_publishes_no_type
  have b': "snd (visit_NegExpr (Some [Some ir_Boolean])) = None"
    using b t [where t = "Some [Some ir_Boolean]"] by simp
  have c': "snd (visit_MulExpr (Some [Some (ir_TensorType ScalarFloat [[IndexSet_Range 3]] False)])
                 (Some [Some (ir_TensorType ScalarFloat [[IndexSet_Range 3]] False)])) = None"
    using c t [where l = "Some [Some (ir_TensorType ScalarFloat [[IndexSet_Range 3]] False)]"
        and r = "Some [Some (ir_TensorType ScalarFloat [[IndexSet_Range 3]] False)]"]
    by simp
  show ?thesis
    using a e b b' c c' g
    by (simp add: prod_eq_iff)
qed

text \<open>
  Claim C4 as stated fails in each of the three cases it names: a matrix times a row
  vector, a comparison of an integer with a float and a conjunction with an integer
  operand each report a diagnostic and still publish a type.
\<close>

theorem failed_check_counterexample:
  "visit_MulExpr
     (Some [Some (ir_TensorType ScalarFloat [[IndexSet_Range 3], [IndexSet_Range 4]] False)])
     (Some [Some (ir_TensorType ScalarFloat [[IndexSet_Range 4]] False)])
     = ([''Cannot multiply a matrix by a row vector''],
        Some [Some (ir_TensorType ScalarFloat [[IndexSet_Range 3]] True)]) \<and>
   inferType (EqExpr [IntLiteral 1, FloatLiteral 2]) (tc_ctx (newTypeChecker [])) False False
     = Inr ([''value of type <T> cannot be compared to value of type <T>''],
            Some [Some ir_Boolean]) \<and>
   inferType (AndExpr (IntLiteral 1) (BoolLiteral True)) (tc_ctx (newTypeChecker [])) False False
     = Inr ([''expected left operand of boolean operation to be a boolean but got an operand of type <T>''],
            Some [Some ir_Boolean])"
  by (simp add: visit_MulExpr_numeric mul_matrix_vector visit_EqExpr_def bindF_def
      compareTypes_def ir_Int_def ir_Float_def ir_Boolean_def binaryNode_def
      typeCheckBinaryBoolean_def)

section \<open>Scope discipline\<close>

lemma addSymbolAccess_length:
  "addSymbolAccess ctx n v a = Inr ctx' \<Longrightarrow> length (symtable ctx') = length (symtable ctx)"
  by (auto simp: addSymbolAccess_def split: list.splits)

lemma addSymbol_length:
  "addSymbol ctx v = Inr ctx' \<Longrightarrow> length (symtable ctx') = length (symtable ctx)"
  using addSymbolAccess_length by (simp add: addSymbol_def)

lemma depth_report [simp]: "depth (report ds tc) = depth tc"
  by (simp add: depth_def report_def)

lemma depth_setCtx [simp]: "depth (setCtx c tc) = length (symtable c)"
  by (simp add: depth_def setCtx_def)

lemma depth_enterScope [simp]: "depth (enterScope tc) = Suc (depth tc)"
  by (simp add: enterScope_def scope_def depth_def setCtx_def)

lemma depth_leaveScope:
  "leaveScope tc = Inr tc' \<Longrightarrow> Suc (depth tc') = depth tc"
  by (auto simp: leaveScope_def unscope_def bindF_def depth_def setCtx_def
      split: list.splits sum.splits)

lemma typeCheckVarOrConstDecl_depth:
  assumes "typeCheckVarOrConstDecl decl initVal isConst tc = Inr tc'"
  shows "depth tc' = depth tc"
proof -
  from assms obtain d1 var where g: "getVar (tc_ctx tc) decl = Inr (d1, var)"
    by (cases "getVar (tc_ctx tc) decl") (auto simp: typeCheckVarOrConstDecl_def bindF_def)
  from assms g obtain d2 initType where
    i: "(case initVal of None \<Rightarrow> Inr ([], None)
         | Some e \<Rightarrow> inferType e (tc_ctx tc) False False) = Inr (d2, initType)"
    by (cases "case initVal of None \<Rightarrow> Inr ([], None)
               | Some e \<Rightarrow> inferType e (tc_ctx tc) False False")
       (auto simp: typeCheckVarOrConstDecl_def bindF_def)
  from assms have r: "(if alreadyDeclared (tc_ctx tc) (fst var) then
         Inr (report (d1 @ d2 @ [reportMultipleDefs ''variable or constant'' (fst var)]) tc)
       else
         bindF (addSymbolAccess (tc_ctx tc) (fst var) var
                  (if isConst then Read else ReadWrite)) (\<lambda>ctx'.
           case snd var of
             None \<Rightarrow> Inr (report (d1 @ d2) (setCtx ctx' tc))
           | Some varType \<Rightarrow>
               bindF (checkInitializer isConst varType initType) (\<lambda>d3.
                 Inr (report (d1 @ d2 @ d3) (setCtx ctx' tc))))) = Inr tc'"
    by (simp add: typeCheckVarOrConstDecl_def g i bindF_simps declared_eq)
  show ?thesis
  proof (cases "alreadyDeclared (tc_ctx tc) (fst var)")
    case True
    with r show ?thesis by auto
  next
    case False
    with r obtain ctx' where
      ad: "addSymbolAccess (tc_ctx tc) (fst var) var (if isConst then Read else ReadWrite)
             = Inr ctx'"
      and rest: "(case snd var of
             None \<Rightarrow> Inr (report (d1 @ d2) (setCtx ctx' tc))
           | Some varType \<Rightarrow>
               bindF (checkInitializer isConst varType initType) (\<lambda>d3.
                 Inr (report (d1 @ d2 @ d3) (setCtx ctx' tc)))) = Inr tc'"
      by (auto simp: bindF_def split: sum.splits)
    from rest have "depth tc' = length (symtable ctx')"
      by (auto simp: bindF_def split: option.splits sum.splits)
    with addSymbolAccess_length [OF ad] show ?thesis by (simp add: depth_def)
  qed
qed

lemma declareTargets_length:
  "declareTargets typeChecked lhs es ctx = Inr ctx' \<Longrightarrow>
   length (symtable ctx') = length (symtable ctx)"
proof (induction lhs arbitrary: es ctx)
  case Nil
  then show ?case by simp
next
  case (Cons l lhs)
  from Cons.prems obtain c where
    c: "(case varExprIdent l of
              None \<Rightarrow> Inr ctx
            | Some varName \<Rightarrow>
                if hasSymbol ctx varName then Inr ctx
                else if typeChecked then
                  (case es of
                     [] \<Rightarrow> Inl (Thrown OutOfRange)
                   | e # es' \<Rightarrow> addSymbol ctx (varName, e))
                else addSymbol ctx (varName, None)) = Inr c"
    and r: "declareTargets typeChecked lhs (tl es) c = Inr ctx'"
    by (auto simp: bindF_def split: sum.splits)
  from c have "length (symtable c) = length (symtable ctx)"
    by (auto split: option.splits if_splits list.splits dest: addSymbol_length)
  with Cons.IH [OF r] show ?case by simp
qed

lemma visit_AssignStmt_depth:
  "visit_AssignStmt lhs expr tc = Inr tc' \<Longrightarrow> depth tc' = depth tc"
  by (auto simp: visit_AssignStmt_def bindF_def Let_def depth_def report_def setCtx_def
      split: sum.splits prod.splits dest: declareTargets_length)

lemma visit_PrintStmt_depth:
  "visit_PrintStmt expr tc = Inr tc' \<Longrightarrow> depth tc' = depth tc"
  by (auto simp: visit_PrintStmt_def bindF_def split: sum.splits prod.splits)

lemma checkStmts_depth:
  assumes "\<And>s tc tc'. s \<in> set ss \<Longrightarrow> checkStmt s tc = Inr tc' \<Longrightarrow> depth tc' = depth tc"
    and "checkStmts ss tc = Inr tc'"
  shows "depth tc' = depth tc"
  using assms
proof (induction ss arbitrary: tc)
  case Nil
  then show ?case by simp
next
  case (Cons s ss)
  from Cons.prems(2) obtain tc1 where s: "checkStmt s tc = Inr tc1"
    and r: "checkStmts ss tc1 = Inr tc'"
    by (auto split: sum.splits)
  from Cons.prems(1) [OF _ s] have "depth tc1 = depth tc" by simp
  moreover have "depth tc' = depth tc1"
    by (rule Cons.IH [OF _ r]) (use Cons.prems(1) in auto)
  ultimately show ?case by simp
qed

lemma checkStmt_depth:
  "checkStmt s tc = Inr tc' \<Longrightarrow> depth tc' = depth tc"
proof (induction s arbitrary: tc tc')
  case (VarDecl decl initVal)
  then show ?case using typeCheckVarOrConstDecl_depth by simp
next
  case (ConstDecl decl initVal)
  then show ?case using typeCheckVarOrConstDecl_depth by simp
next
  case (AssignStmt lhs expr)
  then show ?case using visit_AssignStmt_depth by simp
next
  case (WhileStmt cond body)
  from WhileStmt.prems obtain d condType tc1 tc2 where
    b: "checkStmts body (enterScope (report d tc)) = Inr tc1"
    and l: "leaveScope tc1 = Inr tc2"
    and t: "tc' = report (conditionError condType) tc2"
    by (auto simp: bindF_def split: sum.splits prod.splits)
  from checkStmts_depth [OF _ b] WhileStmt.IH have "depth tc1 = Suc (depth tc)" by simp
  with depth_leaveScope [OF l] t show ?case by simp
next
  case (IfStmt cond ifBody elseBody)
  from IfStmt.prems obtain d condType tc1 tc2 where
    b: "checkStmts ifBody (enterScope (report d tc)) = Inr tc1"
    and l: "leaveScope tc1 = Inr tc2"
    and r: "(case elseBody of
               None \<Rightarrow> Inr (report (conditionError condType) tc2)
             | Some body \<Rightarrow>
                 (case checkStmts body (enterScope tc2) of
                    Inl f \<Rightarrow> Inl f
                  | Inr tc3 \<Rightarrow>
                      bindF (leaveScope tc3) (\<lambda>tc4.
                        Inr (report (conditionError condType) tc4)))) = Inr tc'"
    by (auto split: sum.splits prod.splits)
  from checkStmts_depth [OF _ b] IfStmt.IH(1) have "depth tc1 = Suc (depth tc)" by simp
  with depth_leaveScope [OF l] have d2: "depth tc2 = depth tc" by simp
  show ?case
  proof (cases elseBody)
    case None
    with r d2 show ?thesis by auto
  next
    case (Some body)
    with r obtain tc3 tc4 where
      b': "checkStmts body (enterScope tc2) = Inr tc3"
      and l': "leaveScope tc3 = Inr tc4"
      and t: "tc' = report (conditionError condType) tc4"
      by (auto simp: bindF_def split: sum.splits)
    have "depth tc3 = Suc (depth tc2)"
      using checkStmts_depth [OF _ b'] IfStmt.IH(2) Some by simp
    with depth_leaveScope [OF l'] t d2 show ?thesis by simp
  qed
next
  case (ForStmt loopVar lower upper body)
  from ForStmt.prems obtain d c tc1 where
    a: "addSymbolAccess (tc_ctx (enterScope tc)) loopVar (loopVar, Some ir_Int) Read = Inr c"
    and b: "checkStmts body (setCtx c (report d tc)) = Inr tc1"
    and l: "leaveScope tc1 = Inr tc'"
    by (auto split: sum.splits)
  from addSymbolAccess_length [OF a] have "length (symtable c) = Suc (depth tc)"
    by (simp add: enterScope_def scope_def setCtx_def depth_def)
  with checkStmts_depth [OF _ b] ForStmt.IH have "depth tc1 = Suc (depth tc)" by simp
  with depth_leaveScope [OF l] show ?case by simp
next
  case (PrintStmt expr)
  then show ?case using visit_PrintStmt_depth by simp
qed

lemma checkBlock_depth:
  "checkStmts ss tc = Inr tc' \<Longrightarrow> depth tc' = depth tc"
  using checkStmts_depth checkStmt_depth by blast

lemma declareArguments_depth:
  "declareArguments args tc = Inr (ok, vs, tc') \<Longrightarrow> depth tc' = depth tc"
proof (induction args arbitrary: tc ok vs)
  case Nil
  then show ?case by simp
next
  case (Cons a args)
  obtain arg inout where a: "a = (arg, inout)" by (cases a)
  from Cons.prems obtain d argVar where g: "getVar (tc_ctx tc) arg = Inr (d, argVar)"
    by (cases "getVar (tc_ctx tc) arg") (auto simp: a bindF_def)
  show ?case
  proof (cases "defined (snd argVar)")
    case False
    with Cons.prems g obtain ok' vs' where
      "declareArguments args (report d tc) = Inr (ok', vs', tc')"
      by (auto simp: a bindF_def split: sum.splits)
    from Cons.IH [OF this] show ?thesis by simp
  next
    case True
    with Cons.prems g obtain c ok' vs' where
      ad: "addSymbolAccess (tc_ctx tc) (fst argVar) argVar (if inout then ReadWrite else Read)
             = Inr c"
      and r: "declareArguments args (report d (setCtx c tc)) = Inr (ok', vs', tc')"
      by (auto simp: a bindF_def split: sum.splits)
    from Cons.IH [OF r] addSymbolAccess_length [OF ad] show ?thesis
      by (simp add: depth_def report_def setCtx_def)
  qed
qed

lemma declareResults_depth:
  "declareResults rs tc = Inr (ok, vs, tc') \<Longrightarrow> depth tc' = depth tc"
proof (induction rs arbitrary: tc ok vs)
  case Nil
  then show ?case by simp
next
  case (Cons res rs)
  from Cons.prems obtain d result where g: "getVar (tc_ctx tc) res = Inr (d, result)"
    by (cases "getVar (tc_ctx tc) res") (auto simp: bindF_def)
  show ?case
  proof (cases "defined (snd result)")
    case False
    with Cons.prems g obtain ok' vs' where
      "declareResults rs (report d tc) = Inr (ok', vs', tc')"
      by (auto simp: bindF_def split: sum.splits)
    from Cons.IH [OF this] show ?thesis by simp
  next
    case True
    with Cons.prems g obtain c ok' vs' where
      ad: "addSymbol (tc_ctx tc) result = Inr c"
      and r: "declareResults rs (report d (setCtx c tc)) = Inr (ok', vs', tc')"
      by (auto simp: bindF_def split: sum.splits)
    from Cons.IH [OF r] addSymbol_length [OF ad] show ?thesis
      by (simp add: depth_def report_def setCtx_def)
  qed
qed

lemma visit_FuncDecl_depth:
  assumes "visit_FuncDecl n args results body tc = Inr tc'"
  shows "depth tc' = depth tc"
proof -
  from assms obtain ok1 arguments tc1 ok2 res tc2 tc3 tc4 where
    a: "declareArguments args (enterScope tc) = Inr (ok1, arguments, tc1)"
    and r: "declareResults results tc1 = Inr (ok2, res, tc2)"
    and b: "checkStmts body tc2 = Inr tc3"
    and l: "leaveScope tc3 = Inr tc4"
    and t: "depth tc' = depth tc4"
    by (auto simp: visit_FuncDecl_def bindF_def depth_def setCtx_def report_def addFunction_def
        split: sum.splits prod.splits if_splits)
  from declareArguments_depth [OF a] declareResults_depth [OF r] checkBlock_depth [OF b]
  have "depth tc3 = Suc (depth tc)" by simp
  with depth_leaveScope [OF l] t show ?thesis by simp
qed

lemma visit_ProgramElement_depth:
  "visit_ProgramElement e tc = Inr tc' \<Longrightarrow> depth tc' = depth tc"
proof (cases e)
  case (ElementTypeDecl n fieldDecls)
  assume "visit_ProgramElement e tc = Inr tc'"
  with ElementTypeDecl show ?thesis
    by (auto simp: visit_ElementTypeDecl_def bindF_def depth_def report_def setCtx_def
        addElementType_def split: sum.splits prod.splits if_splits)
next
  case (ExternDecl decl)
  assume "visit_ProgramElement e tc = Inr tc'"
  with ExternDecl show ?thesis
    by (auto simp: visit_ExternDecl_def bindF_def depth_def report_def setCtx_def
        split: sum.splits prod.splits if_splits dest: addSymbol_length)
next
  case (FuncDecl n args results body)
  assume "visit_ProgramElement e tc = Inr tc'"
  with FuncDecl show ?thesis using visit_FuncDecl_depth by simp
qed

lemma typeCheck_depth:
  "typeCheck prog tc = Inr tc' \<Longrightarrow> depth tc' = depth tc"
proof (induction prog arbitrary: tc)
  case Nil
  then show ?case by simp
next
  case (Cons e es)
  from Cons.prems obtain tc1 where e: "visit_ProgramElement e tc = Inr tc1"
    and r: "typeCheck es tc1 = Inr tc'"
    by (auto simp: bindF_def split: sum.splits)
  from visit_ProgramElement_depth [OF e] Cons.IH [OF r] show ?case by simp
qed

text \<open>
  Claim C9. Whenever the checker completes (it returns, with whatever diagnostics), the
  symbol stack is as deep as it was before: every statement, every block, every
  declaration and the whole program leave the depth unchanged, each \<^verbatim>\<open>scope()\<close> of
  a function, loop or branch being left again by the \<^verbatim>\<open>unscope()\<close> that follows its
  body on the one path through the visit. After a program is checked from a fresh
  checker the stack has depth 1, the global scope.
\<close>

theorem scopes_balanced:
  "(checkStmt s tc = Inr tc' \<longrightarrow> depth tc' = depth tc) \<and>
   (checkStmts ss tc = Inr tc' \<longrightarrow> depth tc' = depth tc) \<and>
   (visit_ProgramElement e tc = Inr tc' \<longrightarrow> depth tc' = depth tc) \<and>
   (typeCheck prog tc = Inr tc' \<longrightarrow> depth tc' = depth tc) \<and>
   (typeCheck prog (newTypeChecker intrinsics) = Inr tc' \<longrightarrow> depth tc' = 1)"
proof (intro conjI impI)
  show "depth tc' = depth tc" if "checkStmt s tc = Inr tc'"
    using that by (rule checkStmt_depth)
  show "depth tc' = depth tc" if "checkStmts ss tc = Inr tc'"
    using that by (rule checkBlock_depth)
  show "depth tc' = depth tc" if "visit_ProgramElement e tc = Inr tc'"
    using that by (rule visit_ProgramElement_depth)
  show "depth tc' = depth tc" if "typeCheck prog tc = Inr tc'"
    using that by (rule typeCheck_depth)
  show "depth tc' = 1" if "typeCheck prog (newTypeChecker intrinsics) = Inr tc'"
    using typeCheck_depth [OF that] by (simp add: depth_def newTypeChecker_def)
qed
lemma scopedProgram_checked:
  "typeCheck scopedProgram (newTypeChecker [])
     = Inr \<lparr>tc_ctx = \<lparr>symtable = [[]], elementTypes = [],
                        funcs = [(''main'', \<lparr>getName = ''main'', getArguments = [],
                                              getResults = [], getKind = Internal\<rparr>)]\<rparr>,
            tc_errors =
              [reportUndeclared ''variable or constant'' ''z'',
               ''expected a boolean conditional expression but got an expression of type <T>'',
               ''expected upper bound of for-loop range to be integral but got an expression of type <T>'']\<rparr>"
  by (simp add: scopedProgram_def checker_simps visit_FuncDecl_def enterScope_def
      leaveScope_def scope_def unscope_def visit_AssignStmt_def conditionError_def
      visit_RangeDomain_def visit_PrintStmt_def containsFunction_def addFunction_def)

theorem scopes_balanced_witness:
  "typeCheck scopedProgram (newTypeChecker [])
     = Inr \<lparr>tc_ctx = \<lparr>symtable = [[]], elementTypes = [],
                        funcs = [(''main'', \<lparr>getName = ''main'', getArguments = [],
                                              getResults = [], getKind = Internal\<rparr>)]\<rparr>,
            tc_errors =
              [reportUndeclared ''variable or constant'' ''z'',
               ''expected a boolean conditional expression but got an expression of type <T>'',
               ''expected upper bound of for-loop range to be integral but got an expression of type <T>'']\<rparr> \<and>
   depth \<lparr>tc_ctx = \<lparr>symtable = [[]], elementTypes = [],
                      funcs = [(''main'', \<lparr>getName = ''main'', getArguments = [],
                                            getResults = [], getKind = Internal\<rparr>)]\<rparr>,
          tc_errors =
            [reportUndeclared ''variable or constant'' ''z'',
             ''expected a boolean conditional expression but got an expression of type <T>'',
             ''expected upper bound of for-loop range to be integral but got an expression of type <T>'']\<rparr>
     = 1"
  using scopedProgram_checked
    scopes_balanced [where prog = scopedProgram and intrinsics = "[]"
      and tc' = "\<lparr>tc_ctx = \<lparr>symtable = [[]], elementTypes = [],
                      funcs = [(''main'', \<lparr>getName = ''main'', getArguments = [],
                                            getResults = [], getKind = Internal\<rparr>)]\<rparr>,
          tc_errors =
            [reportUndeclared ''variable or constant'' ''z'',
             ''expected a boolean conditional expression but got an expression of type <T>'',
             ''expected upper bound of for-loop range to be integral but got an expression of type <T>'']\<rparr>"]
  by simp

section \<open>Exceptions and assertions\<close>

lemma noThrow_simps [simp]:
  "noThrow (Inr x)"
  "noThrow (Inl (Aborted a))"
  "\<not> noThrow (Inl (Thrown e))"
  by (simp_all add: noThrow_def)

lemma noThrow_bindF:
  "noThrow m \<Longrightarrow> (\<And>x. m = Inr x \<Longrightarrow> noThrow (f x)) \<Longrightarrow> noThrow (bindF m f)"
  by (cases m) (auto simp: bindF_def noThrow_def split: failure.splits)

lemma noThrow_case_sum:
  "noThrow m \<Longrightarrow> (\<And>x. m = Inr x \<Longrightarrow> noThrow (f x)) \<Longrightarrow>
   noThrow (case m of Inl e \<Rightarrow> Inl e | Inr x \<Rightarrow> f x)"
  by (cases m) (auto simp: noThrow_def split: failure.splits)

lemma noThrow_getSymbol [simp]: "noThrow (getSymbol ctx n)"
  by (simp add: getSymbol_def split: option.splits)

lemma noThrow_unscope [simp]: "noThrow (unscope ctx)"
  by (simp add: unscope_def split: list.splits)

lemma noThrow_addSymbolAccess [simp]: "noThrow (addSymbolAccess ctx n v a)"
  by (simp add: addSymbolAccess_def split: list.splits)

lemma noThrow_addSymbol [simp]: "noThrow (addSymbol ctx v)"
  by (simp add: addSymbol_def)

lemma noThrow_compareTypes [simp]: "noThrow (compareTypes l r)"
  by (simp add: compareTypes_def)

lemma noThrow_toTensor [simp]: "noThrow (toTensor t)"
  by (simp add: toTensor_def split: option.splits irType.splits)

lemma noThrow_getIndexSet [simp]: "noThrow (getIndexSet ctx i)"
  by (cases i) (auto intro!: noThrow_bindF split: prod.splits option.splits irType.splits)

lemma noThrow_visit_ElementType [simp]: "noThrow (visit_ElementType ctx n)"
  by (simp add: visit_ElementType_def)

lemma noThrow_visit_Endpoint [simp]: "noThrow (visit_Endpoint ctx n)"
  by (auto simp: visit_Endpoint_def intro!: noThrow_bindF)

lemma noThrow_checkEndpoints [simp]: "noThrow (checkEndpoints ctx es)"
  by (induction es)
     (auto intro!: noThrow_bindF split: prod.splits option.splits irType.splits)

lemma noThrow_visit_SetType [simp]: "noThrow (visit_SetType ctx el es)"
  by (auto simp: visit_SetType_def intro!: noThrow_bindF split: prod.splits option.splits)

lemma noThrow_visit_TupleType [simp]: "noThrow (visit_TupleType ctx el n)"
  by (auto simp: visit_TupleType_def intro!: noThrow_bindF split: prod.splits option.splits)

lemma noThrow_getIndexSets [simp]: "noThrow (getIndexSets ctx is)"
  by (induction "is") (auto intro!: noThrow_bindF split: prod.splits option.splits)

lemma noThrow_blockedTensorType [simp]: "noThrow (blockedTensorType bt is)"
  by (auto simp: blockedTensorType_def intro!: noThrow_bindF)

lemma noThrow_buildNDTensorType [simp]: "noThrow (buildNDTensorType bt is cv)"
  by (auto simp: buildNDTensorType_def intro!: noThrow_bindF split: prod.splits)

lemma noThrow_visit_TensorType [simp]: "noThrow (visit_TensorType ctx t)"
  by (induction t)
     (auto intro!: noThrow_bindF noThrow_case_sum split: prod.splits)

lemma noThrow_getIRType [simp]: "noThrow (getIRType ctx t)"
  by (cases t) auto

lemma noThrow_getVar [simp]: "noThrow (getVar ctx d)"
  by (auto simp: getVar_def intro!: noThrow_bindF split: prod.splits)

lemma noThrow_typeCheckBinaryElwise [simp]: "noThrow (typeCheckBinaryElwise l r)"
  by (auto simp: typeCheckBinaryElwise_def Let_def intro!: noThrow_bindF
      split: option.splits list.splits)

lemma noThrow_eqOperands [simp]: "noThrow (eqOperands rep ops)"
  by (induction rep ops rule: eqOperands.induct)
     (auto intro!: noThrow_bindF split: option.splits)

lemma noThrow_visit_EqExpr [simp]: "noThrow (visit_EqExpr ops)"
  by (auto simp: visit_EqExpr_def intro!: noThrow_bindF)

lemma noThrow_synthesizedActuals [simp]: "noThrow (synthesizedActuals as t n)"
  by (auto simp: synthesizedActuals_def Let_def split: irType.splits)

lemma noThrow_compareActuals [simp]: "noThrow (compareActuals as fs)"
  by (induction as fs rule: compareActuals.induct) (auto intro!: noThrow_bindF)

lemma noThrow_visit_MapExpr [simp]: "noThrow (visit_MapExpr ctx f t ps)"
  by (auto simp: visit_MapExpr_def Let_def intro!: noThrow_bindF
      split: prod.splits option.splits)

lemma noThrow_checkArguments [simp]: "noThrow (checkArguments as fs)"
  by (induction as fs rule: checkArguments.induct)
     (auto intro!: noThrow_bindF split: option.splits)

lemma noThrow_visit_CallExpr [simp]: "noThrow (visit_CallExpr ctx f as)"
  by (auto simp: visit_CallExpr_def Let_def intro!: noThrow_bindF split: option.splits)

lemma noThrow_visit_VarExpr [simp]: "noThrow (visit_VarExpr ctx w s n)"
  by (auto simp: visit_VarExpr_def Let_def intro!: noThrow_bindF)

lemma noThrow_typeCheckDenseTensorLiteral [simp]: "noThrow (typeCheckDenseTensorLiteral lit)"
  by (auto simp: typeCheckDenseTensorLiteral_def Let_def split: sum.splits failure.splits)

lemma noThrow_checkIndex [simp]: "noThrow (checkIndex od i t)"
  by (auto simp: checkIndex_def intro!: noThrow_bindF
      split: option.splits indexSet.splits irType.splits)

lemma noThrow_readIndices:
  "(\<And>p r. p \<in> set ps \<Longrightarrow> r \<in> set_ReadParam p \<Longrightarrow> noThrow r) \<Longrightarrow>
   noThrow (readIndices od dims i ps)"
proof (induction ps arbitrary: i)
  case Nil
  then show ?case by simp
next
  case (Cons p ps)
  have rest: "noThrow (readIndices od dims (Suc i) ps)"
    by (rule Cons.IH) (use Cons.prems in auto)
  show ?case
  proof (cases p)
    case Slice
    then show ?thesis using rest by (auto intro!: noThrow_bindF split: prod.splits)
  next
    case (ExprParam r)
    then have "noThrow r" using Cons.prems [of p r] by simp
    then show ?thesis using rest ExprParam
      by (auto intro!: noThrow_bindF split: prod.splits)
  qed
qed

lemma noThrow_tupleIndex:
  "(\<And>p r. p \<in> set ps \<Longrightarrow> r \<in> set_ReadParam p \<Longrightarrow> noThrow r) \<Longrightarrow>
   noThrow (tupleIndex ps)"
proof -
  assume a: "\<And>p r. p \<in> set ps \<Longrightarrow> r \<in> set_ReadParam p \<Longrightarrow> noThrow r"
  show ?thesis
  proof (cases "length ps \<noteq> 1")
    case True
    then show ?thesis by (simp add: tupleIndex_def)
  next
    case False
    then obtain p where ps: "ps = [p]" by (cases ps) auto
    show ?thesis
    proof (cases p)
      case Slice
      then show ?thesis by (simp add: tupleIndex_def ps)
    next
      case (ExprParam r)
      with a [of p r] ps have "noThrow r" by simp
      then show ?thesis using ExprParam
        by (auto simp: tupleIndex_def ps intro!: noThrow_bindF split: prod.splits option.splits)
    qed
  qed
qed

lemma noThrow_visit_TensorReadExpr:
  "(\<And>p r. p \<in> set ps \<Longrightarrow> r \<in> set_ReadParam p \<Longrightarrow> noThrow r) \<Longrightarrow>
   noThrow (visit_TensorReadExpr lt ps)"
  using noThrow_readIndices [of ps] noThrow_tupleIndex [of ps]
  by (auto simp: visit_TensorReadExpr_def intro!: noThrow_bindF
      split: option.splits irType.splits prod.splits)

lemma noThrow_getFieldType [simp]: "noThrow (getFieldType v f)"
  by (auto simp: getFieldType_def Let_def split: option.splits irType.splits)

lemma noThrow_visit_FieldReadExpr [simp]: "noThrow (visit_FieldReadExpr ctx lt v f)"
  by (auto simp: visit_FieldReadExpr_def intro!: noThrow_bindF
      split: option.splits irType.splits)

lemma noThrow_sequenceF:
  "(\<And>r. r \<in> set rs \<Longrightarrow> noThrow r) \<Longrightarrow> noThrow (sequenceF rs)"
  by (induction rs) (auto intro!: noThrow_bindF)

lemma noThrow_unaryNode: "noThrow r \<Longrightarrow> noThrow (unaryNode rule r)"
  by (auto simp: unaryNode_def intro!: noThrow_bindF split: prod.splits)

lemma noThrow_binaryNode: "noThrow l \<Longrightarrow> noThrow r \<Longrightarrow> noThrow (binaryNode rule l r)"
  by (auto simp: binaryNode_def intro!: noThrow_bindF split: prod.splits)

lemma noThrow_binaryNodeF:
  "noThrow l \<Longrightarrow> noThrow r \<Longrightarrow> (\<And>a b. noThrow (rule a b)) \<Longrightarrow>
   noThrow (binaryNodeF rule l r)"
  by (auto simp: binaryNodeF_def intro!: noThrow_bindF split: prod.splits)

lemma noThrow_inferType: "noThrow (inferType e ctx w s)"
proof (induction e arbitrary: ctx w s)
  case (MapExpr func partialActuals target)
  then show ?case by (auto intro!: noThrow_bindF noThrow_sequenceF)
next
  case (EqExpr operands)
  then show ?case by (auto intro!: noThrow_bindF noThrow_sequenceF)
next
  case (CallExpr func arguments)
  then show ?case
    by (auto simp: inferArgument_def intro!: noThrow_bindF noThrow_sequenceF
        split: option.splits prod.splits)
next
  case (TensorReadExpr tensor indices)
  have "noThrow (visit_TensorReadExpr lt
          (map (map_ReadParam (\<lambda>f. f ctx False s)) (map (map_ReadParam inferType) indices)))"
    for lt
    by (rule noThrow_visit_TensorReadExpr)
       (use TensorReadExpr.IH(2) in \<open>auto simp: ReadParam.set_map\<close>)
  with TensorReadExpr.IH(1) show ?case
    by (auto intro!: noThrow_bindF split: prod.splits)
next
  case (FieldReadExpr setOrElem field)
  then show ?case by (auto intro!: noThrow_bindF split: prod.splits)
qed (auto intro!: noThrow_unaryNode noThrow_binaryNode noThrow_binaryNodeF)
lemma noThrow_stdEqual [simp]: "noThrow (stdEqual xs ys)"
  by (induction xs ys rule: stdEqual.induct) auto

lemma noThrow_checkInitializer [simp]: "noThrow (checkInitializer isConst vt it)"
  by (auto simp: checkInitializer_def intro!: noThrow_bindF split: option.splits)

lemma noThrow_typeCheckVarOrConstDecl [simp]:
  "noThrow (typeCheckVarOrConstDecl decl initVal isConst tc)"
  by (auto simp: typeCheckVarOrConstDecl_def noThrow_inferType intro!: noThrow_bindF
      split: option.splits prod.splits)

lemma noThrow_inferTargets [simp]: "noThrow (inferTargets ctx lhs)"
  by (induction lhs) (auto simp: noThrow_inferType intro!: noThrow_bindF split: prod.splits)

lemma inferTargets_length:
  "inferTargets ctx lhs = Inr (d, ts) \<Longrightarrow> length ts = length lhs"
proof (induction lhs arbitrary: d ts)
  case Nil
  then show ?case by simp
next
  case (Cons l lhs)
  from Cons.prems obtain d' ts' t where "inferTargets ctx lhs = Inr (d', ts')" "ts = t # ts'"
    by (auto simp: bindF_def split: sum.splits prod.splits)
  with Cons.IH show ?case by simp
qed

lemma noThrow_compareTargets:
  "length ls \<le> length es \<Longrightarrow> noThrow (compareTargets ls es)"
  by (induction ls es rule: compareTargets.induct) (auto intro!: noThrow_bindF)

lemma noThrow_declareTargets:
  "(typeChecked \<longrightarrow> length lhs \<le> length es) \<Longrightarrow>
   noThrow (declareTargets typeChecked lhs es ctx)"
proof (induction lhs arbitrary: es ctx)
  case Nil
  then show ?case by simp
next
  case (Cons l lhs)
  have rest: "noThrow (declareTargets typeChecked lhs (tl es) c)" for c
    by (rule Cons.IH) (use Cons.prems in \<open>cases es; auto\<close>)
  have first: "noThrow (case varExprIdent l of
              None \<Rightarrow> Inr ctx
            | Some varName \<Rightarrow>
                if hasSymbol ctx varName then Inr ctx
                else if typeChecked then
                  (case es of
                     [] \<Rightarrow> Inl (Thrown OutOfRange)
                   | e # es' \<Rightarrow> addSymbol ctx (varName, e))
                else addSymbol ctx (varName, None))"
    using Cons.prems by (cases es) (auto split: option.splits)
  show ?case using first rest by (auto intro!: noThrow_bindF)
qed

lemma noThrow_visit_AssignStmt [simp]: "noThrow (visit_AssignStmt lhs expr tc)"
proof -
  have inner: "noThrow
      (let d2 = (case exprType of
                   None \<Rightarrow> []
                 | Some et \<Rightarrow>
                     if length lhs \<noteq> length et then
                       [''cannot assign an expression returning <N> values to <N> targets'']
                     else [])
       in bindF (case exprType of
                   None \<Rightarrow> Inr []
                 | Some et \<Rightarrow> if d2 \<noteq> [] then Inr [] else compareTargets lhsType et) (\<lambda>d3.
          let typeChecked = (exprType \<noteq> None \<and> d2 = [] \<and> d3 = [])
          in bindF (declareTargets typeChecked lhs
                      (case exprType of None \<Rightarrow> [] | Some et \<Rightarrow> et) (tc_ctx tc)) (\<lambda>ctx'.
               Inr (report (d0 @ d1 @ d2 @ d3) (setCtx ctx' tc)))))"
    if "length lhsType = length lhs" for exprType lhsType d0 d1
  proof (cases exprType)
    case None
    then show ?thesis
      by (auto simp: Let_def intro!: noThrow_bindF noThrow_declareTargets)
  next
    case (Some et)
    show ?thesis
    proof (cases "length lhs = length et")
      case True
      with Some that show ?thesis
        by (auto simp: Let_def intro!: noThrow_bindF noThrow_declareTargets
            noThrow_compareTargets)
    next
      case False
      with Some show ?thesis
        by (auto simp: Let_def intro!: noThrow_bindF noThrow_declareTargets)
    qed
  qed
  show ?thesis
  proof (cases "inferType expr (tc_ctx tc) False False")
    case (Inl f)
    with noThrow_inferType [of expr "tc_ctx tc" False False] show ?thesis
      by (cases f) (simp_all add: visit_AssignStmt_def bindF_simps)
  next
    case (Inr x)
    obtain d0 exprType where x: "x = (d0, exprType)" by (cases x)
    show ?thesis
    proof (cases "inferTargets (tc_ctx tc) lhs")
      case (Inl f)
      with noThrow_inferTargets [of "tc_ctx tc" lhs] Inr x show ?thesis
        by (cases f) (simp_all add: visit_AssignStmt_def bindF_simps)
    next
      case r: (Inr y)
      obtain d1 lhsType where y: "y = (d1, lhsType)" by (cases y)
      from r y have "length lhsType = length lhs" using inferTargets_length by simp
      from inner [OF this, of exprType d0 d1] show ?thesis
        unfolding visit_AssignStmt_def Inr x r y bindF_simps prod.case .
    qed
  qed
qed

lemma noThrow_visit_RangeDomain [simp]: "noThrow (visit_RangeDomain l u ctx)"
  by (auto simp: visit_RangeDomain_def noThrow_inferType intro!: noThrow_bindF
      split: prod.splits)

lemma noThrow_visit_PrintStmt [simp]: "noThrow (visit_PrintStmt e tc)"
  by (auto simp: visit_PrintStmt_def noThrow_inferType intro!: noThrow_bindF
      split: prod.splits)

lemma noThrow_leaveScope [simp]: "noThrow (leaveScope tc)"
  by (auto simp: leaveScope_def intro!: noThrow_bindF)

lemma noThrow_checkStmts:
  "(\<And>s tc. s \<in> set ss \<Longrightarrow> noThrow (checkStmt s tc)) \<Longrightarrow> noThrow (checkStmts ss tc)"
proof (induction ss arbitrary: tc)
  case Nil
  then show ?case by simp
next
  case (Cons s ss)
  have "noThrow (checkStmt s tc)" using Cons.prems by simp
  moreover have "noThrow (checkStmts ss tc1)" for tc1
    by (rule Cons.IH) (use Cons.prems in auto)
  ultimately show ?case by (auto intro!: noThrow_case_sum)
qed

lemma noThrow_checkStmt: "noThrow (checkStmt s tc)"
proof (induction s arbitrary: tc)
  case (WhileStmt cond body)
  have "noThrow (checkStmts body tc1)" for tc1
    by (rule noThrow_checkStmts) (use WhileStmt.IH in auto)
  then show ?case
    by (auto simp: noThrow_inferType intro!: noThrow_case_sum noThrow_bindF split: prod.splits)
next
  case (IfStmt cond ifBody elseBody)
  have a: "noThrow (checkStmts ifBody tc1)" for tc1
    by (rule noThrow_checkStmts) (use IfStmt.IH(1) in auto)
  have b: "noThrow (checkStmts body tc1)" if "elseBody = Some body" for tc1 body
    by (rule noThrow_checkStmts) (use IfStmt.IH(2) that in auto)
  show ?case using a b
    by (auto simp: noThrow_inferType intro!: noThrow_case_sum noThrow_bindF
        split: prod.splits option.splits)
next
  case (ForStmt loopVar lower upper body)
  have "noThrow (checkStmts body tc1)" for tc1
    by (rule noThrow_checkStmts) (use ForStmt.IH in auto)
  then show ?case
    by (auto intro!: noThrow_case_sum)
qed auto

lemma noThrow_checkBlock [simp]: "noThrow (checkStmts ss tc)"
  using noThrow_checkStmts noThrow_checkStmt by blast

lemma noThrow_getFields [simp]: "noThrow (getFields ctx fs)"
  by (induction fs) (auto intro!: noThrow_bindF split: prod.splits)

lemma noThrow_declareArguments [simp]: "noThrow (declareArguments args tc)"
  by (induction args tc rule: declareArguments.induct)
     (auto intro!: noThrow_bindF split: prod.splits)

lemma noThrow_declareResults [simp]: "noThrow (declareResults rs tc)"
  by (induction rs tc rule: declareResults.induct)
     (auto intro!: noThrow_bindF split: prod.splits)

lemma noThrow_visit_ProgramElement [simp]: "noThrow (visit_ProgramElement e tc)"
  by (cases e)
     (auto simp: visit_ElementTypeDecl_def visit_ExternDecl_def visit_FuncDecl_def
        intro!: noThrow_bindF split: prod.splits)

lemma noThrow_typeCheck: "noThrow (typeCheck prog tc)"
  by (induction prog arbitrary: tc) (auto intro!: noThrow_bindF)

lemma call_undeclared:
  "\<not> containsFunction ctx f \<Longrightarrow>
   inferType (CallExpr f args) ctx w s
     = Inl (Aborted (IAssert ''ctx.containsFunction(expr->func->ident)''))"
  by simp

lemma ill_typed_initializer:
  assumes "getVar (tc_ctx tc) decl = Inr (d1, (n, Some varT))"
    and "inferType e (tc_ctx tc) False False = Inr (d2, Some [Some initT])"
    and "\<not> alreadyDeclared (tc_ctx tc) n" and "symtable (tc_ctx tc) \<noteq> []"
    and "\<not> isTensor (Some varT)" and "initT \<noteq> varT"
  shows "typeCheckVarOrConstDecl decl (Some e) isConst tc
           = Inl (Aborted (IAssert ''varType.isTensor()''))"
proof -
  from assms(5,6) have "checkInitializer isConst varT (Some [Some initT])
      = Inl (Aborted (IAssert ''varType.isTensor()''))"
    by (auto simp: checkInitializer_def compareTypes_def bindF_def)
  moreover from assms(4) obtain c where
    "addSymbolAccess (tc_ctx tc) n (n, Some varT) (if isConst then Read else ReadWrite) = Inr c"
    by (cases "symtable (tc_ctx tc)") (auto simp: addSymbolAccess_def)
  ultimately show ?thesis
    using typeCheckVarOrConstDecl_eq [OF assms(1) assms(2), of isConst] assms(3)
    by (simp add: bindF_simps)
qed
text \<open>
  Claim C3, as the code has it. No exception leaves the checker: the check of a
  program, of a statement and of an expression each return or abort, and the exception
  the dense-literal helper raises is caught at the literal node and becomes its
  diagnostic. But not every failure is a diagnostic: a call to a function that is not
  declared fails the assertion at the head of \<^verbatim>\<open>visit(CallExpr)\<close>, and an
  initializer of another type than a declared type that is not a tensor fails the
  assertion of \<^verbatim>\<open>typeCheckVarOrConstDecl\<close>; both abort the check.
\<close>

theorem no_exception_escapes:
  "noThrow (typeCheck prog tc) \<and>
   noThrow (checkStmt s tc) \<and>
   noThrow (inferType e ctx w sk) \<and>
   (getDenseTensorType lit = Inl (Thrown err) \<longrightarrow>
      inferType (DenseLiteral lit) ctx w sk = Inr ([what err], None)) \<and>
   (\<not> containsFunction ctx f \<longrightarrow>
      inferType (CallExpr f args) ctx w sk
        = Inl (Aborted (IAssert ''ctx.containsFunction(expr->func->ident)''))) \<and>
   (getVar (tc_ctx tc) decl = Inr (d1, (n, Some varT)) \<and>
    inferType init (tc_ctx tc) False False = Inr (d2, Some [Some initT]) \<and>
    \<not> alreadyDeclared (tc_ctx tc) n \<and> symtable (tc_ctx tc) \<noteq> [] \<and>
    \<not> isTensor (Some varT) \<and> initT \<noteq> varT \<longrightarrow>
      typeCheckVarOrConstDecl decl (Some init) isConst tc
        = Inl (Aborted (IAssert ''varType.isTensor()'')))"
proof (intro conjI impI)
  show "noThrow (typeCheck prog tc)" by (rule noThrow_typeCheck)
  show "noThrow (checkStmt s tc)" by (rule noThrow_checkStmt)
  show "noThrow (inferType e ctx w sk)" by (rule noThrow_inferType)
  show "inferType (DenseLiteral lit) ctx w sk = Inr ([what err], None)"
    if "getDenseTensorType lit = Inl (Thrown err)"
    using that by (simp add: typeCheckDenseTensorLiteral_def)
  show "inferType (CallExpr f args) ctx w sk
        = Inl (Aborted (IAssert ''ctx.containsFunction(expr->func->ident)''))"
    if "\<not> containsFunction ctx f"
    using that by (rule call_undeclared)
  show "typeCheckVarOrConstDecl decl (Some init) isConst tc
        = Inl (Aborted (IAssert ''varType.isTensor()''))"
    if "getVar (tc_ctx tc) decl = Inr (d1, (n, Some varT)) \<and>
    inferType init (tc_ctx tc) False False = Inr (d2, Some [Some initT]) \<and>
    \<not> alreadyDeclared (tc_ctx tc) n \<and> symtable (tc_ctx tc) \<noteq> [] \<and>
    \<not> isTensor (Some varT) \<and> initT \<noteq> varT"
    using that ill_typed_initializer by blast
qed

theorem no_exception_escapes_witness:
  "noThrow (typeCheck undeclaredCall (newTypeChecker [])) \<and>
   noThrow (checkStmt pointVar springsChecker) \<and>
   getDenseTensorType (NDTensorLiteral [IntVectorLiteral [1, 2] False,
       IntVectorLiteral [1, 2, 3] False] False) = Inl (Thrown DimError) \<and>
   inferType (DenseLiteral (NDTensorLiteral [IntVectorLiteral [1, 2] False,
       IntVectorLiteral [1, 2, 3] False] False)) springsCtx False False
     = Inr ([what DimError], None) \<and>
   \<not> containsFunction springsCtx ''h'' \<and>
   inferType (CallExpr ''h'' []) springsCtx False False
     = Inl (Aborted (IAssert ''ctx.containsFunction(expr->func->ident)'')) \<and>
   getVar (tc_ctx springsChecker) \<lparr>ident = ''q'', declType = ElementType ''Point''\<rparr>
     = Inr ([], (''q'', Some PointT)) \<and>
   \<not> isTensor (Some PointT) \<and>
   checkStmt pointVar springsChecker = Inl (Aborted (IAssert ''varType.isTensor()''))"
proof -
  have l: "getDenseTensorType (NDTensorLiteral [IntVectorLiteral [1, 2] False,
       IntVectorLiteral [1, 2, 3] False] False) = Inl (Thrown DimError)"
    by (simp add: dense_simps)
  have c: "\<not> containsFunction springsCtx ''h''"
    by (simp add: containsFunction_def springsCtx_def)
  have g: "getVar (tc_ctx springsChecker) \<lparr>ident = ''q'', declType = ElementType ''Point''\<rparr>
     = Inr ([], (''q'', Some PointT))"
    by (simp add: springsChecker_def springsCtx_def getVar_def visit_ElementType_def
        containsElementType_def bindF_def)
  have i: "inferType (FloatLiteral 1) (tc_ctx springsChecker) False False
     = Inr ([], Some [Some ir_Float])"
    by simp
  have h: "\<not> alreadyDeclared (tc_ctx springsChecker) ''q''"
    "symtable (tc_ctx springsChecker) \<noteq> []"
    "\<not> isTensor (Some PointT)" "ir_Float \<noteq> PointT"
    by (simp_all add: alreadyDeclared_def hasSymbolLocal_def springsChecker_def springsCtx_def
        PointT_def ir_Float_def)
  note t = no_exception_escapes
  have v: "checkStmt pointVar springsChecker = Inl (Aborted (IAssert ''varType.isTensor()''))"
    using g i h
      t [where tc = springsChecker
          and decl = "\<lparr>ident = ''q'', declType = ElementType ''Point''\<rparr>"
          and ?d1.0 = "[]" and n = "''q''" and varT = PointT
          and init = "FloatLiteral 1" and ?d2.0 = "[]" and initT = ir_Float
          and isConst = False]
    by (simp add: pointVar_def)
  show ?thesis
    using l c g h(3) v
      t [where prog = undeclaredCall and tc = "newTypeChecker []"]
      t [where s = pointVar and tc = springsChecker]
      t [where lit = "NDTensorLiteral [IntVectorLiteral [1, 2] False,
           IntVectorLiteral [1, 2, 3] False] False" and err = DimError
         and ctx = springsCtx and w = False and sk = False
         and f = "''h''" and args = "[]"]
    by simp
qed

text \<open>
  Claim C3 as stated fails in both cases it names: the check of a procedure that calls
  the undeclared \<open>h\<close> and the check of \<open>var q : Point = 1.0\<close> each abort on an
  internal assertion and report no diagnostic.
\<close>

theorem no_exception_escapes_counterexample:
  "typeCheck undeclaredCall (newTypeChecker [])
     = Inl (Aborted (IAssert ''ctx.containsFunction(expr->func->ident)'')) \<and>
   checkStmt pointVar springsChecker = Inl (Aborted (IAssert ''varType.isTensor()''))"
  by (simp add: undeclaredCall_def pointVar_def springsChecker_def springsCtx_def
      PointT_def checker_simps visit_FuncDecl_def enterScope_def scope_def
      visit_AssignStmt_def containsFunction_def visit_ElementType_def containsElementType_def
      alreadyDeclared_def)

end
